theory Spec2Isabelle
  imports Main "HOL-Library.Word" "HOL-Library.Code_Target_Numeral"
begin

unbundle bit_operations_syntax

section \<open>The platform\<close>

text \<open>
  \<^verbatim>\<open>stty.c\<close> is written against \<^verbatim>\<open><termios.h>\<close>, which belongs to the C library and
  not to the repository.  The development fixes the target the two source files are built
  for most often, Linux with glibc on x86-64: \<^verbatim>\<open>tcflag_t\<close> and \<^verbatim>\<open>speed_t\<close> are 32-bit
  unsigned integers, \<^verbatim>\<open>cc_t\<close> is an unsigned byte, \<^verbatim>\<open>unsigned long\<close> has 64 bits, the
  control-character array has \<^verbatim>\<open>NCCS = 32\<close> entries, and the flag bits have the values of
  \<^verbatim>\<open>asm-generic/termbits.h\<close>.  Every \<^verbatim>\<open>#ifdef\<close> of the source is resolved for this target.
\<close>

type_synonym tcflag_t = "32 word"
type_synonym cc_t = "8 word"
type_synonym speed_t = "32 word"
type_synonym ulong = "64 word"

definition NCCS :: nat where "NCCS = 32"

definition POSIX_VDISABLE :: cc_t where "POSIX_VDISABLE = 0"

subsection \<open>Slots of the control-character array\<close>

definition VINTR :: nat where "VINTR = 0"
definition VQUIT :: nat where "VQUIT = 1"
definition VERASE :: nat where "VERASE = 2"
definition VKILL :: nat where "VKILL = 3"
definition VEOF :: nat where "VEOF = 4"
definition VTIME :: nat where "VTIME = 5"
definition VMIN :: nat where "VMIN = 6"
definition VSWTCH :: nat where "VSWTCH = 7"
definition VSTART :: nat where "VSTART = 8"
definition VSTOP :: nat where "VSTOP = 9"
definition VSUSP :: nat where "VSUSP = 10"
definition VEOL :: nat where "VEOL = 11"
definition VREPRINT :: nat where "VREPRINT = 12"
definition VFLUSHO :: nat where "VFLUSHO = 13"
definition VWERASE :: nat where "VWERASE = 14"
definition VLNEXT :: nat where "VLNEXT = 15"
definition VEOL2 :: nat where "VEOL2 = 16"

lemmas slot_defs = VINTR_def VQUIT_def VERASE_def VKILL_def VEOF_def VTIME_def VMIN_def
  VSWTCH_def VSTART_def VSTOP_def VSUSP_def VEOL_def VREPRINT_def VFLUSHO_def VWERASE_def
  VLNEXT_def VEOL2_def

subsection \<open>Bits of the four flag words\<close>

definition IGNBRK :: tcflag_t where "IGNBRK = 0x1"
definition BRKINT :: tcflag_t where "BRKINT = 0x2"
definition IGNPAR :: tcflag_t where "IGNPAR = 0x4"
definition PARMRK :: tcflag_t where "PARMRK = 0x8"
definition INPCK :: tcflag_t where "INPCK = 0x10"
definition ISTRIP :: tcflag_t where "ISTRIP = 0x20"
definition INLCR :: tcflag_t where "INLCR = 0x40"
definition IGNCR :: tcflag_t where "IGNCR = 0x80"
definition ICRNL :: tcflag_t where "ICRNL = 0x100"
definition IUCLC :: tcflag_t where "IUCLC = 0x200"
definition IXON :: tcflag_t where "IXON = 0x400"
definition IXANY :: tcflag_t where "IXANY = 0x800"
definition IXOFF :: tcflag_t where "IXOFF = 0x1000"
definition IMAXBEL :: tcflag_t where "IMAXBEL = 0x2000"
definition IUTF8 :: tcflag_t where "IUTF8 = 0x4000"

lemmas iflag_defs = IGNBRK_def BRKINT_def IGNPAR_def PARMRK_def INPCK_def ISTRIP_def
  INLCR_def IGNCR_def ICRNL_def IUCLC_def IXON_def IXANY_def IXOFF_def IMAXBEL_def IUTF8_def

definition OPOST :: tcflag_t where "OPOST = 0x1"
definition OLCUC :: tcflag_t where "OLCUC = 0x2"
definition ONLCR :: tcflag_t where "ONLCR = 0x4"
definition OCRNL :: tcflag_t where "OCRNL = 0x8"
definition ONOCR :: tcflag_t where "ONOCR = 0x10"
definition ONLRET :: tcflag_t where "ONLRET = 0x20"
definition OFILL :: tcflag_t where "OFILL = 0x40"
definition OFDEL :: tcflag_t where "OFDEL = 0x80"
definition NLDLY :: tcflag_t where "NLDLY = 0x100"
definition NL0 :: tcflag_t where "NL0 = 0x0"
definition NL1 :: tcflag_t where "NL1 = 0x100"
definition CRDLY :: tcflag_t where "CRDLY = 0x600"
definition CR0 :: tcflag_t where "CR0 = 0x0"
definition CR1 :: tcflag_t where "CR1 = 0x200"
definition CR2 :: tcflag_t where "CR2 = 0x400"
definition CR3 :: tcflag_t where "CR3 = 0x600"
definition TABDLY :: tcflag_t where "TABDLY = 0x1800"
definition TAB0 :: tcflag_t where "TAB0 = 0x0"
definition TAB1 :: tcflag_t where "TAB1 = 0x800"
definition TAB2 :: tcflag_t where "TAB2 = 0x1000"
definition TAB3 :: tcflag_t where "TAB3 = 0x1800"
definition BSDLY :: tcflag_t where "BSDLY = 0x2000"
definition BS0 :: tcflag_t where "BS0 = 0x0"
definition BS1 :: tcflag_t where "BS1 = 0x2000"
definition VTDLY :: tcflag_t where "VTDLY = 0x4000"
definition VT0 :: tcflag_t where "VT0 = 0x0"
definition VT1 :: tcflag_t where "VT1 = 0x4000"
definition FFDLY :: tcflag_t where "FFDLY = 0x8000"
definition FF0 :: tcflag_t where "FF0 = 0x0"
definition FF1 :: tcflag_t where "FF1 = 0x8000"

lemmas oflag_defs = OPOST_def OLCUC_def ONLCR_def OCRNL_def ONOCR_def ONLRET_def OFILL_def
  OFDEL_def NLDLY_def NL0_def NL1_def CRDLY_def CR0_def CR1_def CR2_def CR3_def TABDLY_def
  TAB0_def TAB1_def TAB2_def TAB3_def BSDLY_def BS0_def BS1_def VTDLY_def VT0_def VT1_def
  FFDLY_def FF0_def FF1_def

definition CSIZE :: tcflag_t where "CSIZE = 0x30"
definition CS5 :: tcflag_t where "CS5 = 0x0"
definition CS6 :: tcflag_t where "CS6 = 0x10"
definition CS7 :: tcflag_t where "CS7 = 0x20"
definition CS8 :: tcflag_t where "CS8 = 0x30"
definition CSTOPB :: tcflag_t where "CSTOPB = 0x40"
definition CREAD :: tcflag_t where "CREAD = 0x80"
definition PARENB :: tcflag_t where "PARENB = 0x100"
definition PARODD :: tcflag_t where "PARODD = 0x200"
definition HUPCL :: tcflag_t where "HUPCL = 0x400"
definition CLOCAL :: tcflag_t where "CLOCAL = 0x800"
definition CMSPAR :: tcflag_t where "CMSPAR = 0x40000000"
definition CRTSCTS :: tcflag_t where "CRTSCTS = 0x80000000"

lemmas cflag_defs = CSIZE_def CS5_def CS6_def CS7_def CS8_def CSTOPB_def CREAD_def PARENB_def
  PARODD_def HUPCL_def CLOCAL_def CMSPAR_def CRTSCTS_def

definition ISIG :: tcflag_t where "ISIG = 0x1"
definition ICANON :: tcflag_t where "ICANON = 0x2"
definition XCASE :: tcflag_t where "XCASE = 0x4"
definition ECHO :: tcflag_t where "ECHO = 0x8"
definition ECHOE :: tcflag_t where "ECHOE = 0x10"
definition ECHOK :: tcflag_t where "ECHOK = 0x20"
definition ECHONL :: tcflag_t where "ECHONL = 0x40"
definition NOFLSH :: tcflag_t where "NOFLSH = 0x80"
definition TOSTOP :: tcflag_t where "TOSTOP = 0x100"
definition ECHOCTL :: tcflag_t where "ECHOCTL = 0x200"
definition ECHOPRT :: tcflag_t where "ECHOPRT = 0x400"
definition ECHOKE :: tcflag_t where "ECHOKE = 0x800"
definition FLUSHO :: tcflag_t where "FLUSHO = 0x1000"
definition IEXTEN :: tcflag_t where "IEXTEN = 0x8000"
definition EXTPROC :: tcflag_t where "EXTPROC = 0x10000"

lemmas lflag_defs = ISIG_def ICANON_def XCASE_def ECHO_def ECHOE_def ECHOK_def ECHONL_def
  NOFLSH_def TOSTOP_def ECHOCTL_def ECHOPRT_def ECHOKE_def FLUSHO_def IEXTEN_def EXTPROC_def

subsection \<open>Canonical values of the control characters\<close>

text \<open>\<^verbatim>\<open>#define Control(c) ((c) & 0x1f)\<close>\<close>

definition Control :: "char \<Rightarrow> cc_t" where
  "Control c = of_char c AND 0x1f"

definition CINTR :: cc_t where "CINTR = Control CHR ''c''"
definition CQUIT :: cc_t where "CQUIT = 28"
definition CERASE :: cc_t where "CERASE = 127"
definition CKILL :: cc_t where "CKILL = Control CHR ''u''"
definition CEOF :: cc_t where "CEOF = Control CHR ''d''"
definition CEOL :: cc_t where "CEOL = POSIX_VDISABLE"
definition CEOL2 :: cc_t where "CEOL2 = POSIX_VDISABLE"
definition CSWTCH :: cc_t where "CSWTCH = POSIX_VDISABLE"
definition CSTART :: cc_t where "CSTART = Control CHR ''q''"
definition CSTOP :: cc_t where "CSTOP = Control CHR ''s''"
definition CSUSP :: cc_t where "CSUSP = Control CHR ''z''"
definition CRPRNT :: cc_t where "CRPRNT = Control CHR ''r''"
definition CWERASE :: cc_t where "CWERASE = Control CHR ''w''"
definition CLNEXT :: cc_t where "CLNEXT = Control CHR ''v''"
definition CFLUSHO :: cc_t where "CFLUSHO = Control CHR ''o''"

lemmas cchar_defs = Control_def POSIX_VDISABLE_def CINTR_def CQUIT_def CERASE_def CKILL_def
  CEOF_def CEOL_def CEOL2_def CSWTCH_def CSTART_def CSTOP_def CSUSP_def CRPRNT_def
  CWERASE_def CLNEXT_def CFLUSHO_def

section \<open>The data model\<close>

text \<open>\<^verbatim>\<open>struct termios\<close>: the mode snapshot.\<close>

record termios =
  c_iflag :: tcflag_t
  c_oflag :: tcflag_t
  c_cflag :: tcflag_t
  c_lflag :: tcflag_t
  c_line :: cc_t
  c_cc :: "cc_t list"
  c_ispeed :: speed_t
  c_ospeed :: speed_t

text \<open>The array \<^verbatim>\<open>c_cc\<close> has exactly \<^verbatim>\<open>NCCS\<close> entries in every snapshot the program holds.\<close>

definition wf_termios :: "termios \<Rightarrow> bool" where
  "wf_termios m \<longleftrightarrow> length (c_cc m) = NCCS"

text \<open>\<^verbatim>\<open>struct termios mode = {0};\<close>\<close>

definition zero_termios :: termios where
  "zero_termios = \<lparr>c_iflag = 0, c_oflag = 0, c_cflag = 0, c_lflag = 0, c_line = 0,
     c_cc = replicate NCCS 0, c_ispeed = 0, c_ospeed = 0\<rparr>"

datatype mode_type = control | input | output_flag | local | combination

text \<open>Flags for \<^verbatim>\<open>struct mode_info\<close>.\<close>

definition SANE_SET :: "8 word" where "SANE_SET = 1"
definition SANE_UNSET :: "8 word" where "SANE_UNSET = 2"
definition REV :: "8 word" where "REV = 4"
definition OMIT :: "8 word" where "OMIT = 8"
definition NO_SETATTR :: "8 word" where "NO_SETATTR = 16"

lemmas mflag_defs = SANE_SET_def SANE_UNSET_def REV_def OMIT_def NO_SETATTR_def

text \<open>
  \<^verbatim>\<open>struct mode_info\<close>.  The members \<^verbatim>\<open>bits\<close> and \<^verbatim>\<open>mask\<close> are \<^verbatim>\<open>unsigned long\<close> in the
  source but only ever hold \<^verbatim>\<open>tcflag_t\<close> constants and are only combined with \<^verbatim>\<open>tcflag_t\<close>
  words, so they are kept at that width.  The member \<^verbatim>\<open>mask\<close> is called \<open>mask_bits\<close> here.
\<close>

record mode_info =
  name :: string
  type :: mode_type
  flags :: "8 word"
  bits :: tcflag_t
  mask_bits :: tcflag_t

definition mk_mode :: "string \<Rightarrow> mode_type \<Rightarrow> 8 word \<Rightarrow> tcflag_t \<Rightarrow> tcflag_t \<Rightarrow> mode_info" where
  "mk_mode n t f b k = \<lparr>name = n, type = t, flags = f, bits = b, mask_bits = k\<rparr>"

text \<open>\<^verbatim>\<open>struct control_info\<close>.\<close>

record control_info =
  cname :: string
  saneval :: cc_t
  offset :: nat

definition mk_control :: "string \<Rightarrow> cc_t \<Rightarrow> nat \<Rightarrow> control_info" where
  "mk_control n v off = \<lparr>cname = n, saneval = v, offset = off\<rparr>"


section \<open>The registry\<close>

text \<open>The table \<^verbatim>\<open>mode_info[]\<close>, in the order of the source (the same in both files).\<close>

definition mode_info :: "mode_info list" where
  "mode_info = [
    mk_mode ''parenb'' control REV PARENB 0,
    mk_mode ''parodd'' control REV PARODD 0,
    mk_mode ''cmspar'' control REV CMSPAR 0,
    mk_mode ''cs5'' control 0 CS5 CSIZE,
    mk_mode ''cs6'' control 0 CS6 CSIZE,
    mk_mode ''cs7'' control 0 CS7 CSIZE,
    mk_mode ''cs8'' control 0 CS8 CSIZE,
    mk_mode ''hupcl'' control REV HUPCL 0,
    mk_mode ''hup'' control (REV OR OMIT) HUPCL 0,
    mk_mode ''cstopb'' control REV CSTOPB 0,
    mk_mode ''cread'' control (SANE_SET OR REV) CREAD 0,
    mk_mode ''clocal'' control REV CLOCAL 0,
    mk_mode ''crtscts'' control REV CRTSCTS 0,

    mk_mode ''ignbrk'' input (SANE_UNSET OR REV) IGNBRK 0,
    mk_mode ''brkint'' input (SANE_SET OR REV) BRKINT 0,
    mk_mode ''ignpar'' input REV IGNPAR 0,
    mk_mode ''parmrk'' input REV PARMRK 0,
    mk_mode ''inpck'' input REV INPCK 0,
    mk_mode ''istrip'' input REV ISTRIP 0,
    mk_mode ''inlcr'' input (SANE_UNSET OR REV) INLCR 0,
    mk_mode ''igncr'' input (SANE_UNSET OR REV) IGNCR 0,
    mk_mode ''icrnl'' input (SANE_SET OR REV) ICRNL 0,
    mk_mode ''ixon'' input REV IXON 0,
    mk_mode ''ixoff'' input (SANE_UNSET OR REV) IXOFF 0,
    mk_mode ''tandem'' input (REV OR OMIT) IXOFF 0,
    mk_mode ''iuclc'' input (SANE_UNSET OR REV) IUCLC 0,
    mk_mode ''ixany'' input (SANE_UNSET OR REV) IXANY 0,
    mk_mode ''imaxbel'' input (SANE_SET OR REV) IMAXBEL 0,
    mk_mode ''iutf8'' input (SANE_UNSET OR REV) IUTF8 0,

    mk_mode ''opost'' output_flag (SANE_SET OR REV) OPOST 0,
    mk_mode ''olcuc'' output_flag (SANE_UNSET OR REV) OLCUC 0,
    mk_mode ''ocrnl'' output_flag (SANE_UNSET OR REV) OCRNL 0,
    mk_mode ''onlcr'' output_flag (SANE_SET OR REV) ONLCR 0,
    mk_mode ''onocr'' output_flag (SANE_UNSET OR REV) ONOCR 0,
    mk_mode ''onlret'' output_flag (SANE_UNSET OR REV) ONLRET 0,
    mk_mode ''ofill'' output_flag (SANE_UNSET OR REV) OFILL 0,
    mk_mode ''ofdel'' output_flag (SANE_UNSET OR REV) OFDEL 0,
    mk_mode ''nl1'' output_flag SANE_UNSET NL1 NLDLY,
    mk_mode ''nl0'' output_flag SANE_SET NL0 NLDLY,
    mk_mode ''cr3'' output_flag SANE_UNSET CR3 CRDLY,
    mk_mode ''cr2'' output_flag SANE_UNSET CR2 CRDLY,
    mk_mode ''cr1'' output_flag SANE_UNSET CR1 CRDLY,
    mk_mode ''cr0'' output_flag SANE_SET CR0 CRDLY,
    mk_mode ''tab3'' output_flag SANE_UNSET TAB3 TABDLY,
    mk_mode ''tab2'' output_flag SANE_UNSET TAB2 TABDLY,
    mk_mode ''tab1'' output_flag SANE_UNSET TAB1 TABDLY,
    mk_mode ''tab0'' output_flag SANE_SET TAB0 TABDLY,
    mk_mode ''bs1'' output_flag SANE_UNSET BS1 BSDLY,
    mk_mode ''bs0'' output_flag SANE_SET BS0 BSDLY,
    mk_mode ''vt1'' output_flag SANE_UNSET VT1 VTDLY,
    mk_mode ''vt0'' output_flag SANE_SET VT0 VTDLY,
    mk_mode ''ff1'' output_flag SANE_UNSET FF1 FFDLY,
    mk_mode ''ff0'' output_flag SANE_SET FF0 FFDLY,

    mk_mode ''isig'' local (SANE_SET OR REV) ISIG 0,
    mk_mode ''icanon'' local (SANE_SET OR REV) ICANON 0,
    mk_mode ''iexten'' local (SANE_SET OR REV) IEXTEN 0,
    mk_mode ''echo'' local (SANE_SET OR REV) ECHO 0,
    mk_mode ''echoe'' local (SANE_SET OR REV) ECHOE 0,
    mk_mode ''crterase'' local (REV OR OMIT) ECHOE 0,
    mk_mode ''echok'' local (SANE_SET OR REV) ECHOK 0,
    mk_mode ''echonl'' local (SANE_UNSET OR REV) ECHONL 0,
    mk_mode ''noflsh'' local (SANE_UNSET OR REV) NOFLSH 0,
    mk_mode ''xcase'' local (SANE_UNSET OR REV) XCASE 0,
    mk_mode ''tostop'' local (SANE_UNSET OR REV) TOSTOP 0,
    mk_mode ''echoprt'' local (SANE_UNSET OR REV) ECHOPRT 0,
    mk_mode ''prterase'' local (REV OR OMIT) ECHOPRT 0,
    mk_mode ''echoctl'' local (SANE_SET OR REV) ECHOCTL 0,
    mk_mode ''ctlecho'' local (REV OR OMIT) ECHOCTL 0,
    mk_mode ''echoke'' local (SANE_SET OR REV) ECHOKE 0,
    mk_mode ''crtkill'' local (REV OR OMIT) ECHOKE 0,
    mk_mode ''flusho'' local (SANE_UNSET OR REV) FLUSHO 0,
    mk_mode ''extproc'' local (SANE_UNSET OR REV) EXTPROC 0,

    mk_mode ''evenp'' combination (REV OR OMIT) 0 0,
    mk_mode ''parity'' combination (REV OR OMIT) 0 0,
    mk_mode ''oddp'' combination (REV OR OMIT) 0 0,
    mk_mode ''nl'' combination (REV OR OMIT) 0 0,
    mk_mode ''ek'' combination OMIT 0 0,
    mk_mode ''sane'' combination OMIT 0 0,
    mk_mode ''cooked'' combination (REV OR OMIT) 0 0,
    mk_mode ''raw'' combination (REV OR OMIT) 0 0,
    mk_mode ''pass8'' combination (REV OR OMIT) 0 0,
    mk_mode ''litout'' combination (REV OR OMIT) 0 0,
    mk_mode ''cbreak'' combination (REV OR OMIT) 0 0,
    mk_mode ''decctlq'' combination (REV OR OMIT) 0 0,
    mk_mode ''tabs'' combination (REV OR OMIT) 0 0,
    mk_mode ''lcase'' combination (REV OR OMIT) 0 0,
    mk_mode ''LCASE'' combination (REV OR OMIT) 0 0,
    mk_mode ''crt'' combination OMIT 0 0,
    mk_mode ''dec'' combination OMIT 0 0]"

text \<open>The table \<^verbatim>\<open>control_info[]\<close>; \<^verbatim>\<open>min\<close> and \<^verbatim>\<open>time\<close> are last.\<close>

definition control_info :: "control_info list" where
  "control_info = [
    mk_control ''intr'' CINTR VINTR,
    mk_control ''quit'' CQUIT VQUIT,
    mk_control ''erase'' CERASE VERASE,
    mk_control ''kill'' CKILL VKILL,
    mk_control ''eof'' CEOF VEOF,
    mk_control ''eol'' CEOL VEOL,
    mk_control ''eol2'' CEOL2 VEOL2,
    mk_control ''swtch'' CSWTCH VSWTCH,
    mk_control ''start'' CSTART VSTART,
    mk_control ''stop'' CSTOP VSTOP,
    mk_control ''susp'' CSUSP VSUSP,
    mk_control ''rprnt'' CRPRNT VREPRINT,
    mk_control ''werase'' CWERASE VWERASE,
    mk_control ''lnext'' CLNEXT VLNEXT,
    mk_control ''flush'' CFLUSHO VFLUSHO,
    mk_control ''discard'' CFLUSHO VFLUSHO,
    mk_control ''min'' 1 VMIN,
    mk_control ''time'' 0 VTIME]"

section \<open>The mutation engine\<close>

text \<open>
  \<^verbatim>\<open>mode_type_flag\<close> returns a pointer to one of the four flag words, or the null pointer for
  a combination.  The pointer is a tag naming the member; \<open>load_flag\<close> reads through it
  and \<open>store_flag\<close> writes through it.
\<close>

datatype flag_ptr = cflag_ptr | iflag_ptr | oflag_ptr | lflag_ptr

fun mode_type_flag :: "mode_type \<Rightarrow> flag_ptr option" where
  "mode_type_flag control = Some cflag_ptr"
| "mode_type_flag input = Some iflag_ptr"
| "mode_type_flag output_flag = Some oflag_ptr"
| "mode_type_flag local = Some lflag_ptr"
| "mode_type_flag combination = None"

fun load_flag :: "flag_ptr \<Rightarrow> termios \<Rightarrow> tcflag_t" where
  "load_flag cflag_ptr m = c_cflag m"
| "load_flag iflag_ptr m = c_iflag m"
| "load_flag oflag_ptr m = c_oflag m"
| "load_flag lflag_ptr m = c_lflag m"

fun store_flag :: "flag_ptr \<Rightarrow> tcflag_t \<Rightarrow> termios \<Rightarrow> termios" where
  "store_flag cflag_ptr v m = m\<lparr>c_cflag := v\<rparr>"
| "store_flag iflag_ptr v m = m\<lparr>c_iflag := v\<rparr>"
| "store_flag oflag_ptr v m = m\<lparr>c_oflag := v\<rparr>"
| "store_flag lflag_ptr v m = m\<lparr>c_lflag := v\<rparr>"

text \<open>\<^verbatim>\<open>mode->c_cc[i] = v\<close>\<close>

definition set_cc :: "nat \<Rightarrow> cc_t \<Rightarrow> termios \<Rightarrow> termios" where
  "set_cc i v m = m\<lparr>c_cc := (c_cc m)[i := v]\<rparr>"

subsection \<open>\<^verbatim>\<open>sane_mode\<close>\<close>

fun sane_cc_loop :: "control_info list \<Rightarrow> termios \<Rightarrow> termios" where
  "sane_cc_loop [] m = m"
| "sane_cc_loop (ci # cis) m =
     (if VMIN = VEOF \<and> cname ci = ''min'' then m
      else sane_cc_loop cis (set_cc (offset ci) (saneval ci) m))"

definition sane_flag_step :: "mode_info \<Rightarrow> termios \<Rightarrow> termios" where
  "sane_flag_step mi m =
     (if flags mi AND NO_SETATTR \<noteq> 0 then m
      else if flags mi AND (SANE_SET OR SANE_UNSET) \<noteq> 0 then
        (case mode_type_flag (type mi) of
           None \<Rightarrow> m
         | Some bitsp \<Rightarrow>
             if flags mi AND SANE_SET \<noteq> 0
             then store_flag bitsp ((load_flag bitsp m AND NOT (mask_bits mi)) OR bits mi) m
             else store_flag bitsp (load_flag bitsp m AND NOT (mask_bits mi OR bits mi)) m)
      else m)"

fun sane_flag_loop :: "mode_info list \<Rightarrow> termios \<Rightarrow> termios" where
  "sane_flag_loop [] m = m"
| "sane_flag_loop (mi # mis) m = sane_flag_loop mis (sane_flag_step mi m)"

definition sane_mode :: "termios \<Rightarrow> termios" where
  "sane_mode m = sane_flag_loop mode_info (sane_cc_loop control_info m)"

text \<open>The same function in \<^verbatim>\<open>stty-gpt-4o.c\<close>.\<close>

definition sane_flag_step_gpt4o :: "mode_info \<Rightarrow> termios \<Rightarrow> termios" where
  "sane_flag_step_gpt4o mi m =
     (if flags mi AND NO_SETATTR \<noteq> 0 then m
      else case mode_type_flag (type mi) of
        None \<Rightarrow> m
      | Some bitsp \<Rightarrow>
          if flags mi AND SANE_SET \<noteq> 0
          then store_flag bitsp ((load_flag bitsp m AND NOT (mask_bits mi)) OR bits mi) m
          else if flags mi AND SANE_UNSET \<noteq> 0
          then store_flag bitsp (load_flag bitsp m AND NOT (mask_bits mi) AND NOT (bits mi)) m
          else m)"

fun sane_flag_loop_gpt4o :: "mode_info list \<Rightarrow> termios \<Rightarrow> termios" where
  "sane_flag_loop_gpt4o [] m = m"
| "sane_flag_loop_gpt4o (mi # mis) m = sane_flag_loop_gpt4o mis (sane_flag_step_gpt4o mi m)"

definition sane_mode_gpt4o :: "termios \<Rightarrow> termios" where
  "sane_mode_gpt4o m = sane_flag_loop_gpt4o mode_info (sane_cc_loop control_info m)"

subsection \<open>The combination settings of \<^verbatim>\<open>stty-gemini-2.5-pro.c\<close>\<close>

definition set_raw_cooked_logic :: "termios \<Rightarrow> bool \<Rightarrow> termios" where
  "set_raw_cooked_logic m cooked =
     (if cooked then
        (let m1 = m\<lparr>c_iflag := c_iflag m OR (BRKINT OR IGNPAR OR ISTRIP OR ICRNL OR IXON)\<rparr>;
             m2 = m1\<lparr>c_oflag := c_oflag m1 OR OPOST\<rparr>;
             m3 = m2\<lparr>c_lflag := c_lflag m2 OR (ISIG OR ICANON)\<rparr>;
             m4 = (if VMIN = VEOF then set_cc VEOF CEOF m3 else m3);
             m5 = (if VTIME = VEOL then set_cc VEOL CEOL m4 else m4)
         in m5)
      else
        (let m1 = m\<lparr>c_iflag := 0\<rparr>;
             m2 = m1\<lparr>c_oflag := c_oflag m1 AND NOT OPOST\<rparr>;
             m3 = m2\<lparr>c_lflag := c_lflag m2 AND NOT (ISIG OR ICANON OR XCASE)\<rparr>;
             m4 = set_cc VMIN 1 m3;
             m5 = set_cc VTIME 0 m4
         in m5))"

definition set_parity_mode :: "termios \<Rightarrow> bool \<Rightarrow> termios" where
  "set_parity_mode m reversed =
     (if reversed then m\<lparr>c_cflag := (c_cflag m AND NOT (PARENB OR CSIZE)) OR CS8\<rparr>
      else m\<lparr>c_cflag := (c_cflag m AND NOT (PARODD OR CSIZE)) OR PARENB OR CS7\<rparr>)"

definition set_oddp_mode :: "termios \<Rightarrow> bool \<Rightarrow> termios" where
  "set_oddp_mode m reversed =
     (if reversed then m\<lparr>c_cflag := (c_cflag m AND NOT (PARENB OR CSIZE)) OR CS8\<rparr>
      else m\<lparr>c_cflag := (c_cflag m AND NOT CSIZE) OR CS7 OR PARODD OR PARENB\<rparr>)"

definition set_nl_mode :: "termios \<Rightarrow> bool \<Rightarrow> termios" where
  "set_nl_mode m reversed =
     (if reversed then
        (let m1 = m\<lparr>c_iflag := (c_iflag m OR ICRNL) AND NOT (INLCR OR IGNCR)\<rparr>;
             m2 = m1\<lparr>c_oflag := c_oflag m1 OR ONLCR\<rparr>;
             m3 = m2\<lparr>c_oflag := c_oflag m2 AND NOT OCRNL\<rparr>;
             m4 = m3\<lparr>c_oflag := c_oflag m3 AND NOT ONLRET\<rparr>
         in m4)
      else
        (let m1 = m\<lparr>c_iflag := c_iflag m AND NOT ICRNL\<rparr>;
             m2 = m1\<lparr>c_oflag := c_oflag m1 AND NOT ONLCR\<rparr>
         in m2))"

definition set_ek_mode :: "termios \<Rightarrow> bool \<Rightarrow> termios" where
  "set_ek_mode m reversed = set_cc VKILL CKILL (set_cc VERASE CERASE m)"

definition set_sane_mode :: "termios \<Rightarrow> bool \<Rightarrow> termios" where
  "set_sane_mode m reversed = sane_mode m"

definition set_cbreak_mode :: "termios \<Rightarrow> bool \<Rightarrow> termios" where
  "set_cbreak_mode m reversed =
     (if reversed then m\<lparr>c_lflag := c_lflag m OR ICANON\<rparr>
      else m\<lparr>c_lflag := c_lflag m AND NOT ICANON\<rparr>)"

definition set_pass8_mode :: "termios \<Rightarrow> bool \<Rightarrow> termios" where
  "set_pass8_mode m reversed =
     (if reversed then
        (let m1 = m\<lparr>c_cflag := (c_cflag m AND NOT CSIZE) OR CS7 OR PARENB\<rparr>
         in m1\<lparr>c_iflag := c_iflag m1 OR ISTRIP\<rparr>)
      else
        (let m1 = m\<lparr>c_cflag := (c_cflag m AND NOT (PARENB OR CSIZE)) OR CS8\<rparr>
         in m1\<lparr>c_iflag := c_iflag m1 AND NOT ISTRIP\<rparr>))"

definition set_litout_mode :: "termios \<Rightarrow> bool \<Rightarrow> termios" where
  "set_litout_mode m reversed =
     (if reversed then
        (let m1 = m\<lparr>c_cflag := (c_cflag m AND NOT CSIZE) OR CS7 OR PARENB\<rparr>;
             m2 = m1\<lparr>c_iflag := c_iflag m1 OR ISTRIP\<rparr>
         in m2\<lparr>c_oflag := c_oflag m2 OR OPOST\<rparr>)
      else
        (let m1 = m\<lparr>c_cflag := (c_cflag m AND NOT (PARENB OR CSIZE)) OR CS8\<rparr>;
             m2 = m1\<lparr>c_iflag := c_iflag m1 AND NOT ISTRIP\<rparr>
         in m2\<lparr>c_oflag := c_oflag m2 AND NOT OPOST\<rparr>))"

definition handle_raw_mode :: "termios \<Rightarrow> bool \<Rightarrow> termios" where
  "handle_raw_mode m reversed = set_raw_cooked_logic m reversed"

definition handle_cooked_mode :: "termios \<Rightarrow> bool \<Rightarrow> termios" where
  "handle_cooked_mode m reversed = set_raw_cooked_logic m (\<not> reversed)"

definition set_decctlq_mode :: "termios \<Rightarrow> bool \<Rightarrow> termios" where
  "set_decctlq_mode m reversed =
     (if reversed then m\<lparr>c_iflag := c_iflag m OR IXANY\<rparr>
      else m\<lparr>c_iflag := c_iflag m AND NOT IXANY\<rparr>)"

definition set_tabs_mode :: "termios \<Rightarrow> bool \<Rightarrow> termios" where
  "set_tabs_mode m reversed =
     (if reversed then m\<lparr>c_oflag := (c_oflag m AND NOT TABDLY) OR TAB3\<rparr>
      else m\<lparr>c_oflag := (c_oflag m AND NOT TABDLY) OR TAB0\<rparr>)"

definition set_lcase_mode :: "termios \<Rightarrow> bool \<Rightarrow> termios" where
  "set_lcase_mode m reversed =
     (if reversed then
        (let m1 = m\<lparr>c_lflag := c_lflag m AND NOT XCASE\<rparr>;
             m2 = m1\<lparr>c_iflag := c_iflag m1 AND NOT IUCLC\<rparr>
         in m2\<lparr>c_oflag := c_oflag m2 AND NOT OLCUC\<rparr>)
      else
        (let m1 = m\<lparr>c_lflag := c_lflag m OR XCASE\<rparr>;
             m2 = m1\<lparr>c_iflag := c_iflag m1 OR IUCLC\<rparr>
         in m2\<lparr>c_oflag := c_oflag m2 OR OLCUC\<rparr>))"

definition set_crt_mode :: "termios \<Rightarrow> bool \<Rightarrow> termios" where
  "set_crt_mode m reversed = m\<lparr>c_lflag := c_lflag m OR (ECHOE OR ECHOCTL OR ECHOKE)\<rparr>"

definition set_dec_mode :: "termios \<Rightarrow> bool \<Rightarrow> termios" where
  "set_dec_mode m reversed =
     (let m1 = set_cc VINTR 3 m;
          m2 = set_cc VERASE 127 m1;
          m3 = set_cc VKILL 21 m2;
          m4 = m3\<lparr>c_lflag := c_lflag m3 OR (ECHOE OR ECHOCTL OR ECHOKE)\<rparr>
      in m4\<lparr>c_iflag := c_iflag m4 AND NOT IXANY\<rparr>)"

text \<open>The dispatch table \<^verbatim>\<open>combination_modes[]\<close>.\<close>

definition combination_modes :: "(string \<times> (termios \<Rightarrow> bool \<Rightarrow> termios)) list" where
  "combination_modes = [
    (''cbreak'', set_cbreak_mode),
    (''cooked'', handle_cooked_mode),
    (''crt'', set_crt_mode),
    (''dec'', set_dec_mode),
    (''decctlq'', set_decctlq_mode),
    (''ek'', set_ek_mode),
    (''evenp'', set_parity_mode),
    (''lcase'', set_lcase_mode),
    (''LCASE'', set_lcase_mode),
    (''litout'', set_litout_mode),
    (''nl'', set_nl_mode),
    (''oddp'', set_oddp_mode),
    (''parity'', set_parity_mode),
    (''pass8'', set_pass8_mode),
    (''raw'', handle_raw_mode),
    (''sane'', set_sane_mode),
    (''tabs'', set_tabs_mode)]"

text \<open>The loop of \<^verbatim>\<open>set_mode\<close> over the dispatch table: the first entry of that name runs.\<close>

fun run_combination ::
  "(string \<times> (termios \<Rightarrow> bool \<Rightarrow> termios)) list \<Rightarrow> string \<Rightarrow> termios \<Rightarrow> bool \<Rightarrow> termios" where
  "run_combination [] n m reversed = m"
| "run_combination ((k, handler) # hs) n m reversed =
     (if n = k then handler m reversed else run_combination hs n m reversed)"

text \<open>\<^verbatim>\<open>set_mode\<close> returns false, and leaves the snapshot alone, when the setting is negated
  but not reversible; otherwise it returns true.\<close>

definition set_mode :: "mode_info \<Rightarrow> bool \<Rightarrow> termios \<Rightarrow> bool \<times> termios" where
  "set_mode info reversed m =
     (if reversed \<and> flags info AND REV = 0 then (False, m)
      else case mode_type_flag (type info) of
        Some bitsp \<Rightarrow>
          (True,
           if reversed
           then store_flag bitsp (load_flag bitsp m AND NOT (mask_bits info OR bits info)) m
           else store_flag bitsp ((load_flag bitsp m AND NOT (mask_bits info)) OR bits info) m)
      | None \<Rightarrow> (True, run_combination combination_modes (name info) m reversed))"

subsection \<open>The combination settings of \<^verbatim>\<open>stty-gpt-4o.c\<close>\<close>

definition apply_combination_mode :: "mode_info \<Rightarrow> termios \<Rightarrow> bool \<Rightarrow> bool \<times> termios" where
  "apply_combination_mode info m reversed =
     (if name info = ''evenp'' \<or> name info = ''parity'' then
        (True,
         if reversed then m\<lparr>c_cflag := (c_cflag m AND NOT PARENB AND NOT CSIZE) OR CS8\<rparr>
         else m\<lparr>c_cflag := (c_cflag m AND NOT PARODD AND NOT CSIZE) OR PARENB OR CS7\<rparr>)
      else if name info = ''oddp'' then
        (True,
         if reversed then m\<lparr>c_cflag := (c_cflag m AND NOT PARENB AND NOT CSIZE) OR CS8\<rparr>
         else m\<lparr>c_cflag := (c_cflag m AND NOT CSIZE) OR CS7 OR PARODD OR PARENB\<rparr>)
      else if name info = ''nl'' then
        (True,
         if reversed then
           (let m1 = m\<lparr>c_iflag := (c_iflag m OR ICRNL) AND NOT INLCR AND NOT IGNCR\<rparr>
            in m1\<lparr>c_oflag := (c_oflag m1 OR ONLCR) AND NOT OCRNL AND NOT ONLRET\<rparr>)
         else
           (let m1 = m\<lparr>c_iflag := c_iflag m AND NOT ICRNL\<rparr>
            in m1\<lparr>c_oflag := c_oflag m1 AND NOT ONLCR\<rparr>))
      else if name info = ''ek'' then
        (True, set_cc VKILL CKILL (set_cc VERASE CERASE m))
      else if name info = ''sane'' then
        (True, sane_mode_gpt4o m)
      else if name info = ''cbreak'' then
        (True,
         if reversed then m\<lparr>c_lflag := c_lflag m OR ICANON\<rparr>
         else m\<lparr>c_lflag := c_lflag m AND NOT ICANON\<rparr>)
      else if name info = ''pass8'' then
        (True,
         if reversed then
           (let m1 = m\<lparr>c_cflag := (c_cflag m AND NOT CSIZE) OR CS7 OR PARENB\<rparr>
            in m1\<lparr>c_iflag := c_iflag m1 OR ISTRIP\<rparr>)
         else
           (let m1 = m\<lparr>c_cflag := (c_cflag m AND NOT PARENB AND NOT CSIZE) OR CS8\<rparr>
            in m1\<lparr>c_iflag := c_iflag m1 AND NOT ISTRIP\<rparr>))
      else if name info = ''litout'' then
        (True,
         if reversed then
           (let m1 = m\<lparr>c_cflag := (c_cflag m AND NOT CSIZE) OR CS7 OR PARENB\<rparr>;
                m2 = m1\<lparr>c_iflag := c_iflag m1 OR ISTRIP\<rparr>
            in m2\<lparr>c_oflag := c_oflag m2 OR OPOST\<rparr>)
         else
           (let m1 = m\<lparr>c_cflag := (c_cflag m AND NOT PARENB AND NOT CSIZE) OR CS8\<rparr>;
                m2 = m1\<lparr>c_iflag := c_iflag m1 AND NOT ISTRIP\<rparr>
            in m2\<lparr>c_oflag := c_oflag m2 AND NOT OPOST\<rparr>))
      else if name info = ''raw'' \<or> name info = ''cooked'' then
        (True,
         if (hd (name info) = CHR ''r'' \<and> reversed) \<or> (hd (name info) = CHR ''c'' \<and> \<not> reversed)
         then
           (let m1 = m\<lparr>c_iflag := c_iflag m OR (BRKINT OR IGNPAR OR ISTRIP OR ICRNL OR IXON)\<rparr>;
                m2 = m1\<lparr>c_oflag := c_oflag m1 OR OPOST\<rparr>;
                m3 = m2\<lparr>c_lflag := c_lflag m2 OR (ISIG OR ICANON)\<rparr>;
                m4 = set_cc VEOF CEOF m3
            in set_cc VEOL CEOL m4)
         else
           (let m1 = m\<lparr>c_iflag := 0\<rparr>;
                m2 = m1\<lparr>c_oflag := c_oflag m1 AND NOT OPOST\<rparr>;
                m3 = m2\<lparr>c_lflag := c_lflag m2 AND NOT (ISIG OR ICANON)\<rparr>;
                m4 = set_cc VMIN 1 m3
            in set_cc VTIME 0 m4))
      else if name info = ''decctlq'' then
        (True,
         if reversed then m\<lparr>c_iflag := c_iflag m OR IXANY\<rparr>
         else m\<lparr>c_iflag := c_iflag m AND NOT IXANY\<rparr>)
      else if name info = ''tabs'' then
        (True,
         if reversed then m\<lparr>c_oflag := (c_oflag m AND NOT TABDLY) OR TAB3\<rparr>
         else m\<lparr>c_oflag := (c_oflag m AND NOT TABDLY) OR TAB0\<rparr>)
      else if name info = ''lcase'' \<or> name info = ''LCASE'' then
        (True,
         if reversed then
           (let m1 = m\<lparr>c_lflag := c_lflag m AND NOT XCASE\<rparr>;
                m2 = m1\<lparr>c_iflag := c_iflag m1 AND NOT IUCLC\<rparr>
            in m2\<lparr>c_oflag := c_oflag m2 AND NOT OLCUC\<rparr>)
         else
           (let m1 = m\<lparr>c_lflag := c_lflag m OR XCASE\<rparr>;
                m2 = m1\<lparr>c_iflag := c_iflag m1 OR IUCLC\<rparr>
            in m2\<lparr>c_oflag := c_oflag m2 OR OLCUC\<rparr>))
      else if name info = ''crt'' then
        (True, m\<lparr>c_lflag := c_lflag m OR (ECHOE OR ECHOCTL OR ECHOKE)\<rparr>)
      else if name info = ''dec'' then
        (True,
         let m1 = set_cc VINTR 3 m;
             m2 = set_cc VERASE 127 m1;
             m3 = set_cc VKILL 21 m2;
             m4 = m3\<lparr>c_lflag := c_lflag m3 OR (ECHOE OR ECHOCTL OR ECHOKE)\<rparr>
         in m4\<lparr>c_iflag := c_iflag m4 AND NOT IXANY\<rparr>)
      else (False, m))"

definition set_mode_gpt4o :: "mode_info \<Rightarrow> bool \<Rightarrow> termios \<Rightarrow> bool \<times> termios" where
  "set_mode_gpt4o info reversed m =
     (if reversed \<and> flags info AND REV = 0 then (False, m)
      else case mode_type_flag (type info) of
        None \<Rightarrow> apply_combination_mode info m reversed
      | Some bitsp \<Rightarrow>
          (True,
           if reversed
           then store_flag bitsp (load_flag bitsp m AND NOT (mask_bits info) AND NOT (bits info)) m
           else store_flag bitsp ((load_flag bitsp m AND NOT (mask_bits info)) OR bits info) m))"


section \<open>C strings and the C library\<close>

text \<open>
  A C string is the list of its characters before the terminating NUL.  Reading the
  character a pointer points to gives NUL at the end of the list.
\<close>

definition NUL :: char where "NUL = CHR 0x00"

fun peek :: "string \<Rightarrow> char" where
  "peek [] = NUL"
| "peek (c # cs) = c"

text \<open>\<^verbatim>\<open>c = *ep++\<close>\<close>

fun cnext :: "string \<Rightarrow> char \<times> string" where
  "cnext [] = (NUL, [])"
| "cnext (c # cs) = (c, cs)"

text \<open>\<^verbatim>\<open>to_uchar\<close>\<close>

definition to_uchar :: "char \<Rightarrow> cc_t" where
  "to_uchar c = of_char c"

definition c_isspace :: "char \<Rightarrow> bool" where
  "c_isspace c \<longleftrightarrow> c = CHR '' '' \<or> c = CHR 0x09 \<or> c = CHR 0x0A \<or> c = CHR 0x0B
     \<or> c = CHR 0x0C \<or> c = CHR 0x0D"

definition c_isdigit :: "char \<Rightarrow> bool" where
  "c_isdigit c \<longleftrightarrow> (48::nat) \<le> of_char c \<and> (of_char c :: nat) \<le> 57"

text \<open>The value of a character as a digit in the given base, as \<^verbatim>\<open>strtoul\<close> reads it.\<close>

definition digit_val :: "nat \<Rightarrow> char \<Rightarrow> nat option" where
  "digit_val base c =
     (let k = (of_char c :: nat);
          v = (if 48 \<le> k \<and> k \<le> 57 then Some (k - 48)
               else if 97 \<le> k \<and> k \<le> 122 then Some (k - 87)
               else if 65 \<le> k \<and> k \<le> 90 then Some (k - 55)
               else None)
      in case v of None \<Rightarrow> None | Some d \<Rightarrow> if d < base then Some d else None)"

fun strtoul_digits :: "nat \<Rightarrow> nat \<Rightarrow> string \<Rightarrow> nat \<times> string" where
  "strtoul_digits base acc [] = (acc, [])"
| "strtoul_digits base acc (c # cs) =
     (case digit_val base c of
        Some d \<Rightarrow> strtoul_digits base (acc * base + d) cs
      | None \<Rightarrow> (acc, c # cs))"

definition ULONG_MAX :: nat where "ULONG_MAX = 2 ^ 64 - 1"

text \<open>The result of \<^verbatim>\<open>strtoul (s, &p, base)\<close>: the value, the rest of the string at \<^verbatim>\<open>p\<close>,
  whether \<^verbatim>\<open>p != s\<close>, and whether \<^verbatim>\<open>errno\<close> is \<^verbatim>\<open>ERANGE\<close>.\<close>

record strtoul_result =
  ul :: ulong
  endp :: string
  converted :: bool
  erange :: bool

text \<open>
  \<^verbatim>\<open>strtoul\<close> of the C library, for the bases 0, 10 and 16: leading white space, an optional
  sign, for base 16 (and 0) an optional \<^verbatim>\<open>0x\<close> before a hexadecimal digit, for base 0 a
  leading \<^verbatim>\<open>0\<close> selecting octal, then the longest run of digits.  Without a digit nothing
  is converted and \<^verbatim>\<open>p = s\<close>.  A value beyond \<^verbatim>\<open>ULONG_MAX\<close> gives \<^verbatim>\<open>ULONG_MAX\<close> and \<^verbatim>\<open>ERANGE\<close>;
  a minus sign negates the value in \<^verbatim>\<open>unsigned long\<close>.
\<close>

definition has_hex_prefix :: "string \<Rightarrow> bool" where
  "has_hex_prefix s \<longleftrightarrow>
     (case s of
        z # x # h # _ \<Rightarrow> z = CHR ''0'' \<and> (x = CHR ''x'' \<or> x = CHR ''X'') \<and> digit_val 16 h \<noteq> None
      | _ \<Rightarrow> False)"

definition strtoul :: "string \<Rightarrow> nat \<Rightarrow> strtoul_result" where
  "strtoul s base =
     (let s1 = dropWhile c_isspace s;
          neg = (peek s1 = CHR ''-'');
          s2 = (if peek s1 = CHR ''-'' \<or> peek s1 = CHR ''+'' then tl s1 else s1);
          hex = ((base = 16 \<or> base = 0) \<and> has_hex_prefix s2);
          b = (if base = 0 then (if hex then 16 else if peek s2 = CHR ''0'' then 8 else 10)
               else base);
          s3 = (if hex then drop 2 s2 else s2)
      in if digit_val b (peek s3) = None \<or> s3 = []
         then \<lparr>ul = 0, endp = s, converted = False, erange = False\<rparr>
         else
           (let (v, rest) = strtoul_digits b 0 s3
            in if ULONG_MAX < v
               then \<lparr>ul = of_nat ULONG_MAX, endp = rest, converted = True, erange = True\<rparr>
               else \<lparr>ul = (if neg then - of_nat v else of_nat v), endp = rest,
                      converted = True, erange = False\<rparr>))"

text \<open>\<^verbatim>\<open>printf ("%lx", n)\<close>: lower-case hexadecimal without leading zeros.\<close>

definition hex_digit :: "nat \<Rightarrow> char" where
  "hex_digit d = (if d < 10 then char_of (48 + d) else char_of (87 + d))"

function printf_lx :: "nat \<Rightarrow> string" where
  "printf_lx n = (if n < 16 then [hex_digit n] else printf_lx (n div 16) @ [hex_digit (n mod 16)])"
  by pat_completeness auto
termination
  by (relation "measure id") auto

declare printf_lx.simps [simp del]

section \<open>Errors\<close>

text \<open>
  Every fatal diagnostic ends the process with a failure status; the value names the
  diagnostic and carries the quoted text.  \<open>Out_of_bounds_read\<close> stands for a read past
  the terminator of an argument, which has no defined result.
\<close>

datatype error =
    Invalid_argument string
  | Missing_argument string
  | Invalid_speed string string
  | Invalid_integer_argument string
  | Asymmetric_speeds speed_t speed_t
  | Unsupported_ispeed string
  | Unsupported_ospeed string
  | Unsupported_speed string
  | Invalid_baud_rate string
  | Assertion_failed
  | Unable_to_perform_all
  | Out_of_bounds_read

section \<open>Value codecs\<close>

subsection \<open>Generic integer arguments\<close>

text \<open>
  Modelled from the spec: \<^verbatim>\<open>xnumtoumax\<close>, which \<^verbatim>\<open>integer_arg\<close> calls, is library code
  missing from the sources.  It parses a generic integer, decimal, octal or hexadecimal per
  the rules of C literals (base 0 of \<^verbatim>\<open>strtoul\<close>), with an optional suffix from the list
  \<^verbatim>\<open>"bB"\<close> that \<^verbatim>\<open>integer_arg\<close> passes (\<^verbatim>\<open>b\<close> multiplies by 512, \<^verbatim>\<open>B\<close> by 1024; a suffix alone counts
  as 1), rejects a minus sign, anything after the suffix and a value above \<open>maxval\<close>,
  and on rejection ends the process with the diagnostic \<^verbatim>\<open>invalid integer argument\<close>.
\<close>

definition xnumtoumax :: "string \<Rightarrow> nat \<Rightarrow> error + nat" where
  "xnumtoumax s maxval =
     (if peek (dropWhile c_isspace s) = CHR ''-'' then Inl (Invalid_integer_argument s)
      else
        (let r = strtoul s 0;
             p = endp r;
             is_suffix = (peek p = CHR ''b'' \<or> peek p = CHR ''B'')
         in if \<not> converted r \<and> \<not> (p \<noteq> [] \<and> is_suffix) then Inl (Invalid_integer_argument s)
            else
              (let tmp = (if converted r then unat (ul r) else 1);
                   scaled = (if p = [] then tmp
                             else if peek p = CHR ''b'' then tmp * 512 else tmp * 1024)
               in if erange r then Inl (Invalid_integer_argument s)
                  else if p \<noteq> [] \<and> (\<not> is_suffix \<or> tl p \<noteq> []) then Inl (Invalid_integer_argument s)
                  else if ULONG_MAX < scaled \<or> maxval < scaled then Inl (Invalid_integer_argument s)
                  else Inr scaled)))"

definition integer_arg :: "string \<Rightarrow> nat \<Rightarrow> error + nat" where
  "integer_arg s maxval = xnumtoumax s maxval"

subsection \<open>Control-character literals\<close>

text \<open>\<^verbatim>\<open>TYPE_MAXIMUM (cc_t)\<close>\<close>

definition CC_MAX :: nat where "CC_MAX = 255"

text \<open>\<^verbatim>\<open>set_control_char\<close> of \<^verbatim>\<open>stty-gemini-2.5-pro.c\<close>.\<close>

definition set_control_char :: "control_info \<Rightarrow> string \<Rightarrow> termios \<Rightarrow> error + termios" where
  "set_control_char info arg m =
     (if cname info = ''min'' \<or> cname info = ''time'' then
        (case integer_arg arg CC_MAX of
           Inl e \<Rightarrow> Inl e
         | Inr v \<Rightarrow> Inr (set_cc (offset info) (of_nat v) m))
      else if peek arg = NUL \<or> peek (tl arg) = NUL then
        Inr (set_cc (offset info) (to_uchar (peek arg)) m)
      else if arg = ''^-'' \<or> arg = ''undef'' then
        Inr (set_cc (offset info) POSIX_VDISABLE m)
      else if peek arg = CHR ''^'' \<and> peek (tl arg) = CHR ''?'' then
        Inr (set_cc (offset info) 127 m)
      else if peek arg = CHR ''^'' then
        Inr (set_cc (offset info) (to_uchar (peek (tl arg)) AND 0x1F) m)
      else
        (case integer_arg arg CC_MAX of
           Inl e \<Rightarrow> Inl e
         | Inr v \<Rightarrow> Inr (set_cc (offset info) (of_nat v) m)))"

text \<open>
  \<^verbatim>\<open>set_control_char\<close> of \<^verbatim>\<open>stty-gpt-4o.c\<close>.  The value is an \<^verbatim>\<open>unsigned long\<close> that starts
  as \<^verbatim>\<open>_POSIX_VDISABLE\<close> and is narrowed to \<^verbatim>\<open>cc_t\<close> by the final assignment; \<^verbatim>\<open>~0140\<close> keeps
  every bit of the character but bits 5 and 6.
\<close>

definition set_control_char_gpt4o :: "control_info \<Rightarrow> string \<Rightarrow> termios \<Rightarrow> error + termios" where
  "set_control_char_gpt4o info arg m =
     (if cname info = ''min'' \<or> cname info = ''time'' then
        (case integer_arg arg CC_MAX of
           Inl e \<Rightarrow> Inl e
         | Inr v \<Rightarrow> Inr (set_cc (offset info) (of_nat v) m))
      else if peek arg \<noteq> NUL \<and> peek (tl arg) = NUL then
        Inr (set_cc (offset info) (to_uchar (peek arg)) m)
      else if arg \<noteq> ''^-'' \<and> arg \<noteq> ''undef'' then
        (if peek arg = CHR ''^'' \<and> peek (tl arg) \<noteq> NUL then
           Inr (set_cc (offset info)
                  (if peek (tl arg) = CHR ''?'' then 127
                   else to_uchar (peek (tl arg)) AND NOT 0x60) m)
         else
           (case integer_arg arg CC_MAX of
              Inl e \<Rightarrow> Inl e
            | Inr v \<Rightarrow> Inr (set_cc (offset info) (of_nat v) m)))
      else Inr (set_cc (offset info) POSIX_VDISABLE m))"

subsection \<open>The recoverable format\<close>

text \<open>
  \<^verbatim>\<open>display_recoverable\<close> (the same in both files): the four flag words, then the \<^verbatim>\<open>NCCS\<close>
  control characters, each after a colon, then a newline.  \<open>recoverable_fields\<close> is
  the line before its newline.
\<close>

definition recoverable_fields :: "termios \<Rightarrow> string" where
  "recoverable_fields m =
     printf_lx (unat (c_iflag m)) @ '':'' @ printf_lx (unat (c_oflag m)) @ '':'' @
     printf_lx (unat (c_cflag m)) @ '':'' @ printf_lx (unat (c_lflag m)) @
     concat (map (\<lambda>i. '':'' @ printf_lx (unat (c_cc m ! i))) [0..<NCCS])"

definition display_recoverable :: "termios \<Rightarrow> string" where
  "display_recoverable m = recoverable_fields m @ [CHR 0x0A]"

text \<open>\<^verbatim>\<open>strtoul_tcflag_t\<close> and \<^verbatim>\<open>strtoul_cc_t\<close> of \<^verbatim>\<open>stty-gemini-2.5-pro.c\<close>: \<open>None\<close> is the
  return value -1, \<open>Some (v, p)\<close> the value stored in \<^verbatim>\<open>*result\<close> and the end pointer.\<close>

definition strtoul_tcflag_t :: "string \<Rightarrow> nat \<Rightarrow> char \<Rightarrow> (tcflag_t \<times> string) option" where
  "strtoul_tcflag_t s base delim =
     (let r = strtoul s base
      in if \<not> converted r \<or> peek (endp r) \<noteq> delim then None
         else if erange r \<or> ucast (ucast (ul r) :: tcflag_t) \<noteq> ul r then None
         else Some (ucast (ul r), endp r))"

definition strtoul_cc_t :: "string \<Rightarrow> nat \<Rightarrow> char \<Rightarrow> (cc_t \<times> string) option" where
  "strtoul_cc_t s base delim =
     (let r = strtoul s base
      in if \<not> converted r then None
         else if erange r then None
         else if peek (endp r) \<noteq> delim then None
         else if ucast (ucast (ul r) :: cc_t) \<noteq> ul r then None
         else Some (ucast (ul r), endp r))"

text \<open>
  \<^verbatim>\<open>recover_mode\<close> of \<^verbatim>\<open>stty-gemini-2.5-pro.c\<close>.  It writes into the caller's snapshot field
  by field, so a failed parse returns false together with the fields written so far.
\<close>

fun recover_flags :: "flag_ptr list \<Rightarrow> string \<Rightarrow> termios \<Rightarrow> string option \<times> termios" where
  "recover_flags [] s m = (Some s, m)"
| "recover_flags (fp # fps) s m =
     (case strtoul_tcflag_t s 16 CHR '':'' of
        None \<Rightarrow> (None, m)
      | Some (v, p) \<Rightarrow> recover_flags fps (tl p) (store_flag fp v m))"

function recover_cc :: "nat \<Rightarrow> string \<Rightarrow> termios \<Rightarrow> bool \<times> termios" where
  "recover_cc i s m =
     (if i < NCCS then
        (let delim = (if i < NCCS - 1 then CHR '':'' else NUL)
         in case strtoul_cc_t s 16 delim of
              None \<Rightarrow> (False, m)
            | Some (v, p) \<Rightarrow> recover_cc (i + 1) (tl p) (set_cc i v m))
      else (True, m))"
  by pat_completeness auto
termination
  by (relation "measure (\<lambda>(i, s, m). NCCS - i)") auto

declare recover_cc.simps [simp del]

definition recover_mode :: "string \<Rightarrow> termios \<Rightarrow> bool \<times> termios" where
  "recover_mode arg m =
     (case recover_flags [iflag_ptr, oflag_ptr, cflag_ptr, lflag_ptr] arg m of
        (None, m') \<Rightarrow> (False, m')
      | (Some s, m') \<Rightarrow> recover_cc 0 s m')"

text \<open>
  \<^verbatim>\<open>recover_mode\<close> of \<^verbatim>\<open>stty-gpt-4o.c\<close>, with its helpers \<^verbatim>\<open>parse_tcflag\<close> and \<^verbatim>\<open>parse_cc\<close>.
  Neither helper checks that a digit was read, and both narrow the value without a range
  check.  \<^verbatim>\<open>parse_cc\<close> accepts the terminator in place of the delimiter and then sets
  \<^verbatim>\<open>*s = p + 1\<close>, a pointer past the terminator: the pointer is \<open>None\<close> then, and parsing
  from it is a read out of bounds.
\<close>

definition parse_tcflag :: "string \<Rightarrow> (string \<times> tcflag_t) option" where
  "parse_tcflag s =
     (let r = strtoul s 16
      in if erange r \<or> peek (endp r) \<noteq> CHR '':'' then None
         else Some (tl (endp r), ucast (ul r)))"

definition parse_cc :: "string \<Rightarrow> char \<Rightarrow> (string option \<times> cc_t) option" where
  "parse_cc s delim =
     (let r = strtoul s 16
      in if erange r \<or> (peek (endp r) \<noteq> delim \<and> peek (endp r) \<noteq> NUL) then None
         else Some (if endp r = [] then None else Some (tl (endp r)), ucast (ul r)))"

function recover_cc_gpt4o :: "nat \<Rightarrow> string option \<Rightarrow> termios \<Rightarrow> error + bool \<times> termios" where
  "recover_cc_gpt4o i s m =
     (if i < NCCS then
        (case s of
           None \<Rightarrow> Inl Out_of_bounds_read
         | Some str \<Rightarrow>
             (let delim = (if i < NCCS - 1 then CHR '':'' else NUL)
              in case parse_cc str delim of
                   None \<Rightarrow> Inr (False, m)
                 | Some (s', v) \<Rightarrow> recover_cc_gpt4o (i + 1) s' (set_cc i v m)))
      else Inr (True, m))"
  by pat_completeness auto
termination
  by (relation "measure (\<lambda>(i, s, m). NCCS - i)") auto

declare recover_cc_gpt4o.simps [simp del]

definition recover_mode_gpt4o :: "string \<Rightarrow> termios \<Rightarrow> error + bool \<times> termios" where
  "recover_mode_gpt4o arg m =
     (case parse_tcflag arg of
        None \<Rightarrow> Inr (False, m)
      | Some (s1, v1) \<Rightarrow>
          (let m1 = m\<lparr>c_iflag := v1\<rparr>
           in case parse_tcflag s1 of
                None \<Rightarrow> Inr (False, m1)
              | Some (s2, v2) \<Rightarrow>
                  (let m2 = m1\<lparr>c_oflag := v2\<rparr>
                   in case parse_tcflag s2 of
                        None \<Rightarrow> Inr (False, m2)
                      | Some (s3, v3) \<Rightarrow>
                          (let m3 = m2\<lparr>c_cflag := v3\<rparr>
                           in case parse_tcflag s3 of
                                None \<Rightarrow> Inr (False, m3)
                              | Some (s4, v4) \<Rightarrow>
                                  recover_cc_gpt4o 0 (Some s4) (m3\<lparr>c_lflag := v4\<rparr>)))))"


subsection \<open>Baud rates\<close>

text \<open>
  \<^verbatim>\<open>string_to_baud\<close> (the same in both files).  \<^verbatim>\<open>value_to_baud\<close> comes from the generated
  header \<^verbatim>\<open>speedlist.h\<close>, which is not among the sources: it is the parameter \<open>vtb\<close>.
  The result \<open>- 1\<close> is \<^verbatim>\<open>(speed_t) -1\<close>.
\<close>

definition B19200 :: speed_t where "B19200 = 14"
definition B38400 :: speed_t where "B38400 = 15"

text \<open>\<^verbatim>\<open>while ((c = *ep++) == '0');\<close>\<close>

fun skip_zeroes :: "string \<Rightarrow> char \<times> string" where
  "skip_zeroes [] = (NUL, [])"
| "skip_zeroes (c # cs) = (if c = CHR ''0'' then skip_zeroes cs else (c, cs))"

text \<open>\<^verbatim>\<open>while (c_isdigit (c)) c = *ep++;\<close>\<close>

fun skip_digits :: "char \<Rightarrow> string \<Rightarrow> char \<times> string" where
  "skip_digits c [] = (if c_isdigit c then (NUL, []) else (c, []))"
| "skip_digits c (c' # cs) = (if c_isdigit c then skip_digits c' cs else (c, c' # cs))"

definition string_to_baud :: "(ulong \<Rightarrow> speed_t) \<Rightarrow> string \<Rightarrow> speed_t" where
  "string_to_baud vtb arg0 =
     (let arg = dropWhile c_isspace arg0
      in if peek arg = CHR ''-'' then - 1
         else
           (let r = strtoul arg 10;
                val = ul r;
                (c, ep) = cnext (endp r)
            in if c = CHR ''.'' then
                 (let (c1, ep1) = cnext ep
                  in if c1 \<noteq> NUL then
                       (let d = (of_char c1 - of_char CHR ''0'' :: 8 word);
                            (val2, c2, ep2) =
                              (if 5 < d then (val + 1, c1, ep1)
                               else if d = 5 then
                                 (let (cz, epz) = skip_zeroes ep1
                                  in if cz \<noteq> NUL then (val + 1, cz, epz)
                                     else (val + (val AND 1), cz, epz))
                               else (val, c1, ep1));
                            (c3, ep3) = skip_digits c2 ep2
                        in if c3 \<noteq> NUL then - 1 else vtb val2)
                     else vtb val)
               else if c \<noteq> NUL then
                 (if arg = ''exta'' then B19200
                  else if arg = ''extb'' then B38400
                  else - 1)
               else vtb val))"

section \<open>The settings parser\<close>

datatype tcsetattr_option = TCSANOW | TCSADRAIN

datatype output_type = changed | all_settings | recoverable

text \<open>
  What the program does outside the snapshot, in the order it does it.  The system calls are
  taken to succeed.
\<close>

datatype event =
    Window_size_set int int
  | Window_size_displayed
  | Speed_displayed speed_t speed_t
  | Line_discipline_overflow string
  | Device_opened string
  | Attributes_read
  | Attributes_written tcsetattr_option termios
  | Settings_displayed output_type termios

text \<open>The snapshot \<^verbatim>\<open>apply_settings\<close> works on, its out-parameter, and the global variables
  it reads and writes.\<close>

record stty_state =
  mode :: termios
  require_set_attr :: bool
  tcsetattr_options :: tcsetattr_option
  last_ibaud :: speed_t
  last_obaud :: speed_t
  events :: "event list"

definition initial_state :: "termios \<Rightarrow> stty_state" where
  "initial_state m = \<lparr>mode = m, require_set_attr = False, tcsetattr_options = TCSADRAIN,
     last_ibaud = - 1, last_obaud = - 1, events = []\<rparr>"

definition INT_MAX :: nat where "INT_MAX = 2 ^ 31 - 1"
definition UINTMAX_MAX :: nat where "UINTMAX_MAX = 2 ^ 64 - 1"

text \<open>The lookup loops of \<^verbatim>\<open>apply_settings\<close>: the first entry of that name.\<close>

definition find_mode :: "string \<Rightarrow> mode_info option" where
  "find_mode arg = List.find (\<lambda>mi. arg = name mi) mode_info"

definition find_control :: "string \<Rightarrow> control_info option" where
  "find_control arg = List.find (\<lambda>ci. arg = cname ci) control_info"

text \<open>\<^verbatim>\<open>check_missing_argument\<close>: the argument after position \<^verbatim>\<open>k\<close>, if there is one.\<close>

fun next_arg :: "string option list \<Rightarrow> string option" where
  "next_arg [] = None"
| "next_arg (None # rest) = None"
| "next_arg (Some a # rest) = Some a"

text \<open>
  The speed functions of the C library of the platform (glibc on Linux).  The speed lives in
  the \<^verbatim>\<open>CBAUD\<close> bits of \<^verbatim>\<open>c_cflag\<close>; an input speed of 0, which stands for the output speed, is
  the bit \<^verbatim>\<open>IBAUD0\<close> of \<^verbatim>\<open>c_iflag\<close>.  The setters also store the members \<^verbatim>\<open>c_ispeed\<close> and
  \<^verbatim>\<open>c_ospeed\<close>, and refuse with \<^verbatim>\<open>EINVAL\<close> (here \<open>None\<close>) a speed that has a bit outside \<^verbatim>\<open>CBAUD\<close>
  and is not one of \<^verbatim>\<open>B57600\<close> to \<^verbatim>\<open>B4000000\<close>, leaving the snapshot as it was.
\<close>

definition CBAUD :: tcflag_t where "CBAUD = 0x100F"
definition CBAUDEX :: tcflag_t where "CBAUDEX = 0x1000"
definition IBAUD0 :: tcflag_t where "IBAUD0 = 0x80000000"
definition B57600 :: speed_t where "B57600 = 0x1001"
definition MAX_BAUD :: speed_t where "MAX_BAUD = 0x100F"

lemmas speed_defs = CBAUD_def CBAUDEX_def IBAUD0_def B57600_def MAX_BAUD_def

definition cfgetospeed :: "termios \<Rightarrow> speed_t" where
  "cfgetospeed m = c_cflag m AND (CBAUD OR CBAUDEX)"

definition cfgetispeed :: "termios \<Rightarrow> speed_t" where
  "cfgetispeed m = (if c_iflag m AND IBAUD0 \<noteq> 0 then 0 else c_cflag m AND (CBAUD OR CBAUDEX))"

definition cfsetospeed :: "speed_t \<Rightarrow> termios \<Rightarrow> termios option" where
  "cfsetospeed speed m =
     (if speed AND NOT CBAUD \<noteq> 0 \<and> (speed < B57600 \<or> MAX_BAUD < speed) then None
      else Some (m\<lparr>c_ospeed := speed,
                   c_cflag := (c_cflag m AND NOT (CBAUD OR CBAUDEX)) OR speed\<rparr>))"

definition cfsetispeed :: "speed_t \<Rightarrow> termios \<Rightarrow> termios option" where
  "cfsetispeed speed m =
     (if speed AND NOT CBAUD \<noteq> 0 \<and> (speed < B57600 \<or> MAX_BAUD < speed) then None
      else if speed = 0 then Some (m\<lparr>c_ispeed := speed, c_iflag := c_iflag m OR IBAUD0\<rparr>)
      else Some (m\<lparr>c_ispeed := speed, c_iflag := c_iflag m AND NOT IBAUD0,
                   c_cflag := (c_cflag m AND NOT (CBAUD OR CBAUDEX)) OR speed\<rparr>))"

datatype speed_setting = input_speed | output_speed | both_speeds

text \<open>\<^verbatim>\<open>set_speed\<close> of \<^verbatim>\<open>stty-gemini-2.5-pro.c\<close>: \<^verbatim>\<open>affirm\<close> ends the process when the text is no
  speed, and a speed the library refuses ends it with \<^verbatim>\<open>unsupported ispeed\<close> or
  \<^verbatim>\<open>unsupported ospeed\<close>, after \<^verbatim>\<open>last_ibaud\<close> or \<^verbatim>\<open>last_obaud\<close> is stored.\<close>

definition set_speed ::
  "(ulong \<Rightarrow> speed_t) \<Rightarrow> speed_setting \<Rightarrow> string \<Rightarrow> stty_state
     \<Rightarrow> (error \<times> stty_state) + stty_state" where
  "set_speed vtb ty arg st =
     (let baud = string_to_baud vtb arg
      in if baud = - 1 then Inl (Assertion_failed, st)
         else
           (case (if ty = input_speed \<or> ty = both_speeds
                  then (case cfsetispeed baud (mode st) of
                          None \<Rightarrow> Inl (Unsupported_ispeed arg, st\<lparr>last_ibaud := baud\<rparr>)
                        | Some m \<Rightarrow> Inr (st\<lparr>last_ibaud := baud, mode := m\<rparr>))
                  else Inr st) of
              Inl e \<Rightarrow> Inl e
            | Inr st1 \<Rightarrow>
                if ty = output_speed \<or> ty = both_speeds
                then (case cfsetospeed baud (mode st1) of
                        None \<Rightarrow> Inl (Unsupported_ospeed arg, st1\<lparr>last_obaud := baud\<rparr>)
                      | Some m \<Rightarrow> Inr (st1\<lparr>last_obaud := baud, mode := m\<rparr>))
                else Inr st1))"

text \<open>\<^verbatim>\<open>set_speed\<close> of \<^verbatim>\<open>stty-gpt-4o.c\<close>: it tests the text itself, calls both setters and
  looks at their results afterwards.\<close>

definition set_speed_gpt4o ::
  "(ulong \<Rightarrow> speed_t) \<Rightarrow> speed_setting \<Rightarrow> string \<Rightarrow> stty_state
     \<Rightarrow> (error \<times> stty_state) + stty_state" where
  "set_speed_gpt4o vtb ty arg st =
     (let baud = string_to_baud vtb arg
      in if baud = - 1 then Inl (Invalid_baud_rate arg, st)
         else
           (let (failed1, st1) =
                  (if ty = input_speed \<or> ty = both_speeds
                   then (case cfsetispeed baud (mode st) of
                           None \<Rightarrow> (True, st\<lparr>last_ibaud := baud\<rparr>)
                         | Some m \<Rightarrow> (False, st\<lparr>last_ibaud := baud, mode := m\<rparr>))
                   else (False, st));
                (failed2, st2) =
                  (if ty = output_speed \<or> ty = both_speeds
                   then (case cfsetospeed baud (mode st1) of
                           None \<Rightarrow> (True, st1\<lparr>last_obaud := baud\<rparr>)
                         | Some m \<Rightarrow> (False, st1\<lparr>last_obaud := baud, mode := m\<rparr>))
                   else (False, st1))
            in if failed1 \<or> failed2 then Inl (Unsupported_speed arg, st2) else Inr st2))"

definition add_event :: "event \<Rightarrow> stty_state \<Rightarrow> stty_state" where
  "add_event e st = st\<lparr>events := events st @ [e]\<rparr>"

text \<open>The setting \<^verbatim>\<open>line N\<close>: \<^verbatim>\<open>ckd_add\<close> stores the wrapped value and reports the overflow,
  which is diagnosed but not fatal.\<close>

definition set_line :: "string \<Rightarrow> nat \<Rightarrow> stty_state \<Rightarrow> stty_state" where
  "set_line arg v st =
     (let st1 = st\<lparr>mode := (mode st)\<lparr>c_line := of_nat v\<rparr>\<rparr>;
          st2 = (if CC_MAX < v then add_event (Line_discipline_overflow arg) st1 else st1)
      in st2\<lparr>require_set_attr := True\<rparr>)"

subsection \<open>\<^verbatim>\<open>apply_settings\<close> of \<^verbatim>\<open>stty-gemini-2.5-pro.c\<close>\<close>

text \<open>
  The helpers return \<open>Inl\<close> when the process ends with a diagnostic, and otherwise whether
  they handled the setting, the new state, and how many further arguments they used.
\<close>

type_synonym special_result = "(error \<times> stty_state) + (bool \<times> stty_state \<times> nat)"

definition handle_speed_arg_setting ::
  "(ulong \<Rightarrow> speed_t) \<Rightarrow> string \<Rightarrow> bool \<Rightarrow> string option list \<Rightarrow> stty_state \<Rightarrow> special_result" where
  "handle_speed_arg_setting vtb arg checking rest st =
     (if arg = ''ispeed'' \<or> arg = ''ospeed'' then
        (case next_arg rest of
           None \<Rightarrow> Inl (Missing_argument arg, st)
         | Some speed_val \<Rightarrow>
             if string_to_baud vtb speed_val = - 1 then Inl (Invalid_speed arg speed_val, st)
             else
               (case set_speed vtb (if arg = ''ispeed'' then input_speed else output_speed)
                       speed_val st of
                  Inl e \<Rightarrow> Inl e
                | Inr st1 \<Rightarrow>
                    Inr (True, if \<not> checking then st1\<lparr>require_set_attr := True\<rparr> else st1, 1)))
      else Inr (False, st, 0))"

definition handle_window_size_setting ::
  "string \<Rightarrow> bool \<Rightarrow> string option list \<Rightarrow> stty_state \<Rightarrow> special_result" where
  "handle_window_size_setting arg checking rest st =
     (if arg = ''rows'' then
        (case next_arg rest of
           None \<Rightarrow> Inl (Missing_argument arg, st)
         | Some a \<Rightarrow>
             if \<not> checking then
               (case integer_arg a INT_MAX of
                  Inl e \<Rightarrow> Inl (e, st)
                | Inr v \<Rightarrow> Inr (True, add_event (Window_size_set (int v) (- 1)) st, 1))
             else Inr (True, st, 1))
      else if arg = ''cols'' \<or> arg = ''columns'' then
        (case next_arg rest of
           None \<Rightarrow> Inl (Missing_argument arg, st)
         | Some a \<Rightarrow>
             if \<not> checking then
               (case integer_arg a INT_MAX of
                  Inl e \<Rightarrow> Inl (e, st)
                | Inr v \<Rightarrow> Inr (True, add_event (Window_size_set (- 1) (int v)) st, 1))
             else Inr (True, st, 1))
      else if arg = ''size'' then
        Inr (True, if \<not> checking then add_event Window_size_displayed st else st, 0)
      else Inr (False, st, 0))"

definition apply_special_setting ::
  "(ulong \<Rightarrow> speed_t) \<Rightarrow> string \<Rightarrow> bool \<Rightarrow> bool \<Rightarrow> string option list \<Rightarrow> stty_state
     \<Rightarrow> special_result" where
  "apply_special_setting vtb arg reversed checking rest st =
     (case handle_speed_arg_setting vtb arg checking rest st of
        Inl e \<Rightarrow> Inl e
      | Inr (True, st1, n) \<Rightarrow> Inr (True, st1, n)
      | Inr (False, _, _) \<Rightarrow>
          (case handle_window_size_setting arg checking rest st of
             Inl e \<Rightarrow> Inl e
           | Inr (True, st1, n) \<Rightarrow> Inr (True, st1, n)
           | Inr (False, _, _) \<Rightarrow>
               if arg = ''line'' then
                 (case next_arg rest of
                    None \<Rightarrow> Inl (Missing_argument arg, st)
                  | Some a \<Rightarrow>
                      (case integer_arg a UINTMAX_MAX of
                         Inl e \<Rightarrow> Inl (e, st)
                       | Inr v \<Rightarrow> Inr (True, set_line a v st, 1)))
               else if arg = ''speed'' then
                 Inr (True,
                      if \<not> checking
                      then add_event (Speed_displayed (cfgetispeed (mode st))
                                                      (cfgetospeed (mode st))) st
                      else st, 0)
               else if string_to_baud vtb arg \<noteq> - 1 then
                 (case set_speed vtb both_speeds arg st of
                    Inl e \<Rightarrow> Inl e
                  | Inr st1 \<Rightarrow>
                      Inr (True, if \<not> checking then st1\<lparr>require_set_attr := True\<rparr> else st1, 0))
               else Inr (False, st, 0)))"

text \<open>The body of the loop for one argument: the new state and the number of further
  arguments used.  The result of \<^verbatim>\<open>set_mode\<close> is not looked at.\<close>

definition apply_token ::
  "(ulong \<Rightarrow> speed_t) \<Rightarrow> bool \<Rightarrow> string \<Rightarrow> string option list \<Rightarrow> stty_state
     \<Rightarrow> (error \<times> stty_state) + (stty_state \<times> nat)" where
  "apply_token vtb checking tok rest st =
     (let reversed = (peek tok = CHR ''-'');
          arg = (if reversed then tl tok else tok)
      in if arg = ''drain'' then
           Inr (st\<lparr>tcsetattr_options := (if reversed then TCSANOW else TCSADRAIN)\<rparr>, 0)
         else
           (let (match_found, not_set_attr, st1) =
                  (case find_mode arg of
                     None \<Rightarrow> (False, False, st)
                   | Some mi \<Rightarrow>
                       if flags mi AND NO_SETATTR = 0
                       then (True, False,
                             st\<lparr>mode := snd (set_mode mi reversed (mode st)),
                                require_set_attr := True\<rparr>)
                       else (True, True, st))
            in if \<not> match_found \<and> reversed then Inl (Invalid_argument tok, st1)
               else
                 (case (if \<not> match_found then find_control arg else None) of
                    Some ci \<Rightarrow>
                      (case next_arg rest of
                         None \<Rightarrow> Inl (Missing_argument arg, st1)
                       | Some a \<Rightarrow>
                           (case set_control_char ci a (mode st1) of
                              Inl e \<Rightarrow> Inl (e, st1)
                            | Inr m' \<Rightarrow> Inr (st1\<lparr>mode := m', require_set_attr := True\<rparr>, 1)))
                  | None \<Rightarrow>
                      if \<not> match_found \<or> not_set_attr then
                        (case apply_special_setting vtb arg reversed checking rest st1 of
                           Inl e \<Rightarrow> Inl e
                         | Inr (True, st2, n) \<Rightarrow> Inr (st2, n)
                         | Inr (False, _, _) \<Rightarrow>
                             (case recover_mode arg (mode st1) of
                                (False, m') \<Rightarrow> Inl (Invalid_argument arg, st1\<lparr>mode := m'\<rparr>)
                              | (True, m') \<Rightarrow>
                                  Inr (st1\<lparr>mode := m', require_set_attr := True\<rparr>, 0)))
                      else Inr (st1, 0))))"

text \<open>\<^verbatim>\<open>check_speed\<close>\<close>

definition check_speed :: "stty_state \<Rightarrow> (error \<times> stty_state) + stty_state" where
  "check_speed st =
     (if last_ibaud st = - 1 \<or> last_obaud st = - 1 then Inr st
      else if cfgetispeed (mode st) \<noteq> last_ibaud st \<or> cfgetospeed (mode st) \<noteq> last_obaud st
      then Inl (Asymmetric_speeds (last_ibaud st) (last_obaud st), st)
      else Inr st)"

text \<open>The loop over \<^verbatim>\<open>settings[1..]\<close>; a null entry is skipped.\<close>

fun apply_loop ::
  "(ulong \<Rightarrow> speed_t) \<Rightarrow> bool \<Rightarrow> string option list \<Rightarrow> stty_state
     \<Rightarrow> (error \<times> stty_state) + stty_state" where
  "apply_loop vtb checking [] st = Inr st"
| "apply_loop vtb checking (None # rest) st = apply_loop vtb checking rest st"
| "apply_loop vtb checking (Some tok # rest) st =
     (case apply_token vtb checking tok rest st of
        Inl e \<Rightarrow> Inl e
      | Inr (st', n) \<Rightarrow> apply_loop vtb checking (drop n rest) st')"

definition apply_settings ::
  "(ulong \<Rightarrow> speed_t) \<Rightarrow> bool \<Rightarrow> string option list \<Rightarrow> stty_state
     \<Rightarrow> (error \<times> stty_state) + stty_state" where
  "apply_settings vtb checking settings st =
     (case apply_loop vtb checking (tl settings) st of
        Inl e \<Rightarrow> Inl e
      | Inr st' \<Rightarrow> if checking then check_speed st' else Inr st')"


subsection \<open>\<^verbatim>\<open>apply_settings\<close> of \<^verbatim>\<open>stty-gpt-4o.c\<close>\<close>

text \<open>
  The special settings are tested inline.  The argument of \<^verbatim>\<open>rows\<close>, \<^verbatim>\<open>cols\<close> and
  \<^verbatim>\<open>columns\<close> is stepped over by \<^verbatim>\<open>settings[++k]\<close> inside \<^verbatim>\<open>if (!checking)\<close> only.
\<close>

definition special_settings_gpt4o ::
  "(ulong \<Rightarrow> speed_t) \<Rightarrow> string \<Rightarrow> bool \<Rightarrow> string option list \<Rightarrow> stty_state
     \<Rightarrow> (error \<times> stty_state) + (stty_state \<times> nat)" where
  "special_settings_gpt4o vtb arg checking rest st =
     (if arg = ''ispeed'' \<or> arg = ''ospeed'' then
           (case next_arg rest of
              None \<Rightarrow> Inl (Missing_argument arg, st)
            | Some a \<Rightarrow>
                if string_to_baud vtb a = - 1 then Inl (Invalid_speed arg a, st)
                else
                  (case set_speed_gpt4o vtb
                          (if arg = ''ispeed'' then input_speed else output_speed) a st of
                     Inl e \<Rightarrow> Inl e
                   | Inr st1 \<Rightarrow>
                       Inr (if \<not> checking then st1\<lparr>require_set_attr := True\<rparr> else st1, 1)))
         else if arg = ''rows'' \<or> arg = ''cols'' \<or> arg = ''columns'' then
           (case next_arg rest of
              None \<Rightarrow> Inl (Missing_argument arg, st)
            | Some a \<Rightarrow>
                if \<not> checking then
                  (case integer_arg a INT_MAX of
                     Inl e \<Rightarrow> Inl (e, st)
                   | Inr v \<Rightarrow>
                       Inr (add_event (Window_size_set (if arg = ''rows'' then int v else - 1)
                                                       (if arg = ''rows'' then - 1 else int v)) st, 1))
                else Inr (st, 0))
         else if arg = ''size'' then
           Inr (if \<not> checking then add_event Window_size_displayed st else st, 0)
         else if arg = ''line'' then
           (case next_arg rest of
              None \<Rightarrow> Inl (Missing_argument arg, st)
            | Some a \<Rightarrow>
                (case integer_arg a UINTMAX_MAX of
                   Inl e \<Rightarrow> Inl (e, st)
                 | Inr v \<Rightarrow> Inr (set_line a v st, 1)))
         else if arg = ''speed'' then
           Inr (if \<not> checking
                then add_event (Speed_displayed (cfgetispeed (mode st)) (cfgetospeed (mode st))) st
                else st, 0)
         else if string_to_baud vtb arg \<noteq> - 1 then
           (case set_speed_gpt4o vtb both_speeds arg st of
              Inl e \<Rightarrow> Inl e
            | Inr st1 \<Rightarrow>
                Inr (if \<not> checking then st1\<lparr>require_set_attr := True\<rparr> else st1, 0))
         else
           (case recover_mode_gpt4o arg (mode st) of
              Inl e \<Rightarrow> Inl (e, st)
            | Inr (False, m') \<Rightarrow> Inl (Invalid_argument arg, st\<lparr>mode := m'\<rparr>)
            | Inr (True, m') \<Rightarrow> Inr (st\<lparr>mode := m', require_set_attr := True\<rparr>, 0)))"

text \<open>The body of the loop for one argument.  Here \<^verbatim>\<open>match_found\<close> is the result of
  \<^verbatim>\<open>set_mode\<close>.\<close>

definition apply_token_gpt4o ::
  "(ulong \<Rightarrow> speed_t) \<Rightarrow> bool \<Rightarrow> string \<Rightarrow> string option list \<Rightarrow> stty_state
     \<Rightarrow> (error \<times> stty_state) + (stty_state \<times> nat)" where
  "apply_token_gpt4o vtb checking tok rest st =
     (let reversed = (peek tok = CHR ''-'');
          arg = (if reversed then tl tok else tok)
      in if arg = ''drain'' then
           Inr (st\<lparr>tcsetattr_options := (if reversed then TCSANOW else TCSADRAIN)\<rparr>, 0)
         else
           (let (match_found, not_set_attr, st1) =
                  (case find_mode arg of
                     None \<Rightarrow> (False, False, st)
                   | Some mi \<Rightarrow>
                       if flags mi AND NO_SETATTR = 0
                       then (let (ok, m') = set_mode_gpt4o mi reversed (mode st)
                             in (ok, False, st\<lparr>mode := m', require_set_attr := True\<rparr>))
                       else (True, True, st))
            in if \<not> match_found \<and> reversed then Inl (Invalid_argument tok, st1)
               else
                 (case (if \<not> match_found then find_control arg else None) of
                    Some ci \<Rightarrow>
                      (case next_arg rest of
                         None \<Rightarrow> Inl (Missing_argument arg, st1)
                       | Some a \<Rightarrow>
                           (case set_control_char_gpt4o ci a (mode st1) of
                              Inl e \<Rightarrow> Inl (e, st1)
                            | Inr m' \<Rightarrow> Inr (st1\<lparr>mode := m', require_set_attr := True\<rparr>, 1)))
                  | None \<Rightarrow>
                      if \<not> match_found \<or> not_set_attr
                      then special_settings_gpt4o vtb arg checking rest st1
                      else Inr (st1, 0))))"

fun apply_loop_gpt4o ::
  "(ulong \<Rightarrow> speed_t) \<Rightarrow> bool \<Rightarrow> string option list \<Rightarrow> stty_state
     \<Rightarrow> (error \<times> stty_state) + stty_state" where
  "apply_loop_gpt4o vtb checking [] st = Inr st"
| "apply_loop_gpt4o vtb checking (None # rest) st = apply_loop_gpt4o vtb checking rest st"
| "apply_loop_gpt4o vtb checking (Some tok # rest) st =
     (case apply_token_gpt4o vtb checking tok rest st of
        Inl e \<Rightarrow> Inl e
      | Inr (st', n) \<Rightarrow> apply_loop_gpt4o vtb checking (drop n rest) st')"

definition apply_settings_gpt4o ::
  "(ulong \<Rightarrow> speed_t) \<Rightarrow> bool \<Rightarrow> string option list \<Rightarrow> stty_state
     \<Rightarrow> (error \<times> stty_state) + stty_state" where
  "apply_settings_gpt4o vtb checking settings st =
     (case apply_loop_gpt4o vtb checking (tl settings) st of
        Inl e \<Rightarrow> Inl e
      | Inr st' \<Rightarrow> if checking then check_speed st' else Inr st')"

section \<open>The program\<close>

text \<open>
  \<^verbatim>\<open>main\<close> after the options are parsed: the output style, whether there is no setting, and
  the device named by \<^verbatim>\<open>-F\<close>.  The settings are validated on a zeroed scratch snapshot before
  the device is opened; then the snapshot is read from the device (\<open>dev\<close>), and either
  displayed or changed and written back.  The result is the exit status and everything done
  to the device and printed.
\<close>

record stty_config =
  output_type :: output_type
  noargs :: bool
  file_name :: "string option"

datatype exit_status = EXIT_SUCCESS | EXIT_FAILURE error

text \<open>\<^verbatim>\<open>eq_mode\<close>\<close>

definition eq_mode :: "termios \<Rightarrow> termios \<Rightarrow> bool" where
  "eq_mode mode1 mode2 \<longleftrightarrow>
     c_iflag mode1 = c_iflag mode2 \<and> c_oflag mode1 = c_oflag mode2 \<and>
     c_cflag mode1 = c_cflag mode2 \<and> c_lflag mode1 = c_lflag mode2 \<and>
     c_line mode1 = c_line mode2 \<and>
     cfgetispeed mode1 = cfgetispeed mode2 \<and> cfgetospeed mode1 = cfgetospeed mode2 \<and>
     c_cc mode1 = c_cc mode2"

text \<open>The device after \<^verbatim>\<open>tcsetattr\<close>: \<open>readback\<close> gives the snapshot the following
  \<^verbatim>\<open>tcgetattr\<close> returns for the snapshot written.\<close>

definition set_and_verify_attributes ::
  "(termios \<Rightarrow> termios) \<Rightarrow> tcsetattr_option \<Rightarrow> stty_state \<Rightarrow> exit_status \<times> event list" where
  "set_and_verify_attributes readback opt st =
     (let evs = events st @ [Attributes_written opt (mode st), Attributes_read]
      in if \<not> eq_mode (mode st) (readback (mode st)) then (EXIT_FAILURE Unable_to_perform_all, evs)
         else (EXIT_SUCCESS, evs))"

definition open_and_read :: "stty_config \<Rightarrow> event list" where
  "open_and_read config =
     (case file_name config of None \<Rightarrow> [] | Some f \<Rightarrow> [Device_opened f]) @ [Attributes_read]"

definition stty_main ::
  "(ulong \<Rightarrow> speed_t) \<Rightarrow> (termios \<Rightarrow> termios) \<Rightarrow> stty_config \<Rightarrow> string option list \<Rightarrow> termios
     \<Rightarrow> exit_status \<times> event list" where
  "stty_main vtb readback config argv dev =
     (let is_display_mode = (output_type config \<noteq> changed \<or> noargs config)
      in case (if \<not> is_display_mode
               then apply_settings vtb True argv (initial_state zero_termios)
               else Inr (initial_state zero_termios)) of
           Inl (e, st) \<Rightarrow> (EXIT_FAILURE e, events st)
         | Inr chk \<Rightarrow>
             (let st0 = chk\<lparr>mode := dev, require_set_attr := False,
                            events := events chk @ open_and_read config\<rparr>
              in if is_display_mode
                 then (EXIT_SUCCESS, events st0 @ [Settings_displayed (output_type config) dev])
                 else
                   (case apply_settings vtb False argv st0 of
                      Inl (e, st) \<Rightarrow> (EXIT_FAILURE e, events st)
                    | Inr st1 \<Rightarrow>
                        if require_set_attr st1
                        then set_and_verify_attributes readback (tcsetattr_options st1) st1
                        else (EXIT_SUCCESS, events st1))))"

text \<open>\<^verbatim>\<open>main\<close> of \<^verbatim>\<open>stty-gpt-4o.c\<close>; it always writes with \<^verbatim>\<open>TCSANOW\<close>.\<close>

definition stty_main_gpt4o ::
  "(ulong \<Rightarrow> speed_t) \<Rightarrow> (termios \<Rightarrow> termios) \<Rightarrow> stty_config \<Rightarrow> string option list \<Rightarrow> termios
     \<Rightarrow> exit_status \<times> event list" where
  "stty_main_gpt4o vtb readback config argv dev =
     (let displaying = (output_type config \<noteq> changed \<or> noargs config)
      in case (if \<not> displaying
               then apply_settings_gpt4o vtb True argv (initial_state zero_termios)
               else Inr (initial_state zero_termios)) of
           Inl (e, st) \<Rightarrow> (EXIT_FAILURE e, events st)
         | Inr chk \<Rightarrow>
             (let st0 = chk\<lparr>mode := dev, require_set_attr := False,
                            events := events chk @ open_and_read config\<rparr>
              in if displaying
                 then (EXIT_SUCCESS, events st0 @ [Settings_displayed (output_type config) dev])
                 else
                   (case apply_settings_gpt4o vtb False argv st0 of
                      Inl (e, st) \<Rightarrow> (EXIT_FAILURE e, events st)
                    | Inr st1 \<Rightarrow>
                        if require_set_attr st1
                        then set_and_verify_attributes readback TCSANOW st1
                        else (EXIT_SUCCESS, events st1))))"

section \<open>The renderer\<close>

text \<open>
  \<^verbatim>\<open>display_one_mode_flag\<close> of \<^verbatim>\<open>stty-gemini-2.5-pro.c\<close>, which is also the body of the second
  loop of \<^verbatim>\<open>display_changed\<close> in \<^verbatim>\<open>stty-gpt-4o.c\<close>: the text handed to \<^verbatim>\<open>wrapf\<close>, if any.
  For a combination that is not flagged \<^verbatim>\<open>OMIT\<close> the source reads through the null pointer
  \<^verbatim>\<open>mode_type_flag\<close> returns; the table has no such entry.
\<close>

datatype shown = Printed string | Not_printed | Null_dereference

definition display_one_mode_flag :: "mode_info \<Rightarrow> termios \<Rightarrow> shown" where
  "display_one_mode_flag info m =
     (if flags info AND OMIT \<noteq> 0 then Not_printed
      else case mode_type_flag (type info) of
        None \<Rightarrow> Null_dereference
      | Some bitsp \<Rightarrow>
          (let msk = (if mask_bits info \<noteq> 0 then mask_bits info else bits info);
               is_set_as_expected = (load_flag bitsp m AND msk = bits info);
               is_reversely_set = (flags info AND (SANE_SET OR REV) = (SANE_SET OR REV))
           in if is_set_as_expected then
                (if flags info AND SANE_UNSET \<noteq> 0 then Printed (name info) else Not_printed)
              else if is_reversely_set then Printed (CHR ''-'' # name info)
              else Not_printed))"

text \<open>The flag block of the changed-only display: what is printed for each entry of the table,
  in table order.\<close>

definition display_mode_flags :: "termios \<Rightarrow> shown list" where
  "display_mode_flags m = map (\<lambda>info. display_one_mode_flag info m) mode_info"

section \<open>Auxiliary definitions for the proofs\<close>

text \<open>
  One step of the second loop of \<^verbatim>\<open>sane_mode\<close> replaces the word \<open>w\<close> it writes by
  \<open>(w AND NOT a) OR b\<close>; \<open>sane_clear_set\<close> gives \<open>(a, b)\<close> for an entry and a flag word,
  and \<open>sane_acc\<close> composes the steps of a table.
\<close>

definition sane_clear_set :: "mode_info \<Rightarrow> flag_ptr \<Rightarrow> tcflag_t \<times> tcflag_t" where
  "sane_clear_set mi p =
     (if flags mi AND NO_SETATTR \<noteq> 0 \<or> mode_type_flag (type mi) \<noteq> Some p then (0, 0)
      else if flags mi AND SANE_SET \<noteq> 0 then (mask_bits mi, bits mi)
      else if flags mi AND SANE_UNSET \<noteq> 0 then (mask_bits mi OR bits mi, 0)
      else (0, 0))"

fun sane_acc :: "mode_info list \<Rightarrow> flag_ptr \<Rightarrow> tcflag_t \<times> tcflag_t \<Rightarrow> tcflag_t \<times> tcflag_t" where
  "sane_acc [] p ab = ab"
| "sane_acc (mi # mis) p ab =
     sane_acc mis p (fst ab OR fst (sane_clear_set mi p),
                     (snd ab AND NOT (fst (sane_clear_set mi p))) OR snd (sane_clear_set mi p))"

text \<open>An entry keeps its default under the composed step \<open>(A, B)\<close> of its flag word.\<close>

definition sane_entry_ok :: "tcflag_t \<Rightarrow> tcflag_t \<Rightarrow> mode_info \<Rightarrow> bool" where
  "sane_entry_ok A B mi =
     ((flags mi AND SANE_SET = 0 \<or>
         (if mask_bits mi \<noteq> 0 then mask_bits mi else bits mi) AND NOT (A OR B) = 0 \<and>
         B AND (if mask_bits mi \<noteq> 0 then mask_bits mi else bits mi) = bits mi) \<and>
      (flags mi AND SANE_UNSET = 0 \<or>
         (mask_bits mi OR bits mi) AND NOT (A OR B) = 0 \<and>
         B AND (mask_bits mi OR bits mi) = 0))"

definition sane_table_ok :: "mode_info \<Rightarrow> bool" where
  "sane_table_ok mi =
     (case mode_type_flag (type mi) of
        None \<Rightarrow> True
      | Some p \<Rightarrow> sane_entry_ok (fst (sane_acc mode_info p (0, 0)))
                    (snd (sane_acc mode_info p (0, 0))) mi)"

text \<open>The two branches of \<^verbatim>\<open>raw\<close> and \<^verbatim>\<open>cooked\<close> in \<^verbatim>\<open>apply_combination_mode\<close>.\<close>

definition cooked_branch_gpt4o :: "termios \<Rightarrow> termios" where
  "cooked_branch_gpt4o m =
     snd (apply_combination_mode (mk_mode ''cooked'' combination (REV OR OMIT) 0 0) m False)"

definition raw_branch_gpt4o :: "termios \<Rightarrow> termios" where
  "raw_branch_gpt4o m =
     snd (apply_combination_mode (mk_mode ''raw'' combination (REV OR OMIT) 0 0) m False)"

text \<open>A field of the recoverable format is followed by a colon or by the end of the text.\<close>

definition field_end :: "string \<Rightarrow> bool" where
  "field_end rest \<longleftrightarrow> rest = [] \<or> hd rest = CHR '':''"


text \<open>The control characters from slot \<open>i\<close> on, as \<^verbatim>\<open>display_recoverable\<close> prints them, without
  the colon in front.\<close>

definition cc_fields :: "cc_t list \<Rightarrow> nat \<Rightarrow> string" where
  "cc_fields cs i =
     printf_lx (unat (cs ! i)) @ concat (map (\<lambda>j. '':'' @ printf_lx (unat (cs ! j))) [Suc i..<NCCS])"

text \<open>The value a decimal fraction is rounded to, in the words of the specification: the
  number \<open>n + 0.fs\<close>, for the fraction digits \<open>fs\<close>, goes to the nearest integer, and to the
  even one of its two neighbours when it lies exactly between them.\<close>

definition decimal_value :: "string \<Rightarrow> nat" where
  "decimal_value ds = foldl (\<lambda>a c. a * 10 + (of_char c - 48)) 0 ds"

definition round_half_even :: "nat \<Rightarrow> string \<Rightarrow> nat" where
  "round_half_even n fs =
     (if 10 ^ length fs < 2 * decimal_value fs then n + 1
      else if 2 * decimal_value fs = 10 ^ length fs then n + n mod 2
      else n)"

text \<open>What \<^verbatim>\<open>string_to_baud\<close> does after the decimal point, for the integer part \<open>val\<close> and
  the text \<open>tail\<close> behind the point.\<close>

definition baud_fraction :: "(ulong \<Rightarrow> speed_t) \<Rightarrow> ulong \<Rightarrow> string \<Rightarrow> speed_t" where
  "baud_fraction vtb val tail =
     (let (c1, ep1) = cnext tail
      in if c1 \<noteq> NUL then
           (let d = (of_char c1 - of_char CHR ''0'' :: 8 word);
                (val2, c2, ep2) =
                  (if 5 < d then (val + 1, c1, ep1)
                   else if d = 5 then
                     (let (cz, epz) = skip_zeroes ep1
                      in if cz \<noteq> NUL then (val + 1, cz, epz)
                         else (val + (val AND 1), cz, epz))
                   else (val, c1, ep1));
                (c3, ep3) = skip_digits c2 ep2
            in if c3 \<noteq> NUL then - 1 else vtb val2)
         else vtb val)"

text \<open>The number of colons of a text, one less than the number of its fields.\<close>

definition colons :: "string \<Rightarrow> nat" where
  "colons s = length (filter (\<lambda>c. c = CHR '':'') s)"

section \<open>Properties\<close>

subsection \<open>Bits\<close>

lemma and_pow2: "x AND 2 ^ n \<noteq> 0 \<Longrightarrow> x AND 2 ^ n = 2 ^ n" for x :: "'a::len word"
  by (rule bit_word_eqI) (auto simp add: bit_and_iff bit_exp_iff and_exp_eq_0_iff_not_bit)

lemma both_flags:
  "f AND (SANE_SET OR REV) = (SANE_SET OR REV) \<longleftrightarrow> f AND SANE_SET \<noteq> 0 \<and> f AND REV \<noteq> 0"
proof
  assume h: "f AND (SANE_SET OR REV) = (SANE_SET OR REV)"
  have "f AND 1 = (f AND 5) AND 1" by (simp add: word_bw_assocs)
  moreover have "f AND 4 = (f AND 5) AND 4" by (simp add: word_bw_assocs)
  ultimately show "f AND SANE_SET \<noteq> 0 \<and> f AND REV \<noteq> 0" using h by (simp add: mflag_defs)
next
  assume h: "f AND SANE_SET \<noteq> 0 \<and> f AND REV \<noteq> 0"
  have a: "f AND 1 = 1" using and_pow2[of f 0] h by (simp add: mflag_defs)
  have b: "f AND 4 = 4" using and_pow2[of f 2] h by (simp add: mflag_defs)
  have "f AND 5 = (f AND 1) OR (f AND 4)" by (simp add: bit.conj_disj_distrib [symmetric])
  then show "f AND (SANE_SET OR REV) = (SANE_SET OR REV)" using a b by (simp add: mflag_defs)
qed

subsection \<open>The frame of \<^verbatim>\<open>set_mode\<close>\<close>

text \<open>
  C10.  \<^verbatim>\<open>set_mode\<close> on a descriptor that is not a combination, negated or not, changes at
  most the flag word its type selects: the control characters, the line discipline, both
  speeds and the three other flag words are as before.  This holds for \<^verbatim>\<open>set_mode\<close> of both
  files.
\<close>

theorem set_mode_frame:
  assumes "type info \<noteq> combination"
  shows "c_cc (snd (set_mode info reversed m)) = c_cc m \<and>
         c_line (snd (set_mode info reversed m)) = c_line m \<and>
         c_ispeed (snd (set_mode info reversed m)) = c_ispeed m \<and>
         c_ospeed (snd (set_mode info reversed m)) = c_ospeed m \<and>
         (type info \<noteq> control \<longrightarrow> c_cflag (snd (set_mode info reversed m)) = c_cflag m) \<and>
         (type info \<noteq> input \<longrightarrow> c_iflag (snd (set_mode info reversed m)) = c_iflag m) \<and>
         (type info \<noteq> output_flag \<longrightarrow> c_oflag (snd (set_mode info reversed m)) = c_oflag m) \<and>
         (type info \<noteq> local \<longrightarrow> c_lflag (snd (set_mode info reversed m)) = c_lflag m) \<and>
         c_cc (snd (set_mode_gpt4o info reversed m)) = c_cc m \<and>
         c_line (snd (set_mode_gpt4o info reversed m)) = c_line m \<and>
         c_ispeed (snd (set_mode_gpt4o info reversed m)) = c_ispeed m \<and>
         c_ospeed (snd (set_mode_gpt4o info reversed m)) = c_ospeed m \<and>
         (type info \<noteq> control \<longrightarrow> c_cflag (snd (set_mode_gpt4o info reversed m)) = c_cflag m) \<and>
         (type info \<noteq> input \<longrightarrow> c_iflag (snd (set_mode_gpt4o info reversed m)) = c_iflag m) \<and>
         (type info \<noteq> output_flag \<longrightarrow> c_oflag (snd (set_mode_gpt4o info reversed m)) = c_oflag m) \<and>
         (type info \<noteq> local \<longrightarrow> c_lflag (snd (set_mode_gpt4o info reversed m)) = c_lflag m)"
  using assms by (cases "type info") (simp_all add: set_mode_def set_mode_gpt4o_def)

theorem set_mode_frame_witness:
  "type (mk_mode ''cs8'' control 0 CS8 CSIZE) \<noteq> combination \<and>
   c_cflag (snd (set_mode (mk_mode ''cs8'' control 0 CS8 CSIZE) False zero_termios)) = CS8 \<and>
   c_iflag (snd (set_mode (mk_mode ''cs8'' control 0 CS8 CSIZE) False zero_termios)) = 0 \<and>
   c_oflag (snd (set_mode (mk_mode ''cs8'' control 0 CS8 CSIZE) False zero_termios)) = 0 \<and>
   c_lflag (snd (set_mode (mk_mode ''cs8'' control 0 CS8 CSIZE) False zero_termios)) = 0 \<and>
   c_cc (snd (set_mode (mk_mode ''cs8'' control 0 CS8 CSIZE) False zero_termios)) = replicate NCCS 0"
  using set_mode_frame [of "mk_mode ''cs8'' control 0 CS8 CSIZE" False zero_termios]
  by (simp add: mk_mode_def set_mode_def zero_termios_def)

subsection \<open>The changed-only display of a flag\<close>

text \<open>Every entry of the table that is not flagged \<^verbatim>\<open>OMIT\<close> has a flag word.\<close>

lemma non_omitted_have_word:
  "list_all (\<lambda>info. flags info AND OMIT = 0 \<longrightarrow> mode_type_flag (type info) \<noteq> None) mode_info"
  by (simp add: mode_info_def mk_mode_def mflag_defs)

text \<open>
  C8.  In the changed-only display a descriptor that is not flagged \<^verbatim>\<open>OMIT\<close> is printed
  under its plain name exactly when the bits of its flag word under its mask (the member
  \<^verbatim>\<open>mask\<close>, or \<^verbatim>\<open>bits\<close> when that is zero) equal its pattern and it is flagged \<^verbatim>\<open>SANE_UNSET\<close>;
  it is printed with a leading \<^verbatim>\<open>-\<close> exactly when they differ and it is flagged both
  \<^verbatim>\<open>SANE_SET\<close> and \<^verbatim>\<open>REV\<close>; otherwise nothing is printed for it.
\<close>

theorem display_changed_flag:
  assumes "flags info AND OMIT = 0" and "mode_type_flag (type info) = Some bitsp"
  shows "(display_one_mode_flag info m = Printed (name info) \<longleftrightarrow>
            load_flag bitsp m AND (if mask_bits info \<noteq> 0 then mask_bits info else bits info)
              = bits info \<and> flags info AND SANE_UNSET \<noteq> 0) \<and>
         (display_one_mode_flag info m = Printed (CHR ''-'' # name info) \<longleftrightarrow>
            load_flag bitsp m AND (if mask_bits info \<noteq> 0 then mask_bits info else bits info)
              \<noteq> bits info \<and> flags info AND SANE_SET \<noteq> 0 \<and> flags info AND REV \<noteq> 0) \<and>
         (\<not> (load_flag bitsp m AND (if mask_bits info \<noteq> 0 then mask_bits info else bits info)
              = bits info \<and> flags info AND SANE_UNSET \<noteq> 0) \<and>
          \<not> (load_flag bitsp m AND (if mask_bits info \<noteq> 0 then mask_bits info else bits info)
              \<noteq> bits info \<and> flags info AND SANE_SET \<noteq> 0 \<and> flags info AND REV \<noteq> 0)
          \<longrightarrow> display_one_mode_flag info m = Not_printed)"
  using assms by (auto simp add: display_one_mode_flag_def both_flags Let_def)

theorem display_changed_flag_witness:
  "flags (mk_mode ''icrnl'' input (SANE_SET OR REV) ICRNL 0) AND OMIT = 0 \<and>
   mode_type_flag (type (mk_mode ''icrnl'' input (SANE_SET OR REV) ICRNL 0)) = Some iflag_ptr \<and>
   display_one_mode_flag (mk_mode ''icrnl'' input (SANE_SET OR REV) ICRNL 0) zero_termios
     = Printed ''-icrnl'' \<and>
   display_one_mode_flag (mk_mode ''icrnl'' input (SANE_SET OR REV) ICRNL 0)
     (zero_termios\<lparr>c_iflag := ICRNL\<rparr>) = Not_printed"
  using display_changed_flag [of "mk_mode ''icrnl'' input (SANE_SET OR REV) ICRNL 0" iflag_ptr zero_termios]
    display_changed_flag [of "mk_mode ''icrnl'' input (SANE_SET OR REV) ICRNL 0" iflag_ptr
      "zero_termios\<lparr>c_iflag := ICRNL\<rparr>"]
  by (simp add: mk_mode_def zero_termios_def mflag_defs ICRNL_def)

subsection \<open>Lookups in the registry\<close>

lemma find_mode_evenp: "find_mode ''evenp'' = Some (mk_mode ''evenp'' combination (REV OR OMIT) 0 0)"
  by (simp add: find_mode_def mode_info_def mk_mode_def)

lemma find_mode_sane: "find_mode ''sane'' = Some (mk_mode ''sane'' combination OMIT 0 0)"
  by (simp add: find_mode_def mode_info_def mk_mode_def)


lemma find_mode_raw: "find_mode ''raw'' = Some (mk_mode ''raw'' combination (REV OR OMIT) 0 0)"
  by (simp add: find_mode_def mode_info_def mk_mode_def)

lemma find_mode_cooked: "find_mode ''cooked'' = Some (mk_mode ''cooked'' combination (REV OR OMIT) 0 0)"
  by (simp add: find_mode_def mode_info_def mk_mode_def)


subsection \<open>Word identities\<close>


lemma or_and_self: "(w OR b) AND b = b" for w :: "'a::len word"
  by (rule bit_word_eqI) (auto simp add: bit_simps)

lemma clear_and: "(w AND NOT (a OR c)) AND a = 0" "(w AND NOT a) AND a = 0"
  "(w AND NOT (a OR b OR c)) AND (a OR b) = 0" for w :: "'a::len word"
  by (rule bit_word_eqI; auto simp add: bit_simps)+

lemma either_flag:
  "f AND (SANE_SET OR SANE_UNSET) \<noteq> 0 \<longleftrightarrow> f AND SANE_SET \<noteq> 0 \<or> f AND SANE_UNSET \<noteq> 0"
  by (simp add: bit.conj_disj_distrib or_eq_0_iff)

lemma compose_clear_set:
  "(((w AND NOT A) OR B) AND NOT a) OR b = (w AND NOT (A OR a)) OR ((B AND NOT a) OR b)"
  for w :: "'a::len word"
  by (rule bit_word_eqI) (auto simp add: bit_simps)

lemma masked_value:
  "k AND NOT (A OR B) = 0 \<Longrightarrow> B AND k = v \<Longrightarrow> ((w AND NOT A) OR B) AND k = v"
  for w :: "'a::len word"
proof -
  assume a: "k AND NOT (A OR B) = 0" and b: "B AND k = v"
  have "((w AND NOT A) OR B) AND k = (w AND (k AND NOT (A OR B))) OR (B AND k)"
    by (rule bit_word_eqI) (auto simp add: bit_simps)
  with a b show ?thesis by simp
qed

lemma absorb_clear_set: "((((w AND NOT A) OR B) AND NOT A) OR B) = (w AND NOT A) OR B"
  for w :: "'a::len word"
  by (rule bit_word_eqI) (auto simp add: bit_simps)


subsection \<open>The negated \<^verbatim>\<open>evenp\<close>\<close>

lemma apply_negated_evenp:
  "apply_settings vtb False [p, Some ''-evenp''] st =
     Inr (st\<lparr>mode := (mode st)\<lparr>c_cflag := (c_cflag (mode st) AND NOT (PARENB OR CSIZE)) OR CS8\<rparr>,
            require_set_attr := True\<rparr>)"
  by (simp add: apply_settings_def apply_token_def find_mode_evenp set_mode_def mk_mode_def
      mflag_defs combination_modes_def set_parity_mode_def)

lemma apply_negated_evenp_gpt4o:
  "apply_settings_gpt4o vtb False [p, Some ''-evenp''] st =
     Inr (st\<lparr>mode := (mode st)\<lparr>c_cflag := (c_cflag (mode st) AND NOT PARENB AND NOT CSIZE) OR CS8\<rparr>,
            require_set_attr := True\<rparr>)"
  by (simp add: apply_settings_gpt4o_def apply_token_gpt4o_def find_mode_evenp set_mode_gpt4o_def
      mk_mode_def mflag_defs apply_combination_mode_def)

lemma evenp_bits:
  "((w AND NOT (PARENB OR CSIZE)) OR CS8) AND CSIZE = CS8"
  "((w AND NOT (PARENB OR CSIZE)) OR CS8) AND PARENB = 0"
  "((w AND NOT (PARENB OR CSIZE)) OR CS8) AND PARODD = w AND PARODD"
  "((w AND NOT PARENB AND NOT CSIZE) OR CS8) AND CSIZE = CS8"
  "((w AND NOT PARENB AND NOT CSIZE) OR CS8) AND PARENB = 0"
  "((w AND NOT PARENB AND NOT CSIZE) OR CS8) AND PARODD = w AND PARODD"
  by (simp_all add: cflag_defs bit.conj_disj_distrib2 word_bw_assocs)

text \<open>
  C5, as the code has it.  The argument list \<^verbatim>\<open>-evenp\<close> applied to any snapshot sets the
  character size to \<^verbatim>\<open>CS8\<close> and clears \<^verbatim>\<open>PARENB\<close>, whatever the parity and size bits were;
  \<^verbatim>\<open>PARODD\<close> keeps the value it had.  This holds in both files.
\<close>

theorem negated_evenp:
  "(\<exists>st'. apply_settings vtb False [p, Some ''-evenp''] st = Inr st' \<and>
      c_cflag (mode st') AND CSIZE = CS8 \<and>
      c_cflag (mode st') AND PARENB = 0 \<and>
      c_cflag (mode st') AND PARODD = c_cflag (mode st) AND PARODD) \<and>
   (\<exists>st'. apply_settings_gpt4o vtb False [p, Some ''-evenp''] st = Inr st' \<and>
      c_cflag (mode st') AND CSIZE = CS8 \<and>
      c_cflag (mode st') AND PARENB = 0 \<and>
      c_cflag (mode st') AND PARODD = c_cflag (mode st) AND PARODD)"
  by (simp add: apply_negated_evenp apply_negated_evenp_gpt4o evenp_bits)

text \<open>
  C5 as stated fails: on a snapshot whose control word has \<^verbatim>\<open>PARODD\<close> set, \<^verbatim>\<open>-evenp\<close> leaves
  \<^verbatim>\<open>PARODD\<close> set, in both files.
\<close>

theorem negated_evenp_keeps_parodd:
  "c_cflag (mode (projr (apply_settings ucast False [Some ''stty'', Some ''-evenp'']
      (initial_state (zero_termios\<lparr>c_cflag := PARODD\<rparr>))))) AND PARODD = PARODD \<and>
   PARODD \<noteq> 0 \<and>
   c_cflag (mode (projr (apply_settings_gpt4o ucast False [Some ''stty'', Some ''-evenp'']
      (initial_state (zero_termios\<lparr>c_cflag := PARODD\<rparr>))))) AND PARODD = PARODD"
  by (simp add: apply_negated_evenp apply_negated_evenp_gpt4o evenp_bits initial_state_def zero_termios_def)
     (simp add: cflag_defs)

subsection \<open>\<^verbatim>\<open>raw\<close> and \<^verbatim>\<open>cooked\<close>\<close>


lemma apply_token_raw:
  "apply_token vtb chk ''raw'' rest st =
     Inr (st\<lparr>mode := set_raw_cooked_logic (mode st) False, require_set_attr := True\<rparr>, 0)"
  by (simp add: apply_token_def find_mode_raw set_mode_def mk_mode_def
      mflag_defs combination_modes_def handle_raw_mode_def)

lemma apply_token_cooked:
  "apply_token vtb chk ''cooked'' rest st =
     Inr (st\<lparr>mode := set_raw_cooked_logic (mode st) True, require_set_attr := True\<rparr>, 0)"
  by (simp add: apply_token_def find_mode_cooked set_mode_def mk_mode_def
      mflag_defs combination_modes_def handle_cooked_mode_def)
lemma apply_token_raw_gpt4o:
  "apply_token_gpt4o vtb chk ''raw'' rest st =
     Inr (st\<lparr>mode := raw_branch_gpt4o (mode st), require_set_attr := True\<rparr>, 0)"
  by (simp add: apply_token_gpt4o_def find_mode_raw set_mode_gpt4o_def mk_mode_def raw_branch_gpt4o_def
      mflag_defs apply_combination_mode_def)

lemma apply_token_cooked_gpt4o:
  "apply_token_gpt4o vtb chk ''cooked'' rest st =
     Inr (st\<lparr>mode := cooked_branch_gpt4o (mode st), require_set_attr := True\<rparr>, 0)"
  by (simp add: apply_token_gpt4o_def find_mode_cooked set_mode_gpt4o_def mk_mode_def cooked_branch_gpt4o_def
      mflag_defs apply_combination_mode_def)

lemma raw_fields:
  "c_iflag (set_raw_cooked_logic m False) = 0"
  "c_oflag (set_raw_cooked_logic m False) = c_oflag m AND NOT OPOST"
  "c_lflag (set_raw_cooked_logic m False) = c_lflag m AND NOT (ISIG OR ICANON OR XCASE)"
  "c_iflag (raw_branch_gpt4o m) = 0"
  "c_oflag (raw_branch_gpt4o m) = c_oflag m AND NOT OPOST"
  "c_lflag (raw_branch_gpt4o m) = c_lflag m AND NOT (ISIG OR ICANON)"
  by (simp_all add: set_raw_cooked_logic_def raw_branch_gpt4o_def apply_combination_mode_def
      mk_mode_def Let_def set_cc_def)

lemma cooked_fields:
  "c_iflag (set_raw_cooked_logic m True) = c_iflag m OR (BRKINT OR IGNPAR OR ISTRIP OR ICRNL OR IXON)"
  "c_oflag (set_raw_cooked_logic m True) = c_oflag m OR OPOST"
  "c_lflag (set_raw_cooked_logic m True) = c_lflag m OR (ISIG OR ICANON)"
  "c_iflag (cooked_branch_gpt4o m) = c_iflag m OR (BRKINT OR IGNPAR OR ISTRIP OR ICRNL OR IXON)"
  "c_oflag (cooked_branch_gpt4o m) = c_oflag m OR OPOST"
  "c_lflag (cooked_branch_gpt4o m) = c_lflag m OR (ISIG OR ICANON)"
  by (simp_all add: set_raw_cooked_logic_def cooked_branch_gpt4o_def apply_combination_mode_def
      mk_mode_def Let_def set_cc_def slot_defs)
lemma raw_cooked_eq:
  "apply_settings vtb False [p, Some ''raw'', Some ''cooked''] st =
     Inr (st\<lparr>mode := set_raw_cooked_logic (set_raw_cooked_logic (mode st) False) True,
            require_set_attr := True\<rparr>)"
  "apply_settings vtb False [p, Some ''cooked'', Some ''raw''] st =
     Inr (st\<lparr>mode := set_raw_cooked_logic (set_raw_cooked_logic (mode st) True) False,
            require_set_attr := True\<rparr>)"
  "apply_settings_gpt4o vtb False [p, Some ''raw'', Some ''cooked''] st =
     Inr (st\<lparr>mode := cooked_branch_gpt4o (raw_branch_gpt4o (mode st)),
            require_set_attr := True\<rparr>)"
  "apply_settings_gpt4o vtb False [p, Some ''cooked'', Some ''raw''] st =
     Inr (st\<lparr>mode := raw_branch_gpt4o (cooked_branch_gpt4o (mode st)),
            require_set_attr := True\<rparr>)"
  by (simp_all add: apply_settings_def apply_settings_gpt4o_def apply_token_raw apply_token_cooked
      apply_token_raw_gpt4o apply_token_cooked_gpt4o)


text \<open>
  C6, as the code has it.  Whatever the snapshot, \<^verbatim>\<open>raw\<close> followed by \<^verbatim>\<open>cooked\<close> leaves
  \<^verbatim>\<open>ISIG\<close>, \<^verbatim>\<open>ICANON\<close>, \<^verbatim>\<open>OPOST\<close> and the input flags \<^verbatim>\<open>BRKINT\<close>, \<^verbatim>\<open>IGNPAR\<close>, \<^verbatim>\<open>ISTRIP\<close>,
  \<^verbatim>\<open>ICRNL\<close>, \<^verbatim>\<open>IXON\<close> set, and \<^verbatim>\<open>cooked\<close> followed by \<^verbatim>\<open>raw\<close> leaves \<^verbatim>\<open>ISIG\<close>, \<^verbatim>\<open>ICANON\<close>,
  \<^verbatim>\<open>OPOST\<close> clear and the input flag word zero.  So the earlier values come back only when
  they already were the cooked, respectively the raw, ones.  This holds in both files.
\<close>


theorem raw_then_cooked:
  "(\<exists>st'. apply_settings vtb False [p, Some ''raw'', Some ''cooked''] st = Inr st' \<and>
      c_lflag (mode st') AND (ISIG OR ICANON) = (ISIG OR ICANON) \<and>
      c_oflag (mode st') AND OPOST = OPOST \<and>
      c_iflag (mode st') AND (BRKINT OR IGNPAR OR ISTRIP OR ICRNL OR IXON)
        = (BRKINT OR IGNPAR OR ISTRIP OR ICRNL OR IXON)) \<and>
   (\<exists>st'. apply_settings vtb False [p, Some ''cooked'', Some ''raw''] st = Inr st' \<and>
      c_lflag (mode st') AND (ISIG OR ICANON) = 0 \<and>
      c_oflag (mode st') AND OPOST = 0 \<and>
      c_iflag (mode st') = 0) \<and>
   (\<exists>st'. apply_settings_gpt4o vtb False [p, Some ''raw'', Some ''cooked''] st = Inr st' \<and>
      c_lflag (mode st') AND (ISIG OR ICANON) = (ISIG OR ICANON) \<and>
      c_oflag (mode st') AND OPOST = OPOST \<and>
      c_iflag (mode st') AND (BRKINT OR IGNPAR OR ISTRIP OR ICRNL OR IXON)
        = (BRKINT OR IGNPAR OR ISTRIP OR ICRNL OR IXON)) \<and>
   (\<exists>st'. apply_settings_gpt4o vtb False [p, Some ''cooked'', Some ''raw''] st = Inr st' \<and>
      c_lflag (mode st') AND (ISIG OR ICANON) = 0 \<and>
      c_oflag (mode st') AND OPOST = 0 \<and>
      c_iflag (mode st') = 0)"
  by (simp add: raw_cooked_eq raw_fields cooked_fields or_and_self clear_and
      del: bit.de_Morgan_disj)


text \<open>
  C6 as stated fails: on the zeroed snapshot \<^verbatim>\<open>ISIG\<close> is clear, and after \<^verbatim>\<open>raw\<close> and then
  \<^verbatim>\<open>cooked\<close> it is set, in both files.
\<close>


theorem raw_then_cooked_sets_isig:
  "c_lflag (mode (projr (apply_settings ucast False [Some ''stty'', Some ''raw'', Some ''cooked'']
      (initial_state zero_termios)))) AND ISIG = ISIG \<and>
   c_lflag (mode (initial_state zero_termios)) AND ISIG = 0 \<and>
   ISIG \<noteq> 0 \<and>
   c_lflag (mode (projr (apply_settings_gpt4o ucast False [Some ''stty'', Some ''raw'', Some ''cooked'']
      (initial_state zero_termios)))) AND ISIG = ISIG"
  by (simp add: raw_cooked_eq raw_fields cooked_fields initial_state_def zero_termios_def)
     (simp add: lflag_defs)


subsection \<open>\<^verbatim>\<open>sane\<close>\<close>


lemma load_store: "load_flag p (store_flag q v m) = (if p = q then v else load_flag p m)"
  by (cases p; cases q; simp)

lemma step_load:
  "load_flag p (sane_flag_step mi m) =
     (load_flag p m AND NOT (fst (sane_clear_set mi p))) OR snd (sane_clear_set mi p)"
  by (auto simp add: sane_flag_step_def sane_clear_set_def either_flag load_store split: option.splits)

lemma loop_load:
  "load_flag p m = (w AND NOT (fst ab)) OR snd ab \<Longrightarrow>
   load_flag p (sane_flag_loop xs m) =
     (w AND NOT (fst (sane_acc xs p ab))) OR snd (sane_acc xs p ab)"
proof (induction xs arbitrary: m ab)
  case Nil
  then show ?case by simp
next
  case (Cons mi xs)
  have "load_flag p (sane_flag_step mi m) =
          (w AND NOT (fst ab OR fst (sane_clear_set mi p))) OR
          ((snd ab AND NOT (fst (sane_clear_set mi p))) OR snd (sane_clear_set mi p))"
    by (simp only: step_load Cons.prems compose_clear_set)
  from Cons.IH [of "sane_flag_step mi m" "(fst ab OR fst (sane_clear_set mi p),
      (snd ab AND NOT (fst (sane_clear_set mi p))) OR snd (sane_clear_set mi p))"] this
  show ?case by simp
qed



lemma sane_acc_values:
  "sane_acc mode_info cflag_ptr (0, 0) = (0, 128)"
  "sane_acc mode_info iflag_ptr (0, 0) = (23233, 8450)"
  "sane_acc mode_info oflag_ptr (0, 0) = (65530, 5)"
  "sane_acc mode_info lflag_ptr (0, 0) = (71108, 35387)"
  by (simp_all add: mode_info_def mk_mode_def sane_clear_set_def mflag_defs
      cflag_defs iflag_defs oflag_defs lflag_defs)

lemma sane_flag_loop_load:
  "load_flag p (sane_flag_loop mode_info m) =
     (load_flag p m AND NOT (fst (sane_acc mode_info p (0, 0)))) OR snd (sane_acc mode_info p (0, 0))"
  using loop_load [of p m "load_flag p m" "(0, 0)" mode_info] by simp


lemma store_flag_frame:
  "c_cc (store_flag p v m) = c_cc m" "c_line (store_flag p v m) = c_line m"
  "c_ispeed (store_flag p v m) = c_ispeed m" "c_ospeed (store_flag p v m) = c_ospeed m"
  by (cases p; simp)+

lemma sane_flag_step_frame:
  "c_cc (sane_flag_step mi m) = c_cc m" "c_line (sane_flag_step mi m) = c_line m"
  "c_ispeed (sane_flag_step mi m) = c_ispeed m" "c_ospeed (sane_flag_step mi m) = c_ospeed m"
  by (simp_all add: sane_flag_step_def store_flag_frame split: option.splits)

lemma sane_flag_loop_frame:
  "c_cc (sane_flag_loop xs m) = c_cc m \<and> c_line (sane_flag_loop xs m) = c_line m \<and>
   c_ispeed (sane_flag_loop xs m) = c_ispeed m \<and> c_ospeed (sane_flag_loop xs m) = c_ospeed m"
  by (induction xs arbitrary: m) (simp_all add: sane_flag_step_frame)

lemma sane_cc_loop_frame:
  "c_iflag (sane_cc_loop cis m) = c_iflag m \<and> c_oflag (sane_cc_loop cis m) = c_oflag m \<and>
   c_cflag (sane_cc_loop cis m) = c_cflag m \<and> c_lflag (sane_cc_loop cis m) = c_lflag m \<and>
   c_line (sane_cc_loop cis m) = c_line m \<and>
   c_ispeed (sane_cc_loop cis m) = c_ispeed m \<and> c_ospeed (sane_cc_loop cis m) = c_ospeed m \<and>
   length (c_cc (sane_cc_loop cis m)) = length (c_cc m)"
  by (induction cis arbitrary: m) (simp_all add: set_cc_def)

lemma sane_cc_loop_fixed:
  "\<forall>ci \<in> set cis. c_cc m ! offset ci = saneval ci \<Longrightarrow> sane_cc_loop cis m = m"
proof (induction cis arbitrary: m)
  case Nil
  then show ?case by simp
next
  case (Cons a cis)
  from Cons.prems have "saneval a = c_cc m ! offset a" by simp
  then have "set_cc (offset a) (saneval a) m = m" by (simp add: set_cc_def)
  with Cons show ?case by simp
qed

lemma sane_cc_values:
  assumes "length (c_cc m) = NCCS"
  shows "list_all (\<lambda>ci. c_cc (sane_cc_loop control_info m) ! offset ci = saneval ci) control_info"
  using assms
  by (simp add: control_info_def mk_control_def set_cc_def slot_defs NCCS_def cchar_defs)



lemma sane_table_ok_simps:
  "sane_table_ok (mk_mode n control f b k) = sane_entry_ok 0 128 (mk_mode n control f b k)"
  "sane_table_ok (mk_mode n input f b k) = sane_entry_ok 23233 8450 (mk_mode n input f b k)"
  "sane_table_ok (mk_mode n output_flag f b k) = sane_entry_ok 65530 5 (mk_mode n output_flag f b k)"
  "sane_table_ok (mk_mode n local f b k) = sane_entry_ok 71108 35387 (mk_mode n local f b k)"
  "sane_table_ok (mk_mode n combination f b k) = True"
  by (simp_all add: sane_table_ok_def sane_acc_values mk_mode_def)

lemma sane_entry_ok_mk:
  "sane_entry_ok A B (mk_mode n t f b k) =
     ((f AND SANE_SET = 0 \<or>
         (if k \<noteq> 0 then k else b) AND NOT (A OR B) = 0 \<and>
         B AND (if k \<noteq> 0 then k else b) = b) \<and>
      (f AND SANE_UNSET = 0 \<or>
         (k OR b) AND NOT (A OR B) = 0 \<and>
         B AND (k OR b) = 0))"
  by (simp add: sane_entry_ok_def mk_mode_def)

lemma sane_entries_ok: "list_all sane_table_ok mode_info"
  unfolding mode_info_def list.pred_inject sane_table_ok_simps sane_entry_ok_mk
  by (simp add: mflag_defs cflag_defs iflag_defs oflag_defs lflag_defs)

lemma sane_mode_cc:
  assumes "wf_termios m"
  shows "\<forall>ci \<in> set control_info. c_cc (sane_mode m) ! offset ci = saneval ci"
  using sane_cc_values [of m] assms
  by (simp add: sane_mode_def sane_flag_loop_frame wf_termios_def list_all_iff)

lemma sane_mode_flags:
  assumes "mi \<in> set mode_info" and "mode_type_flag (type mi) = Some bitsp"
  shows "(flags mi AND SANE_SET \<noteq> 0 \<longrightarrow>
            load_flag bitsp (sane_mode m)
              AND (if mask_bits mi \<noteq> 0 then mask_bits mi else bits mi) = bits mi) \<and>
         (flags mi AND SANE_UNSET \<noteq> 0 \<longrightarrow>
            load_flag bitsp (sane_mode m) AND (mask_bits mi OR bits mi) = 0)"
proof -
  from assms sane_entries_ok
  have ok: "sane_entry_ok (fst (sane_acc mode_info bitsp (0, 0)))
              (snd (sane_acc mode_info bitsp (0, 0))) mi"
    by (auto simp add: list_all_iff sane_table_ok_def)
  show ?thesis
    using ok
    by (auto simp add: sane_mode_def sane_flag_loop_load sane_entry_ok_def intro!: masked_value)
qed
lemma sane_flag_loop_twice:
  "sane_flag_loop mode_info (sane_flag_loop mode_info m) = sane_flag_loop mode_info m"
proof (rule termios.equality)
  show "c_iflag (sane_flag_loop mode_info (sane_flag_loop mode_info m)) =
        c_iflag (sane_flag_loop mode_info m)"
    using sane_flag_loop_load [of iflag_ptr "sane_flag_loop mode_info m"]
      sane_flag_loop_load [of iflag_ptr m]
    by (simp add: absorb_clear_set)
  show "c_oflag (sane_flag_loop mode_info (sane_flag_loop mode_info m)) =
        c_oflag (sane_flag_loop mode_info m)"
    using sane_flag_loop_load [of oflag_ptr "sane_flag_loop mode_info m"]
      sane_flag_loop_load [of oflag_ptr m]
    by (simp add: absorb_clear_set)
  show "c_cflag (sane_flag_loop mode_info (sane_flag_loop mode_info m)) =
        c_cflag (sane_flag_loop mode_info m)"
    using sane_flag_loop_load [of cflag_ptr "sane_flag_loop mode_info m"]
      sane_flag_loop_load [of cflag_ptr m]
    by (simp add: absorb_clear_set)
  show "c_lflag (sane_flag_loop mode_info (sane_flag_loop mode_info m)) =
        c_lflag (sane_flag_loop mode_info m)"
    using sane_flag_loop_load [of lflag_ptr "sane_flag_loop mode_info m"]
      sane_flag_loop_load [of lflag_ptr m]
    by (simp add: absorb_clear_set)
qed (simp_all add: sane_flag_loop_frame)

lemma sane_mode_twice:
  assumes "wf_termios m"
  shows "sane_mode (sane_mode m) = sane_mode m"
proof -
  have "sane_cc_loop control_info (sane_mode m) = sane_mode m"
    by (rule sane_cc_loop_fixed) (rule sane_mode_cc [OF assms])
  then show ?thesis
    by (simp add: sane_mode_def sane_flag_loop_twice)
qed

lemma sane_flag_step_gpt4o_eq: "sane_flag_step_gpt4o mi m = sane_flag_step mi m"
  by (auto simp add: sane_flag_step_gpt4o_def sane_flag_step_def either_flag
      bit.de_Morgan_disj word_bw_assocs split: option.splits)

lemma sane_flag_loop_gpt4o_eq: "sane_flag_loop_gpt4o xs m = sane_flag_loop xs m"
  by (induction xs arbitrary: m) (simp_all add: sane_flag_step_gpt4o_eq)

lemma sane_mode_gpt4o_eq: "sane_mode_gpt4o m = sane_mode m"
  by (simp add: sane_mode_gpt4o_def sane_mode_def sane_flag_loop_gpt4o_eq)
lemma apply_sane:
  "apply_settings vtb False [p, Some ''sane''] st =
     Inr (st\<lparr>mode := sane_mode (mode st), require_set_attr := True\<rparr>)"
  "apply_settings_gpt4o vtb False [p, Some ''sane''] st =
     Inr (st\<lparr>mode := sane_mode_gpt4o (mode st), require_set_attr := True\<rparr>)"
  by (simp_all add: apply_settings_def apply_token_def find_mode_sane set_mode_def mk_mode_def
      mflag_defs combination_modes_def set_sane_mode_def apply_settings_gpt4o_def
      apply_token_gpt4o_def set_mode_gpt4o_def apply_combination_mode_def)


text \<open>
  C4.  On a snapshot with its \<^verbatim>\<open>NCCS\<close> control characters, \<^verbatim>\<open>sane_mode\<close> (what the setting
  \<^verbatim>\<open>sane\<close> runs, see \<open>apply_sane\<close>) leaves every control character of the table at its
  canonical value, every entry flagged \<^verbatim>\<open>SANE_SET\<close> with its bits matching its pattern under
  its mask, and every entry flagged \<^verbatim>\<open>SANE_UNSET\<close> with the bits of its mask and pattern
  clear; a second \<^verbatim>\<open>sane_mode\<close> changes nothing; and \<^verbatim>\<open>sane_mode\<close> of \<^verbatim>\<open>stty-gpt-4o.c\<close> computes
  the same snapshot.
\<close>


theorem sane_resets_and_is_idempotent:
  assumes "wf_termios m"
  shows "(\<forall>ci \<in> set control_info. c_cc (sane_mode m) ! offset ci = saneval ci) \<and>
         (\<forall>mi \<in> set mode_info. \<forall>bitsp. mode_type_flag (type mi) = Some bitsp \<longrightarrow>
            (flags mi AND SANE_SET \<noteq> 0 \<longrightarrow>
               load_flag bitsp (sane_mode m)
                 AND (if mask_bits mi \<noteq> 0 then mask_bits mi else bits mi) = bits mi) \<and>
            (flags mi AND SANE_UNSET \<noteq> 0 \<longrightarrow>
               load_flag bitsp (sane_mode m) AND (mask_bits mi OR bits mi) = 0)) \<and>
         sane_mode (sane_mode m) = sane_mode m \<and>
         sane_mode_gpt4o m = sane_mode m"
  using sane_mode_cc [OF assms] sane_mode_flags [of _ _ m] sane_mode_twice [OF assms]
    sane_mode_gpt4o_eq [of m]
  by blast


theorem sane_resets_and_is_idempotent_witness:
  "wf_termios zero_termios \<and>
   c_lflag zero_termios AND ICANON = 0 \<and>
   c_lflag zero_termios AND ECHO = 0 \<and>
   c_lflag (sane_mode zero_termios) AND ICANON = ICANON \<and>
   c_lflag (sane_mode zero_termios) AND ECHO = ECHO \<and>
   c_cc (sane_mode zero_termios) ! VERASE = 127 \<and>
   c_cc (sane_mode zero_termios) ! VKILL = 21 \<and>
   sane_mode (sane_mode zero_termios) = sane_mode zero_termios"
proof -
  have wf: "wf_termios zero_termios"
    by (simp add: wf_termios_def zero_termios_def)
  note th = sane_resets_and_is_idempotent [OF wf]
  have e: "mk_control ''erase'' CERASE VERASE \<in> set control_info"
    and k: "mk_control ''kill'' CKILL VKILL \<in> set control_info"
    by (simp_all add: control_info_def)
  have i: "mk_mode ''icanon'' local (SANE_SET OR REV) ICANON 0 \<in> set mode_info"
    and h: "mk_mode ''echo'' local (SANE_SET OR REV) ECHO 0 \<in> set mode_info"
    by (simp_all add: mode_info_def)
  from th e have "c_cc (sane_mode zero_termios) ! VERASE = 127"
    by (auto simp add: mk_control_def cchar_defs dest!: bspec [OF _ e])
  moreover from th k have "c_cc (sane_mode zero_termios) ! VKILL = 21"
    by (auto simp add: mk_control_def cchar_defs dest!: bspec [OF _ k])
  moreover from th i have "c_lflag (sane_mode zero_termios) AND ICANON = ICANON"
    by (auto simp add: mk_mode_def mflag_defs lflag_defs dest!: bspec [OF _ i])
  moreover from th h have "c_lflag (sane_mode zero_termios) AND ECHO = ECHO"
    by (auto simp add: mk_mode_def mflag_defs lflag_defs dest!: bspec [OF _ h])
  ultimately show ?thesis
    using wf th by (simp add: zero_termios_def)
qed

subsection \<open>The recoverable format\<close>

lemma char_eq_code: "c = c' \<longleftrightarrow> (of_char c :: nat) = of_char c'"
  by simp

lemma hex_digit_code:
  "d < 16 \<Longrightarrow> (of_char (hex_digit d) :: nat) = (if d < 10 then 48 + d else 87 + d)"
  by (simp add: hex_digit_def)

lemma c_isspace_code:
  "c_isspace c \<longleftrightarrow> (of_char c :: nat) = 32 \<or> (9 \<le> (of_char c :: nat) \<and> (of_char c :: nat) \<le> 13)"
proof -
  have "c_isspace c \<longleftrightarrow> (of_char c :: nat) = 32 \<or> (of_char c :: nat) = 9 \<or> (of_char c :: nat) = 10
     \<or> (of_char c :: nat) = 11 \<or> (of_char c :: nat) = 12 \<or> (of_char c :: nat) = 13"
    unfolding c_isspace_def
    by (simp only: char_eq_code [of c]) simp
  then show ?thesis by arith
qed

lemma hex_digit_plain:
  assumes "d < 16"
  shows "\<not> c_isspace (hex_digit d)" "hex_digit d \<noteq> CHR ''-''" "hex_digit d \<noteq> CHR ''+''"
    "hex_digit d \<noteq> CHR ''x''" "hex_digit d \<noteq> CHR ''X''"
  using assms hex_digit_code [OF assms]
  by (auto simp add: c_isspace_code char_eq_code [of "hex_digit d"] split: if_splits)

lemma digit_val_hex_digit: "d < 16 \<Longrightarrow> digit_val 16 (hex_digit d) = Some d"
  by (auto simp add: digit_val_def hex_digit_code Let_def)

lemma printf_lx_digits:
  "strtoul_digits 16 acc (printf_lx n @ rest) =
     strtoul_digits 16 (acc * 16 ^ length (printf_lx n) + n) rest"
proof (induction n arbitrary: acc rest rule: printf_lx.induct)
  case (1 n)
  show ?case
  proof (cases "n < 16")
    case True
    then show ?thesis
      by (simp add: printf_lx.simps [of n] digit_val_hex_digit)
  next
    case False
    have "strtoul_digits 16 acc (printf_lx n @ rest) =
          strtoul_digits 16 acc (printf_lx (n div 16) @ (hex_digit (n mod 16) # rest))"
      using False by (simp add: printf_lx.simps [of n])
    also have "\<dots> = strtoul_digits 16 (acc * 16 ^ length (printf_lx (n div 16)) + n div 16)
                        (hex_digit (n mod 16) # rest)"
      using "1.IH" [OF False] .
    also have "\<dots> = strtoul_digits 16
                 ((acc * 16 ^ length (printf_lx (n div 16)) + n div 16) * 16 + n mod 16) rest"
      by (simp add: digit_val_hex_digit)
    also have "(acc * 16 ^ length (printf_lx (n div 16)) + n div 16) * 16 + n mod 16 =
               acc * 16 ^ length (printf_lx n) + n"
      using False by (simp add: printf_lx.simps [of n] algebra_simps)
    finally show ?thesis .
  qed
qed


lemma printf_lx_chars:
  "printf_lx n \<noteq> [] \<and> (\<forall>c \<in> set (printf_lx n). \<exists>d<16. c = hex_digit d)"
proof (induction n rule: printf_lx.induct)
  case (1 n)
  show ?case
  proof (cases "n < 16")
    case True
    then show ?thesis by (auto simp add: printf_lx.simps [of n])
  next
    case False
    have "\<exists>d<16. hex_digit (n mod 16) = hex_digit d"
      by (rule exI [of _ "n mod 16"]) simp
    with "1.IH" [OF False] False show ?thesis
      by (simp add: printf_lx.simps [of n])
  qed
qed

lemma no_hex_prefix:
  assumes "xs \<noteq> []" and "\<forall>c \<in> set xs. c \<noteq> CHR ''x'' \<and> c \<noteq> CHR ''X''" and "field_end rest"
  shows "\<not> has_hex_prefix (xs @ rest)"
proof (cases xs)
  case Nil
  with assms(1) show ?thesis by simp
next
  case (Cons a xs')
  show ?thesis
  proof (cases xs')
    case Nil
    with Cons assms(3) show ?thesis
      by (cases rest) (auto simp add: has_hex_prefix_def field_end_def split: list.splits)
  next
    case (Cons b xs'')
    with \<open>xs = a # xs'\<close> assms(2) show ?thesis
      by (auto simp add: has_hex_prefix_def split: list.splits)
  qed
qed

lemma strtoul_printf_lx:
  assumes "n \<le> ULONG_MAX" and "field_end rest"
  shows "strtoul (printf_lx n @ rest) 16 =
           \<lparr>ul = of_nat n, endp = rest, converted = True, erange = False\<rparr>"
proof -
  from printf_lx_chars [of n] obtain a as where sh: "printf_lx n = a # as"
    by (cases "printf_lx n") auto
  with printf_lx_chars [of n] obtain d where d: "d < 16" "a = hex_digit d"
    by auto
  have "\<forall>c \<in> set (printf_lx n). c \<noteq> CHR ''x'' \<and> c \<noteq> CHR ''X''"
  proof
    fix c assume "c \<in> set (printf_lx n)"
    with printf_lx_chars [of n] obtain e where "e < 16" "c = hex_digit e" by blast
    with hex_digit_plain(4,5) [of e] show "c \<noteq> CHR ''x'' \<and> c \<noteq> CHR ''X''" by simp
  qed
  with printf_lx_chars [of n] assms(2) have nohex: "\<not> has_hex_prefix (printf_lx n @ rest)"
    by (intro no_hex_prefix) simp_all
  have stop: "strtoul_digits 16 k rest = (k, rest)" for k
    using assms(2) by (cases rest) (auto simp add: field_end_def digit_val_def)
  have dig: "strtoul_digits 16 0 (printf_lx n @ rest) = (n, rest)"
    by (simp add: printf_lx_digits stop)
  have pre: "dropWhile c_isspace (printf_lx n @ rest) = printf_lx n @ rest"
    using sh d hex_digit_plain(1) [OF d(1)] by simp
  have pk: "peek (printf_lx n @ rest) = hex_digit d"
    using sh d by simp
  have ne: "printf_lx n @ rest \<noteq> []"
    using sh by simp
  show ?thesis
    unfolding strtoul_def Let_def pre pk
    using nohex assms(1) hex_digit_plain(2,3) [OF d(1)] d(1) ne
    by (simp add: digit_val_hex_digit dig pk pre)
qed


lemma ucast_ulong_id:
  "LENGTH('a) \<le> 64 \<Longrightarrow> (ucast (ucast (w :: 'a::len word) :: ulong) :: 'a word) = w"
  by (rule bit_word_eqI) (auto simp add: bit_simps)

lemma ulong_of_word:
  "ucast (ucast (of_nat (unat w) :: ulong) :: 'a::len word) = (of_nat (unat w) :: ulong) \<and>
   (ucast (of_nat (unat w) :: ulong) :: 'a word) = w"
  if "LENGTH('a) \<le> 64" for w :: "'a::len word"
proof -
  have a: "(of_nat (unat w) :: ulong) = ucast w" by simp
  show ?thesis by (simp only: a ucast_ulong_id [OF that])
qed

lemma strtoul_tcflag_t_field:
  "strtoul_tcflag_t (printf_lx (unat w) @ CHR '':'' # rest) 16 CHR '':'' = Some (w, CHR '':'' # rest)"
proof -
  have "unat w < 2 ^ 32" using unsigned_less [of w, where ?'a = nat] by simp
  then have le: "unat w \<le> ULONG_MAX" by (simp add: ULONG_MAX_def)
  have fe: "field_end (CHR '':'' # rest)" by (simp add: field_end_def)
  show ?thesis
    using ulong_of_word [of w]
    by (simp add: strtoul_tcflag_t_def strtoul_printf_lx [OF le fe] Let_def)
qed

lemma strtoul_cc_t_field:
  assumes "field_end rest" and "peek rest = delim"
  shows "strtoul_cc_t (printf_lx (unat c) @ rest) 16 delim = Some (c, rest)"
proof -
  have "unat c < 2 ^ 8" using unsigned_less [of c, where ?'a = nat] by simp
  then have le: "unat c \<le> ULONG_MAX" by (simp add: ULONG_MAX_def)
  show ?thesis
    using ulong_of_word [of c] assms(2)
    by (simp add: strtoul_cc_t_def strtoul_printf_lx [OF le assms(1)] Let_def)
qed

lemma parse_tcflag_field:
  "parse_tcflag (printf_lx (unat w) @ CHR '':'' # rest) = Some (rest, w)"
proof -
  have "unat w < 2 ^ 32" using unsigned_less [of w, where ?'a = nat] by simp
  then have le: "unat w \<le> ULONG_MAX" by (simp add: ULONG_MAX_def)
  have fe: "field_end (CHR '':'' # rest)" by (simp add: field_end_def)
  show ?thesis
    using ulong_of_word [of w]
    by (simp add: parse_tcflag_def strtoul_printf_lx [OF le fe] Let_def)
qed

lemma parse_cc_field:
  assumes "field_end rest" and "peek rest = delim"
  shows "parse_cc (printf_lx (unat c) @ rest) delim =
           Some (if rest = [] then None else Some (tl rest), c)"
proof -
  have "unat c < 2 ^ 8" using unsigned_less [of c, where ?'a = nat] by simp
  then have le: "unat c \<le> ULONG_MAX" by (simp add: ULONG_MAX_def)
  show ?thesis
    using ulong_of_word [of c] assms(2)
    by (simp add: parse_cc_def strtoul_printf_lx [OF le assms(1)] Let_def)
qed

lemma cc_fields_step:
  "Suc i < NCCS \<Longrightarrow> cc_fields cs i = printf_lx (unat (cs ! i)) @ CHR '':'' # cc_fields cs (Suc i)"
  by (simp add: cc_fields_def upt_conv_Cons)

lemma cc_fields_last:
  "Suc i = NCCS \<Longrightarrow> cc_fields cs i = printf_lx (unat (cs ! i))"
  by (simp add: cc_fields_def)

lemma merge_step:
  assumes "i < length xs" and "length cs = length xs"
  shows "take (Suc i) (xs[i := cs ! i]) @ drop (Suc i) cs = take i xs @ drop i cs"
proof -
  have "take (Suc i) (xs[i := cs ! i]) = take i xs @ [cs ! i]"
    using assms(1) by (simp add: take_Suc_conv_app_nth)
  moreover have "drop i cs = cs ! i # drop (Suc i) cs"
    using assms by (simp add: Cons_nth_drop_Suc)
  ultimately show ?thesis by simp
qed

lemma recover_cc_done: "NCCS \<le> i \<Longrightarrow> recover_cc i s m = (True, m)"
  by (simp add: recover_cc.simps [of i])

lemma recover_cc_fields:
  assumes "length cs = NCCS"
  shows "i < NCCS \<Longrightarrow> length (c_cc m) = NCCS \<Longrightarrow>
         recover_cc i (cc_fields cs i) m = (True, m\<lparr>c_cc := take i (c_cc m) @ drop i cs\<rparr>)"
proof (induction "NCCS - Suc i" arbitrary: i m)
  case 0
  then have last: "Suc i = NCCS" by simp
  have "strtoul_cc_t (printf_lx (unat (cs ! i)) @ []) 16 NUL = Some (cs ! i, [])"
    by (rule strtoul_cc_t_field) (simp_all add: field_end_def)
  then have dec: "strtoul_cc_t (cc_fields cs i) 16 NUL = Some (cs ! i, [])"
    by (simp add: cc_fields_last [OF last])
  have fin: "recover_cc (Suc i) [] m' = (True, m')" for m'
    using last by (intro recover_cc_done) simp
  have "take (Suc i) ((c_cc m)[i := cs ! i]) @ drop (Suc i) cs = take i (c_cc m) @ drop i cs"
    using 0 assms by (intro merge_step) simp_all
  moreover have "drop (Suc i) cs = []" using last assms by simp
  moreover have "take (Suc i) ((c_cc m)[i := cs ! i]) = (c_cc m)[i := cs ! i]"
    using last 0 by simp
  ultimately have "(c_cc m)[i := cs ! i] = take i (c_cc m) @ drop i cs" by simp
  moreover have nl: "\<not> i < NCCS - 1" and il: "i < NCCS" using last by simp_all
  ultimately show ?case
    using dec fin [of "set_cc i (cs ! i) m"] last
    by (simp add: recover_cc.simps [of i] set_cc_def)
next
  case (Suc k)
  then have more: "Suc i < NCCS" by simp
  have "strtoul_cc_t (printf_lx (unat (cs ! i)) @ CHR '':'' # cc_fields cs (Suc i)) 16 CHR '':''
          = Some (cs ! i, CHR '':'' # cc_fields cs (Suc i))"
    by (rule strtoul_cc_t_field) (simp_all add: field_end_def)
  then have dec: "strtoul_cc_t (cc_fields cs i) 16 CHR '':''
          = Some (cs ! i, CHR '':'' # cc_fields cs (Suc i))"
    by (simp add: cc_fields_step [OF more])
  have len: "length (c_cc (set_cc i (cs ! i) m)) = NCCS"
    using Suc.prems by (simp add: set_cc_def)
  have k: "k = NCCS - Suc (Suc i)" using Suc.hyps(2) by simp
  have ih: "recover_cc (Suc i) (cc_fields cs (Suc i)) (set_cc i (cs ! i) m) =
          (True, (set_cc i (cs ! i) m)\<lparr>c_cc := take (Suc i) (c_cc (set_cc i (cs ! i) m))
                                               @ drop (Suc i) cs\<rparr>)"
    using Suc.hyps(1) [OF k more len] .
  have "take (Suc i) ((c_cc m)[i := cs ! i]) @ drop (Suc i) cs = take i (c_cc m) @ drop i cs"
    using Suc.prems assms by (intro merge_step) simp_all
  moreover have "i < NCCS - 1" and "i < NCCS" using more by simp_all
  ultimately show ?case
    using dec ih
    by (simp add: recover_cc.simps [of i] set_cc_def)
qed


lemma recover_cc_gpt4o_done: "NCCS \<le> i \<Longrightarrow> recover_cc_gpt4o i s m = Inr (True, m)"
  by (simp add: recover_cc_gpt4o.simps [of i])

lemma recover_cc_gpt4o_fields:
  assumes "length cs = NCCS"
  shows "i < NCCS \<Longrightarrow> length (c_cc m) = NCCS \<Longrightarrow>
         recover_cc_gpt4o i (Some (cc_fields cs i)) m
           = Inr (True, m\<lparr>c_cc := take i (c_cc m) @ drop i cs\<rparr>)"
proof (induction "NCCS - Suc i" arbitrary: i m)
  case 0
  then have last: "Suc i = NCCS" by simp
  have dec: "parse_cc (cc_fields cs i) NUL = Some (None, cs ! i)"
    using parse_cc_field [of "[]" NUL "cs ! i"]
    by (simp add: cc_fields_last [OF last] field_end_def)
  have fin: "recover_cc_gpt4o (Suc i) None m' = Inr (True, m')" for m'
    using last by (intro recover_cc_gpt4o_done) simp
  have "take (Suc i) ((c_cc m)[i := cs ! i]) @ drop (Suc i) cs = take i (c_cc m) @ drop i cs"
    using 0 assms by (intro merge_step) simp_all
  moreover have "drop (Suc i) cs = []" using last assms by simp
  moreover have "take (Suc i) ((c_cc m)[i := cs ! i]) = (c_cc m)[i := cs ! i]"
    using last 0 by simp
  ultimately have "(c_cc m)[i := cs ! i] = take i (c_cc m) @ drop i cs" by simp
  moreover have nl: "\<not> i < NCCS - 1" and il: "i < NCCS" using last by simp_all
  ultimately show ?case
    using dec fin [of "set_cc i (cs ! i) m"] last
    by (simp add: recover_cc_gpt4o.simps [of i] set_cc_def)
next
  case (Suc k)
  then have more: "Suc i < NCCS" by simp
  have dec: "parse_cc (cc_fields cs i) CHR '':'' = Some (Some (cc_fields cs (Suc i)), cs ! i)"
    using parse_cc_field [of "CHR '':'' # cc_fields cs (Suc i)" "CHR '':''" "cs ! i"]
    by (simp add: cc_fields_step [OF more] field_end_def)
  have len: "length (c_cc (set_cc i (cs ! i) m)) = NCCS"
    using Suc.prems by (simp add: set_cc_def)
  have k: "k = NCCS - Suc (Suc i)" using Suc.hyps(2) by simp
  have ih: "recover_cc_gpt4o (Suc i) (Some (cc_fields cs (Suc i))) (set_cc i (cs ! i) m) =
          Inr (True, (set_cc i (cs ! i) m)\<lparr>c_cc := take (Suc i) (c_cc (set_cc i (cs ! i) m))
                                               @ drop (Suc i) cs\<rparr>)"
    using Suc.hyps(1) [OF k more len] .
  have "take (Suc i) ((c_cc m)[i := cs ! i]) @ drop (Suc i) cs = take i (c_cc m) @ drop i cs"
    using Suc.prems assms by (intro merge_step) simp_all
  moreover have "i < NCCS - 1" and "i < NCCS" using more by simp_all
  ultimately show ?case
    using dec ih
    by (simp add: recover_cc_gpt4o.simps [of i] set_cc_def)
qed

lemma recoverable_fields_eq:
  "recoverable_fields m =
     printf_lx (unat (c_iflag m)) @ CHR '':'' # printf_lx (unat (c_oflag m)) @ CHR '':'' #
     printf_lx (unat (c_cflag m)) @ CHR '':'' # printf_lx (unat (c_lflag m)) @ CHR '':'' #
     cc_fields (c_cc m) 0"
  by (simp add: recoverable_fields_def cc_fields_def NCCS_def upt_conv_Cons [of 0])

text \<open>
  C1.  For snapshots with their \<^verbatim>\<open>NCCS\<close> control characters, the line \<^verbatim>\<open>display_recoverable\<close>
  prints for \<open>S\<close> is the text \<open>recoverable_fields S\<close> and a newline, and \<^verbatim>\<open>recover_mode\<close>
  of either file, given that text, returns true and has overwritten the four flag words and
  all \<^verbatim>\<open>NCCS\<close> control characters of the caller's snapshot with those of \<open>S\<close>.
\<close>

theorem recoverable_round_trip:
  assumes "wf_termios S" and "wf_termios m"
  shows "display_recoverable S = recoverable_fields S @ [CHR 0x0A] \<and>
         recover_mode (recoverable_fields S) m =
           (True, m\<lparr>c_iflag := c_iflag S, c_oflag := c_oflag S, c_cflag := c_cflag S,
                     c_lflag := c_lflag S, c_cc := c_cc S\<rparr>) \<and>
         recover_mode_gpt4o (recoverable_fields S) m =
           Inr (True, m\<lparr>c_iflag := c_iflag S, c_oflag := c_oflag S, c_cflag := c_cflag S,
                         c_lflag := c_lflag S, c_cc := c_cc S\<rparr>)"
proof -
  have lS: "length (c_cc S) = NCCS" and lm: "length (c_cc m) = NCCS"
    using assms by (simp_all add: wf_termios_def)
  have z: "0 < NCCS" by (simp add: NCCS_def)
  have a: "recover_cc 0 (cc_fields (c_cc S) 0) m' = (True, m'\<lparr>c_cc := c_cc S\<rparr>)"
    if "length (c_cc m') = NCCS" for m'
    using recover_cc_fields [OF lS z that] by simp
  have b: "recover_cc_gpt4o 0 (Some (cc_fields (c_cc S) 0)) m' = Inr (True, m'\<lparr>c_cc := c_cc S\<rparr>)"
    if "length (c_cc m') = NCCS" for m'
    using recover_cc_gpt4o_fields [OF lS z that] by simp
  show ?thesis
    using lm
    by (simp add: display_recoverable_def recover_mode_def recover_mode_gpt4o_def
        recoverable_fields_eq strtoul_tcflag_t_field parse_tcflag_field a b)
qed

theorem recoverable_round_trip_witness:
  "wf_termios (zero_termios\<lparr>c_lflag := ICANON\<rparr>) \<and> wf_termios zero_termios \<and>
   recover_mode (recoverable_fields (zero_termios\<lparr>c_lflag := ICANON\<rparr>)) zero_termios =
     (True, zero_termios\<lparr>c_lflag := ICANON\<rparr>) \<and>
   recover_mode_gpt4o (recoverable_fields (zero_termios\<lparr>c_lflag := ICANON\<rparr>)) zero_termios =
     Inr (True, zero_termios\<lparr>c_lflag := ICANON\<rparr>)"
proof -
  have a: "wf_termios (zero_termios\<lparr>c_lflag := ICANON\<rparr>)" and b: "wf_termios zero_termios"
    by (simp_all add: wf_termios_def zero_termios_def)
  from recoverable_round_trip [OF a b] a b show ?thesis
    by (simp add: zero_termios_def)
qed

subsection \<open>Baud rates\<close>

lemma c_isdigit_plain:
  assumes "c_isdigit c"
  shows "\<not> c_isspace c" "c \<noteq> CHR ''-''" "c \<noteq> CHR ''+''" "c \<noteq> NUL" "c \<noteq> CHR ''.''"
  using assms
  by (auto simp add: c_isdigit_def c_isspace_code NUL_def char_eq_code [of c])

lemma digit_val_decimal:
  "c_isdigit c \<Longrightarrow> digit_val 10 c = Some (of_char c - 48)"
  by (auto simp add: digit_val_def c_isdigit_def Let_def)

lemma digit_val_not_digit:
  "\<not> c_isdigit c \<Longrightarrow> digit_val 10 c = None"
  by (auto simp add: digit_val_def c_isdigit_def Let_def)

lemma strtoul_digits_decimal:
  "list_all c_isdigit ds \<Longrightarrow>
   strtoul_digits 10 acc (ds @ rest) =
     strtoul_digits 10 (foldl (\<lambda>a c. a * 10 + (of_char c - 48)) acc ds) rest"
  by (induction ds arbitrary: acc) (simp_all add: digit_val_decimal)

lemma strtoul_digits_stop:
  "\<not> c_isdigit (peek rest) \<Longrightarrow> strtoul_digits 10 k rest = (k, rest)"
  by (cases rest) (simp_all add: digit_val_not_digit)

lemma not_digit_dot: "\<not> c_isdigit CHR ''.''"
  by (simp add: c_isdigit_def)

lemma strtoul_decimal_dot:
  assumes "list_all c_isdigit ds"
  shows "endp (strtoul (ds @ CHR ''.'' # tail) 10) = CHR ''.'' # tail \<and>
         (decimal_value ds \<le> ULONG_MAX \<longrightarrow>
            ul (strtoul (ds @ CHR ''.'' # tail) 10) = of_nat (decimal_value ds))"
proof (cases ds)
  case Nil
  then show ?thesis
    by (simp add: strtoul_def c_isspace_def Let_def digit_val_not_digit not_digit_dot
        decimal_value_def)
next
  case (Cons a as)
  with assms have a: "c_isdigit a" by simp
  have pre: "dropWhile c_isspace (ds @ CHR ''.'' # tail) = ds @ CHR ''.'' # tail"
    using Cons c_isdigit_plain(1) [OF a] by simp
  have pk: "peek (ds @ CHR ''.'' # tail) = a"
    using Cons by simp
  have dig: "strtoul_digits 10 0 (ds @ CHR ''.'' # tail) = (decimal_value ds, CHR ''.'' # tail)"
    using assms
    by (simp add: strtoul_digits_decimal digit_val_not_digit [OF not_digit_dot] decimal_value_def)
  have ne: "ds @ CHR ''.'' # tail \<noteq> []" by simp
  show ?thesis
    unfolding strtoul_def Let_def
    using c_isdigit_plain(2,3) [OF a] ne
    by (simp add: pre pk dig digit_val_decimal [OF a])
qed


lemma string_to_baud_fraction:
  assumes "list_all c_isdigit ds"
  shows "string_to_baud vtb (ds @ CHR ''.'' # tail) =
           baud_fraction vtb (ul (strtoul (ds @ CHR ''.'' # tail) 10)) tail"
proof -
  have pre: "dropWhile c_isspace (ds @ CHR ''.'' # tail) = ds @ CHR ''.'' # tail"
    using assms c_isdigit_plain(1) by (cases ds) (simp_all add: c_isspace_def)
  have pk: "peek (ds @ CHR ''.'' # tail) \<noteq> CHR ''-''"
    using assms c_isdigit_plain(2) by (cases ds) auto
  show ?thesis
    unfolding string_to_baud_def Let_def pre baud_fraction_def
    using pk strtoul_decimal_dot [OF assms, of tail]
    by (simp add: NUL_def)
qed

lemma skip_digits_not_digit: "\<not> c_isdigit g \<Longrightarrow> skip_digits g rest = (g, rest)"
  by (cases rest) simp_all

lemma skip_digits_garbage:
  "list_all c_isdigit xs \<Longrightarrow> \<not> c_isdigit g \<Longrightarrow> c_isdigit c \<Longrightarrow>
   skip_digits c (xs @ g # rest) = (g, rest)"
  by (induction xs arbitrary: c) (simp_all add: skip_digits_not_digit)

lemma skip_digits_all:
  "list_all c_isdigit xs \<Longrightarrow> c_isdigit c \<Longrightarrow> skip_digits c xs = (NUL, [])"
  by (induction xs arbitrary: c) simp_all

lemma not_digit_NUL: "\<not> c_isdigit NUL"
  by (simp add: c_isdigit_def NUL_def)

lemma skip_zeroes_garbage:
  "list_all c_isdigit xs \<Longrightarrow> \<not> c_isdigit g \<Longrightarrow> g \<noteq> NUL \<Longrightarrow>
   fst (skip_zeroes (xs @ g # rest)) \<noteq> NUL \<and>
   skip_digits (fst (skip_zeroes (xs @ g # rest))) (snd (skip_zeroes (xs @ g # rest))) = (g, rest)"
proof (induction xs)
  case Nil
  have "g \<noteq> CHR ''0''" using Nil(2) by (auto simp add: c_isdigit_def)
  with Nil show ?case by (simp add: skip_digits_not_digit)
next
  case (Cons x xs)
  then show ?case
    using c_isdigit_plain(4) [of x]
    by (simp add: skip_digits_garbage)
qed

lemma digit_word:
  assumes "c_isdigit c"
  shows "(of_char c - of_char CHR ''0'' :: 8 word) = of_nat (of_char c - 48)"
    and "(of_char c :: nat) - 48 \<le> 9"
proof -
  have a: "48 \<le> (of_char c :: nat)" and b: "(of_char c :: nat) \<le> 57"
    using assms by (simp_all add: c_isdigit_def)
  have "(of_char c :: 8 word) = of_nat (of_char c)"
    by (simp add: of_nat_of_char)
  then show "(of_char c - of_char CHR ''0'' :: 8 word) = of_nat (of_char c - 48)"
    using a by (simp add: of_nat_diff)
  show "(of_char c :: nat) - 48 \<le> 9" using b by simp
qed

lemma word8_small:
  "k \<le> 9 \<Longrightarrow> (5 < (of_nat k :: 8 word)) = (5 < k)"
  "k \<le> 9 \<Longrightarrow> ((of_nat k :: 8 word) = 5) = (k = 5)"
  by (simp_all add: word_less_nat_alt unat_of_nat word_eq_iff_unsigned [where 'a = nat])

lemma not_digit_not_five:
  assumes "\<not> c_isdigit g"
  shows "(of_char g - of_char CHR ''0'' :: 8 word) \<noteq> 5"
proof
  assume "(of_char g - of_char CHR ''0'' :: 8 word) = 5"
  then have "(of_char g :: 8 word) = 53" by simp
  then have "unat (of_char g :: 8 word) = 53" by simp
  moreover have "unat (of_nat (of_char g :: nat) :: 8 word) = of_char g"
    by (simp only: unat_of_nat) simp
  then have "unat (of_char g :: 8 word) = of_char g"
    by (simp only: of_nat_of_char)
  ultimately have "(of_char g :: nat) = 53" by simp
  with assms show False by (simp add: c_isdigit_def)
qed

lemma baud_fraction_garbage:
  assumes "list_all c_isdigit fs" and "\<not> c_isdigit g" and "g \<noteq> NUL"
  shows "baud_fraction vtb val (fs @ g # rest) = - 1"
proof (cases fs)
  case Nil
  then show ?thesis
    using assms(2,3) not_digit_not_five [OF assms(2)]
    by (simp add: baud_fraction_def Let_def skip_digits_not_digit)
next
  case (Cons f fs')
  with assms(1) have f: "c_isdigit f" and fs': "list_all c_isdigit fs'" by simp_all
  note z = skip_zeroes_garbage [OF fs' assms(2,3), of rest]
  show ?thesis
    using Cons c_isdigit_plain(4) [OF f] assms(3) z
    by (simp add: baud_fraction_def Let_def skip_digits_garbage [OF fs' assms(2) f]
        split_beta)
qed


lemma decimal_value_Cons:
  "decimal_value (f # fs) = (of_char f - 48) * 10 ^ length fs + decimal_value fs"
proof -
  have "foldl (\<lambda>a c. a * 10 + (of_char c - 48)) acc fs =
          acc * 10 ^ length fs + foldl (\<lambda>a c. a * 10 + (of_char c - 48)) 0 fs" for acc :: nat
  proof (induction fs arbitrary: acc)
    case Nil
    show ?case by simp
  next
    case (Cons x xs)
    show ?case
      by (simp add: Cons.IH [of "acc * 10 + (of_char x - 48)"] Cons.IH [of "of_char x - 48"]
          algebra_simps)
  qed
  from this [of "of_char f - 48"] show ?thesis
    by (simp add: decimal_value_def)
qed

lemma decimal_value_less:
  "list_all c_isdigit fs \<Longrightarrow> decimal_value fs < 10 ^ length fs"
proof (induction fs)
  case Nil
  show ?case by (simp add: decimal_value_def)
next
  case (Cons f fs)
  then have f: "c_isdigit f" and l: "decimal_value fs < 10 ^ length fs"
    by simp_all
  define p :: nat where "p = 10 ^ length fs"
  define q :: nat where "q = (of_char f - 48) * p"
  have "q \<le> 9 * p"
    unfolding q_def using digit_word(2) [OF f] by (rule mult_le_mono1)
  moreover have "decimal_value fs < p" using l by (simp add: p_def)
  moreover have "decimal_value (f # fs) = q + decimal_value fs"
    by (simp add: decimal_value_Cons q_def p_def)
  moreover have "(10::nat) ^ length (f # fs) = 10 * p" by (simp add: p_def)
  ultimately show ?case by linarith
qed

lemma skip_zeroes_digits:
  "list_all c_isdigit xs \<Longrightarrow>
   (if decimal_value xs = 0 then skip_zeroes xs = (NUL, [])
    else fst (skip_zeroes xs) \<noteq> NUL \<and>
         skip_digits (fst (skip_zeroes xs)) (snd (skip_zeroes xs)) = (NUL, []))"
proof (induction xs)
  case Nil
  show ?case by (simp add: decimal_value_def)
next
  case (Cons x xs)
  then have x: "c_isdigit x" and xs: "list_all c_isdigit xs" by simp_all
  show ?case
  proof (cases "x = CHR ''0''")
    case True
    then have "decimal_value (x # xs) = decimal_value xs"
      by (simp add: decimal_value_Cons)
    with True Cons.IH [OF xs] show ?thesis by simp
  next
    case False
    then have "(of_char x :: nat) \<noteq> 48" by (simp add: char_eq_code [of x])
    with x have "0 < (of_char x :: nat) - 48" by (simp add: c_isdigit_def)
    then have "decimal_value (x # xs) \<noteq> 0" by (simp add: decimal_value_Cons)
    with False c_isdigit_plain(4) [OF x] skip_digits_all [OF xs x] show ?thesis by simp
  qed
qed

lemma word_round_even: "(of_nat n :: ulong) + (of_nat n AND 1) = of_nat (n + n mod 2)"
proof -
  have "(of_nat n :: ulong) AND 1 = of_nat (n mod 2)"
    by (simp add: and_one_eq mod_2_eq_odd)
  then show ?thesis by simp
qed

lemma baud_fraction_rounds:
  assumes "list_all c_isdigit fs"
  shows "baud_fraction vtb (of_nat n) fs = vtb (of_nat (round_half_even n fs))"
proof (cases fs)
  case Nil
  then show ?thesis
    by (simp add: baud_fraction_def round_half_even_def decimal_value_def)
next
  case (Cons f fs')
  with assms have f: "c_isdigit f" and fs': "list_all c_isdigit fs'" by simp_all
  define d where "d = (of_char f :: nat) - 48"
  have dw: "(of_char f - of_char CHR ''0'' :: 8 word) = of_nat d" and d9: "d \<le> 9"
    using digit_word [OF f] by (simp_all add: d_def)
  from dw have dw': "(of_char f - 48 :: 8 word) = of_nat d" by simp
  define p :: nat where "p = 10 ^ length fs'"
  define q :: nat where "q = d * p"
  have dv: "decimal_value fs = q + decimal_value fs'"
    by (simp add: Cons decimal_value_Cons d_def p_def q_def)
  have lt: "decimal_value fs' < p"
    unfolding p_def by (rule decimal_value_less [OF fs'])
  have len: "(10::nat) ^ length fs = 10 * p" by (simp add: Cons p_def)
  have p0: "0 < p" by (simp add: p_def)
  note nz = c_isdigit_plain(4) [OF f]
  note sd = skip_digits_all [OF fs' f]
  consider (up) "5 < d" | (mid) "d = 5" | (down) "d < 5" by linarith
  then show ?thesis
  proof cases
    case up
    then have "6 * p \<le> q" by (simp add: q_def)
    then have "10 ^ length fs < 2 * decimal_value fs"
      unfolding dv len using lt p0 by simp
    then have r: "round_half_even n fs = n + 1" by (simp add: round_half_even_def)
    show ?thesis
      unfolding r using up nz sd
      by (simp add: baud_fraction_def Cons dw' Let_def word8_small [OF d9] add.commute [of 1])
  next
    case down
    then have "q \<le> 4 * p" by (simp add: q_def)
    then have "2 * decimal_value fs < 10 ^ length fs"
      unfolding dv len using lt p0 by simp
    then have r: "round_half_even n fs = n" by (simp add: round_half_even_def)
    show ?thesis
      unfolding r using down nz sd
      by (simp add: baud_fraction_def Cons dw' Let_def word8_small [OF d9] add.commute [of 1])
  next
    case mid
    have two: "2 * decimal_value fs = 10 ^ length fs + 2 * decimal_value fs'"
      unfolding dv len q_def mid by simp
    note z = skip_zeroes_digits [OF fs']
    show ?thesis
    proof (cases "decimal_value fs' = 0")
      case True
      then have r: "round_half_even n fs = n + n mod 2"
        using two by (simp add: round_half_even_def)
      from True z have sz: "skip_zeroes fs' = (NUL, [])" by simp
      show ?thesis
        unfolding r using mid nz
        by (simp add: baud_fraction_def Cons dw' Let_def word8_small [OF d9] add.commute [of 1] sz not_digit_NUL
            word_round_even)
    next
      case False
      then have r: "round_half_even n fs = n + 1"
        using two by (simp add: round_half_even_def)
      from False z have sz: "fst (skip_zeroes fs') \<noteq> NUL"
        "skip_digits (fst (skip_zeroes fs')) (snd (skip_zeroes fs')) = (NUL, [])" by simp_all
      show ?thesis
        unfolding r using mid nz sz
        by (simp add: baud_fraction_def Cons dw' Let_def word8_small [OF d9] add.commute [of 1] split_beta)
    qed
  qed
qed

lemma string_to_baud_minus:
  assumes "list_all c_isspace ws"
  shows "string_to_baud vtb (ws @ CHR ''-'' # rest) = - 1"
proof -
  have "\<not> c_isspace CHR ''-''" by (simp add: c_isspace_def)
  then have "dropWhile c_isspace (ws @ CHR ''-'' # rest) = CHR ''-'' # rest"
    using assms by (induction ws) simp_all
  then show ?thesis by (simp add: string_to_baud_def)
qed

lemma string_to_baud_rounds:
  assumes "list_all c_isdigit ds" and "list_all c_isdigit fs" and "decimal_value ds \<le> ULONG_MAX"
  shows "string_to_baud vtb (ds @ CHR ''.'' # fs) =
           vtb (of_nat (round_half_even (decimal_value ds) fs))"
  using strtoul_decimal_dot [OF assms(1), of fs] assms(3)
  by (simp add: string_to_baud_fraction [OF assms(1)] baud_fraction_rounds [OF assms(2)])

lemma string_to_baud_garbage:
  assumes "list_all c_isdigit ds" and "list_all c_isdigit fs" and "\<not> c_isdigit g" and "g \<noteq> NUL"
  shows "string_to_baud vtb (ds @ CHR ''.'' # fs @ g # rest) = - 1"
  by (simp add: string_to_baud_fraction [OF assms(1)] baud_fraction_garbage [OF assms(2-4)])

text \<open>Claim C2.  \<^verbatim>\<open>string_to_baud\<close> rounds a fraction to the nearest integer and a tie to the
  even neighbour: \<^verbatim>\<open>134.5\<close> gives the speed of \<^verbatim>\<open>134\<close>, and \<^verbatim>\<open>135.5\<close> and \<^verbatim>\<open>136.5\<close> both give
  the speed of 136; in general digits \<open>ds\<close>, a point and digits \<open>fs\<close> give the speed of
  \<open>round_half_even (decimal_value ds) fs\<close>.  A text whose first character after white space
  is \<^verbatim>\<open>-\<close> gives \<^verbatim>\<open>(speed_t) -1\<close>, and so does a text with a character that is no digit after
  the digits of the fraction.\<close>

theorem baud_round_half_even:
  "string_to_baud vtb ''134.5'' = string_to_baud vtb ''134'' \<and>
   string_to_baud vtb ''135.5'' = string_to_baud vtb ''136'' \<and>
   string_to_baud vtb ''136.5'' = string_to_baud vtb ''136'' \<and>
   string_to_baud vtb ''136'' = vtb 136 \<and>
   (list_all c_isdigit ds \<and> list_all c_isdigit fs \<and> decimal_value ds \<le> ULONG_MAX \<longrightarrow>
      string_to_baud vtb (ds @ CHR ''.'' # fs) =
        vtb (of_nat (round_half_even (decimal_value ds) fs))) \<and>
   (list_all c_isspace ws \<longrightarrow> string_to_baud vtb (ws @ CHR ''-'' # rest) = - 1) \<and>
   (list_all c_isdigit ds' \<and> list_all c_isdigit fs' \<and> \<not> c_isdigit g \<and> g \<noteq> NUL \<longrightarrow>
      string_to_baud vtb (ds' @ CHR ''.'' # fs' @ g # rest') = - 1)"
proof -
  have "string_to_baud vtb ''134'' = vtb 134" "string_to_baud vtb ''134.5'' = vtb 134"
    "string_to_baud vtb ''135.5'' = vtb 136" "string_to_baud vtb ''136.5'' = vtb 136"
    "string_to_baud vtb ''136'' = vtb 136"
    by (simp_all add: string_to_baud_def strtoul_def c_isspace_def digit_val_def ULONG_MAX_def
        Let_def NUL_def c_isdigit_def)
  then show ?thesis
    using string_to_baud_rounds [of ds fs vtb] string_to_baud_minus [of ws vtb rest]
      string_to_baud_garbage [of ds' fs' g vtb rest']
    by simp
qed

theorem baud_round_half_even_witness:
  "string_to_baud ucast ''9600.50'' = 9600 \<and>
   string_to_baud ucast [CHR '' '', CHR ''-'', CHR ''5''] = - 1 \<and>
   string_to_baud ucast ''1.25x'' = - 1"
  using baud_round_half_even [of ucast "''9600''" "''50''" "[CHR '' '']" "''5''" "''1''" "''25''"
      "CHR ''x''" "[]"]
  by (simp add: c_isdigit_def c_isspace_def decimal_value_def round_half_even_def ULONG_MAX_def
      NUL_def)

subsection \<open>Control-character literals\<close>

lemma caret_mask: "of_char c < (128::nat) \<Longrightarrow> to_uchar c AND NOT 0x60 = to_uchar c AND 0x1F"
proof -
  assume a: "of_char c < (128::nat)"
  have e: "(of_char c :: 8 word) = of_nat (of_char c)" by (simp add: of_nat_of_char)
  have "\<not> bit (of_char c :: nat) 7"
    using a by (simp add: bit_iff_odd)
  then have "\<not> bit (of_nat (of_char c :: nat) :: 8 word) 7"
    by (simp only: bit_of_nat_iff) simp
  then have b: "\<not> bit (to_uchar c) 7" unfolding to_uchar_def e .
  show ?thesis
  proof (rule bit_word_eqI)
    fix n assume "n < LENGTH(8)"
    then consider "n = 0" | "n = 1" | "n = 2" | "n = 3" | "n = 4" | "n = 5" | "n = 6" | "n = 7"
      by (auto simp add: less_Suc_eq numeral_eq_Suc)
    then show "bit (to_uchar c AND NOT 0x60) n = bit (to_uchar c AND 0x1F) n"
      using b by cases (simp_all add: bit_simps)
  qed
qed

lemma set_control_char_cases:
  assumes "cname info \<noteq> ''min''" and "cname info \<noteq> ''time''" and "NUL \<notin> set arg"
  shows "set_control_char info arg m =
     (case arg of
        [] \<Rightarrow> Inr (set_cc (offset info) 0 m)
      | [c] \<Rightarrow> Inr (set_cc (offset info) (to_uchar c) m)
      | c # c' # rest \<Rightarrow>
          if arg = ''^-'' \<or> arg = ''undef'' then Inr (set_cc (offset info) POSIX_VDISABLE m)
          else if c = CHR ''^'' then
            Inr (set_cc (offset info) (if c' = CHR ''?'' then 127 else to_uchar c' AND 0x1F) m)
          else (case integer_arg arg CC_MAX of
                  Inl e \<Rightarrow> Inl e
                | Inr v \<Rightarrow> Inr (set_cc (offset info) (of_nat v) m)))"
proof (cases arg)
  case Nil
  then show ?thesis using assms(1,2)
    by (simp add: set_control_char_def to_uchar_def NUL_def)
next
  case (Cons c cs)
  note outer = Cons
  show ?thesis
  proof (cases cs)
    case Nil
    then show ?thesis using assms outer
      by (simp add: set_control_char_def)
  next
    case (Cons c' rest)
    then show ?thesis using assms outer
      by (auto simp add: set_control_char_def)
  qed
qed

lemma set_control_char_gpt4o_eq:
  assumes "arg \<noteq> []" and "NUL \<notin> set arg"
    and "peek arg = CHR ''^'' \<longrightarrow> of_char (peek (tl arg)) < (128::nat)"
  shows "set_control_char_gpt4o info arg m = set_control_char info arg m"
proof (cases arg)
  case Nil
  with assms(1) show ?thesis by simp
next
  case (Cons c cs)
  note outer = Cons
  show ?thesis
  proof (cases cs)
    case Nil
    then show ?thesis using assms outer
      by (simp add: set_control_char_def set_control_char_gpt4o_def)
  next
    case (Cons c' rest)
    show ?thesis
    proof (cases "c = CHR ''^''")
      case True
      then have "of_char c' < (128::nat)"
        using assms(3) outer Cons by simp
      from caret_mask [OF this] have "to_uchar c' AND - 97 = to_uchar c' AND 31"
        by simp
      then show ?thesis using assms(2) outer Cons
        by (auto simp add: set_control_char_def set_control_char_gpt4o_def)
    next
      case False
      then show ?thesis using assms(2) outer Cons
        by (auto simp add: set_control_char_def set_control_char_gpt4o_def)
    qed
  qed
qed


text \<open>With an empty literal \<^verbatim>\<open>set_control_char\<close> of \<^verbatim>\<open>stty-gpt-4o.c\<close> goes to \<^verbatim>\<open>integer_arg\<close>,
  which rejects it, where \<^verbatim>\<open>stty-gemini-2.5-pro.c\<close> stores the byte 0.\<close>

lemma set_control_char_gpt4o_empty:
  "cname info \<noteq> ''min'' \<Longrightarrow> cname info \<noteq> ''time'' \<Longrightarrow>
   set_control_char_gpt4o info [] m = Inl (Invalid_integer_argument [])"
  by (simp add: set_control_char_gpt4o_def integer_arg_def xnumtoumax_def strtoul_def Let_def
      has_hex_prefix_def NUL_def)

text \<open>Claim C7, as the sources have it.  For a slot other than \<^verbatim>\<open>min\<close> and \<^verbatim>\<open>time\<close>,
  \<^verbatim>\<open>set_control_char\<close> of \<^verbatim>\<open>stty-gemini-2.5-pro.c\<close> stores: the byte 0 for the empty literal and
  the character itself for a literal of one character; \<^verbatim>\<open>_POSIX_VDISABLE\<close> for \<^verbatim>\<open>^-\<close> and
  \<^verbatim>\<open>undef\<close>; for any other literal that begins with \<^verbatim>\<open>^\<close>, 127 when its second character is
  \<^verbatim>\<open>?\<close> and otherwise the second character ANDed with \<^verbatim>\<open>0x1F\<close>, whatever follows the second
  character; and the value of \<^verbatim>\<open>integer_arg\<close> for every other literal.  The slots \<^verbatim>\<open>min\<close> and
  \<^verbatim>\<open>time\<close> always take the value of \<^verbatim>\<open>integer_arg\<close>, in both files.  \<^verbatim>\<open>stty-gpt-4o.c\<close> stores
  the same as \<^verbatim>\<open>stty-gemini-2.5-pro.c\<close> for every literal but the empty one and one that
  begins with \<^verbatim>\<open>^\<close> and has a second character of 128 or more; nothing is said here of
  what it does with those.\<close>

theorem control_char_literal:
  "(cname info \<noteq> ''min'' \<and> cname info \<noteq> ''time'' \<and> NUL \<notin> set arg \<longrightarrow>
      set_control_char info arg m =
        (case arg of
           [] \<Rightarrow> Inr (set_cc (offset info) 0 m)
         | [c] \<Rightarrow> Inr (set_cc (offset info) (to_uchar c) m)
         | c # c' # rest \<Rightarrow>
             if arg = ''^-'' \<or> arg = ''undef'' then Inr (set_cc (offset info) POSIX_VDISABLE m)
             else if c = CHR ''^'' then
               Inr (set_cc (offset info)
                      (if c' = CHR ''?'' then 127 else to_uchar c' AND 0x1F) m)
             else (case integer_arg arg CC_MAX of
                     Inl e \<Rightarrow> Inl e
                   | Inr v \<Rightarrow> Inr (set_cc (offset info) (of_nat v) m)))) \<and>
   (cname info' = ''min'' \<or> cname info' = ''time'' \<longrightarrow>
      set_control_char info' arg' m =
        (case integer_arg arg' CC_MAX of
           Inl e \<Rightarrow> Inl e
         | Inr v \<Rightarrow> Inr (set_cc (offset info') (of_nat v) m)) \<and>
      set_control_char_gpt4o info' arg' m = set_control_char info' arg' m) \<and>
   (arg \<noteq> [] \<and> NUL \<notin> set arg \<and>
    (peek arg = CHR ''^'' \<longrightarrow> of_char (peek (tl arg)) < (128::nat)) \<longrightarrow>
      set_control_char_gpt4o info arg m = set_control_char info arg m)"
proof -
  have "set_control_char_gpt4o info' arg' m = set_control_char info' arg' m"
    if "cname info' = ''min'' \<or> cname info' = ''time''"
    using that by (auto simp add: set_control_char_def set_control_char_gpt4o_def)
  then show ?thesis
    using set_control_char_cases [of info arg m] set_control_char_gpt4o_eq [of arg info m]
    by (auto simp add: set_control_char_def)
qed

theorem control_char_literal_witness:
  "set_control_char (mk_control ''intr'' CINTR VINTR) ''^c'' zero_termios =
     Inr (set_cc VINTR 3 zero_termios) \<and>
   set_control_char_gpt4o (mk_control ''intr'' CINTR VINTR) ''^c'' zero_termios =
     Inr (set_cc VINTR 3 zero_termios) \<and>
   set_control_char (mk_control ''min'' 1 VMIN) ''0x10'' zero_termios =
     Inr (set_cc VMIN 16 zero_termios) \<and>
   set_control_char_gpt4o (mk_control ''min'' 1 VMIN) ''0x10'' zero_termios =
     Inr (set_cc VMIN 16 zero_termios)"
  using control_char_literal [of "mk_control ''intr'' CINTR VINTR" "''^c''" zero_termios
      "mk_control ''min'' 1 VMIN" "''0x10''"]
  by (simp add: mk_control_def NUL_def to_uchar_def integer_arg_def xnumtoumax_def strtoul_def
      c_isspace_def Let_def has_hex_prefix_def digit_val_def CC_MAX_def ULONG_MAX_def)

text \<open>The literal \<^verbatim>\<open>^ab\<close> is none of \<^verbatim>\<open>^-\<close>, \<^verbatim>\<open>undef\<close>, \<^verbatim>\<open>^?\<close> and \<^verbatim>\<open>^\<close> with one character, and
  \<^verbatim>\<open>integer_arg\<close> rejects it; both files store 1, the character \<^verbatim>\<open>a\<close> ANDed with \<^verbatim>\<open>0x1F\<close>.\<close>

theorem caret_with_two_characters:
  "set_control_char (mk_control ''intr'' CINTR VINTR) ''^ab'' zero_termios =
     Inr (set_cc VINTR 1 zero_termios) \<and>
   set_control_char_gpt4o (mk_control ''intr'' CINTR VINTR) ''^ab'' zero_termios =
     Inr (set_cc VINTR 1 zero_termios) \<and>
   integer_arg ''^ab'' CC_MAX = Inl (Invalid_integer_argument ''^ab'')"
  by (simp add: set_control_char_def set_control_char_gpt4o_def mk_control_def NUL_def
      to_uchar_def integer_arg_def xnumtoumax_def strtoul_def c_isspace_def Let_def
      has_hex_prefix_def digit_val_def)

subsection \<open>Negated settings\<close>

text \<open>The only entry flagged \<^verbatim>\<open>NO_SETATTR\<close> is reversible.\<close>

lemma no_setattr_is_reversible:
  "list_all (\<lambda>info. flags info AND NO_SETATTR \<noteq> 0 \<longrightarrow> flags info AND REV \<noteq> 0) mode_info"
  by (simp add: mode_info_def mk_mode_def mflag_defs)

lemma find_mode_member: "find_mode r = Some mi \<Longrightarrow> mi \<in> set mode_info"
  by (auto simp add: find_mode_def find_Some_iff)

lemma find_mode_drain: "find_mode ''drain'' = None"
  by (simp add: find_mode_def mode_info_def mk_mode_def)

lemma find_mode_cs8: "find_mode ''cs8'' = Some (mk_mode ''cs8'' control 0 CS8 CSIZE)"
  by (simp add: find_mode_def mode_info_def mk_mode_def)

lemma find_mode_foo: "find_mode ''foo'' = None"
  by (simp add: find_mode_def mode_info_def mk_mode_def)

lemma negated_unmatched:
  assumes "r \<noteq> ''drain''" and "find_mode r = None"
  shows "apply_token vtb checking (CHR ''-'' # r) rest st =
           Inl (Invalid_argument (CHR ''-'' # r), st)"
    and "apply_token_gpt4o vtb checking (CHR ''-'' # r) rest st =
           Inl (Invalid_argument (CHR ''-'' # r), st)"
  using assms by (simp_all add: apply_token_def apply_token_gpt4o_def)

lemma negated_not_reversible_gpt4o:
  assumes "find_mode r = Some mi" and "flags mi AND REV = 0"
  shows "apply_token_gpt4o vtb checking (CHR ''-'' # r) rest st =
           Inl (Invalid_argument (CHR ''-'' # r), st\<lparr>require_set_attr := True\<rparr>)"
proof -
  have "r \<noteq> ''drain''" using assms(1) find_mode_drain by auto
  moreover have "flags mi AND NO_SETATTR = 0"
    using no_setattr_is_reversible find_mode_member [OF assms(1)] assms(2)
    by (auto simp add: list_all_iff)
  ultimately show ?thesis
    using assms by (simp add: apply_token_gpt4o_def set_mode_gpt4o_def)
qed

lemma first_token_fails:
  assumes "apply_token vtb True tok rest (initial_state zero_termios) = Inl (e, st)"
    and "output_type cfg = changed" and "\<not> noargs cfg"
  shows "stty_main vtb readback cfg (p # Some tok # rest) dev = (EXIT_FAILURE e, events st)"
  using assms by (simp add: stty_main_def apply_settings_def)

lemma first_token_fails_gpt4o:
  assumes "apply_token_gpt4o vtb True tok rest (initial_state zero_termios) = Inl (e, st)"
    and "output_type cfg = changed" and "\<not> noargs cfg"
  shows "stty_main_gpt4o vtb readback cfg (p # Some tok # rest) dev = (EXIT_FAILURE e, events st)"
  using assms by (simp add: stty_main_gpt4o_def apply_settings_gpt4o_def)

text \<open>\<^verbatim>\<open>apply_settings\<close> of \<^verbatim>\<open>stty-gemini-2.5-pro.c\<close> does not look at the result of \<^verbatim>\<open>set_mode\<close>:
  the negation of an entry that is not reversible is accepted, changes nothing in the
  snapshot and asks for the snapshot to be written.\<close>

lemma negated_not_reversible:
  assumes "find_mode r = Some mi" and "flags mi AND REV = 0"
  shows "apply_token vtb checking (CHR ''-'' # r) rest st =
           Inr (st\<lparr>require_set_attr := True\<rparr>, 0)"
proof -
  have "r \<noteq> ''drain''" using assms(1) find_mode_drain by auto
  moreover have "flags mi AND NO_SETATTR = 0"
    using no_setattr_is_reversible find_mode_member [OF assms(1)] assms(2)
    by (auto simp add: list_all_iff)
  ultimately show ?thesis
    using assms by (simp add: apply_token_def set_mode_def)
qed

lemma negated_cs8_accepted:
  "apply_token vtb checking ''-cs8'' rest st = Inr (st\<lparr>require_set_attr := True\<rparr>, 0)"
  by (simp add: apply_token_def find_mode_cs8 set_mode_def mk_mode_def mflag_defs)

text \<open>A negated token whose remainder is not \<^verbatim>\<open>drain\<close> and is the name of no entry of
  \<^verbatim>\<open>mode_info\<close> ends \<^verbatim>\<open>apply_settings\<close> of both files with the error \<^verbatim>\<open>invalid argument\<close>
  quoting the token with its \<^verbatim>\<open>-\<close> and leaves the state as it was; as the first setting
  of a command line it makes \<^verbatim>\<open>main\<close> fail before anything is done to the device.\<close>

lemma negated_unmatched_rejected:
  assumes "r \<noteq> ''drain''" and "find_mode r = None"
    and "output_type cfg = changed" and "\<not> noargs cfg"
  shows "stty_main vtb readback cfg (p # Some (CHR ''-'' # r) # rest) dev =
           (EXIT_FAILURE (Invalid_argument (CHR ''-'' # r)), [])"
    and "stty_main_gpt4o vtb readback cfg (p # Some (CHR ''-'' # r) # rest) dev =
           (EXIT_FAILURE (Invalid_argument (CHR ''-'' # r)), [])"
  using first_token_fails [OF negated_unmatched(1) [OF assms(1,2)] assms(3,4)]
    first_token_fails_gpt4o [OF negated_unmatched(2) [OF assms(1,2)] assms(3,4)]
  by (simp_all add: initial_state_def)

text \<open>\<^verbatim>\<open>drain\<close> and \<^verbatim>\<open>-drain\<close> are dealt with before the tables are searched: both files
  accept \<^verbatim>\<open>-drain\<close> and select \<^verbatim>\<open>TCSANOW\<close>.\<close>

lemma negated_drain_accepted:
  "apply_settings ucast True [Some ''stty'', Some ''-drain''] (initial_state zero_termios) =
     Inr ((initial_state zero_termios)\<lparr>tcsetattr_options := TCSANOW\<rparr>) \<and>
   apply_settings_gpt4o ucast True [Some ''stty'', Some ''-drain''] (initial_state zero_termios) =
     Inr ((initial_state zero_termios)\<lparr>tcsetattr_options := TCSANOW\<rparr>)"
  by (simp add: apply_settings_def apply_settings_gpt4o_def apply_token_def
      apply_token_gpt4o_def check_speed_def initial_state_def)

text \<open>Claim C3.  A token that begins with \<^verbatim>\<open>-\<close> and whose remainder is the name of an entry
  of \<^verbatim>\<open>mode_info\<close> that is not flagged \<^verbatim>\<open>REV\<close> is an \<^verbatim>\<open>invalid argument\<close> in \<^verbatim>\<open>stty-gpt-4o.c\<close>,
  quoted with its \<^verbatim>\<open>-\<close>, and \<^verbatim>\<open>main\<close> fails before anything is done to the device.
  \<^verbatim>\<open>apply_settings\<close> of \<^verbatim>\<open>stty-gemini-2.5-pro.c\<close> accepts the token instead: with it as the only
  setting, and a device that gives back what is written to it, \<^verbatim>\<open>main\<close> reads the snapshot,
  writes it back unchanged and succeeds.\<close>

theorem negated_not_reversible_accepted:
  assumes "find_mode r = Some mi" and "flags mi AND REV = 0"
    and "output_type cfg = changed" and "\<not> noargs cfg" and "eq_mode dev (readback dev)"
  shows "apply_token vtb checking (CHR ''-'' # r) rest st =
           Inr (st\<lparr>require_set_attr := True\<rparr>, 0) \<and>
         stty_main vtb readback cfg [p, Some (CHR ''-'' # r)] dev =
           (EXIT_SUCCESS,
            open_and_read cfg @ [Attributes_written TCSADRAIN dev, Attributes_read]) \<and>
         apply_token_gpt4o vtb checking (CHR ''-'' # r) rest st =
           Inl (Invalid_argument (CHR ''-'' # r), st\<lparr>require_set_attr := True\<rparr>) \<and>
         stty_main_gpt4o vtb readback cfg (p # Some (CHR ''-'' # r) # rest) dev =
           (EXIT_FAILURE (Invalid_argument (CHR ''-'' # r)), [])"
proof -
  note a = negated_not_reversible [OF assms(1,2)]
  note b = negated_not_reversible_gpt4o [OF assms(1,2)]
  have "stty_main vtb readback cfg [p, Some (CHR ''-'' # r)] dev =
          (EXIT_SUCCESS, open_and_read cfg @ [Attributes_written TCSADRAIN dev, Attributes_read])"
    using assms(3-5)
    by (simp add: stty_main_def apply_settings_def a check_speed_def initial_state_def
        set_and_verify_attributes_def)
  moreover have "stty_main_gpt4o vtb readback cfg (p # Some (CHR ''-'' # r) # rest) dev =
          (EXIT_FAILURE (Invalid_argument (CHR ''-'' # r)), [])"
    using first_token_fails_gpt4o [OF b assms(3,4)]
    by (simp add: initial_state_def)
  ultimately show ?thesis
    using a b by simp
qed

theorem negated_not_reversible_accepted_witness:
  "apply_token ucast True ''-cs8'' [] (initial_state zero_termios) =
     Inr ((initial_state zero_termios)\<lparr>require_set_attr := True\<rparr>, 0) \<and>
   stty_main ucast id \<lparr>output_type = changed, noargs = False, file_name = None\<rparr>
       [Some ''stty'', Some ''-cs8''] zero_termios =
     (EXIT_SUCCESS,
      [Attributes_read, Attributes_written TCSADRAIN zero_termios, Attributes_read]) \<and>
   apply_token_gpt4o ucast True ''-cs8'' [] (initial_state zero_termios) =
     Inl (Invalid_argument ''-cs8'', (initial_state zero_termios)\<lparr>require_set_attr := True\<rparr>) \<and>
   stty_main_gpt4o ucast id \<lparr>output_type = changed, noargs = False, file_name = None\<rparr>
       [Some ''stty'', Some ''-cs8''] zero_termios =
     (EXIT_FAILURE (Invalid_argument ''-cs8''), [])"
  using negated_not_reversible_accepted [of "''cs8''" "mk_mode ''cs8'' control 0 CS8 CSIZE"
      "\<lparr>output_type = changed, noargs = False, file_name = None\<rparr>" zero_termios id
      ucast True "[]" "initial_state zero_termios" "Some ''stty''"]
  by (simp add: find_mode_cs8 mk_mode_def eq_mode_def open_and_read_def)

subsection \<open>Recoverable texts with too few fields\<close>

lemmas strtoul_eval = strtoul_def Let_def has_hex_prefix_def digit_val_def c_isspace_def
  ULONG_MAX_def NUL_def

lemma find_mode_777: "find_mode ''7:7:7'' = None"
  by (simp add: find_mode_def mode_info_def mk_mode_def)

lemma find_control_777: "find_control ''7:7:7'' = None"
  by (simp add: find_control_def control_info_def mk_control_def)

lemma string_to_baud_777: "string_to_baud vtb ''7:7:7'' = - 1"
  by (simp add: string_to_baud_def strtoul_eval)

lemma recover_mode_777:
  "recover_mode ''7:7:7'' m = (False, m\<lparr>c_iflag := 7, c_oflag := 7\<rparr>)"
  by (simp add: recover_mode_def strtoul_tcflag_t_def strtoul_eval)

lemma recover_mode_gpt4o_777:
  "recover_mode_gpt4o ''7:7:7'' m = Inr (False, m\<lparr>c_iflag := 7, c_oflag := 7\<rparr>)"
  by (simp add: recover_mode_gpt4o_def parse_tcflag_def strtoul_eval)

lemma apply_token_777:
  "apply_token vtb checking ''7:7:7'' rest st =
     Inl (Invalid_argument ''7:7:7'', st\<lparr>mode := (mode st)\<lparr>c_iflag := 7, c_oflag := 7\<rparr>\<rparr>)"
  by (simp add: apply_token_def find_mode_777 find_control_777 apply_special_setting_def
      handle_speed_arg_setting_def handle_window_size_setting_def string_to_baud_777
      recover_mode_777)

lemma apply_token_gpt4o_777:
  "apply_token_gpt4o vtb checking ''7:7:7'' rest st =
     Inl (Invalid_argument ''7:7:7'', st\<lparr>mode := (mode st)\<lparr>c_iflag := 7, c_oflag := 7\<rparr>\<rparr>)"
  by (simp add: apply_token_gpt4o_def find_mode_777 find_control_777 special_settings_gpt4o_def
      string_to_baud_777 recover_mode_gpt4o_777)

lemma recover_mode_five_fields:
  "fst (recover_mode ''0:0:0:0:0'' zero_termios) = False"
  by (simp add: recover_mode_def strtoul_tcflag_t_def strtoul_cc_t_def strtoul_eval
      recover_cc.simps [of 0] NCCS_def)

lemma recover_mode_gpt4o_five_fields:
  "recover_mode_gpt4o ''0:0:0:0:0'' zero_termios = Inl Out_of_bounds_read"
  by (simp add: recover_mode_gpt4o_def parse_tcflag_def parse_cc_def strtoul_eval
      recover_cc_gpt4o.simps [of 0] recover_cc_gpt4o.simps [of "Suc 0"] NCCS_def)


lemma colons_simps [simp]:
  "colons [] = 0"
  "colons (c # cs) = (if c = CHR '':'' then Suc (colons cs) else colons cs)"
  "colons (xs @ ys) = colons xs + colons ys"
  by (simp_all add: colons_def)

lemma colons_none: "CHR '':'' \<notin> set s \<Longrightarrow> colons s = 0"
  by (induction s) auto

lemma colon_no_digit: "digit_val b CHR '':'' = None"
  by (simp add: digit_val_def)

lemma strtoul_digits_colons:
  "strtoul_digits b acc s = (v, rest) \<Longrightarrow> colons rest = colons s"
proof (induction s arbitrary: acc)
  case Nil
  then show ?case by simp
next
  case (Cons c cs)
  show ?case
  proof (cases "digit_val b c")
    case None
    with Cons.prems show ?thesis by auto
  next
    case (Some d)
    then have "c \<noteq> CHR '':''" using colon_no_digit [of b] by auto
    moreover have "colons rest = colons cs"
      using Cons.prems Some Cons.IH [of "acc * b + d"] by simp
    ultimately show ?thesis by simp
  qed
qed

lemma dropWhile_colons: "colons (dropWhile c_isspace s) = colons s"
proof -
  have "\<not> c_isspace CHR '':''" by (simp add: c_isspace_def)
  then have "CHR '':'' \<notin> set (takeWhile c_isspace s)"
    by (auto dest: set_takeWhileD)
  then have "colons (takeWhile c_isspace s) = 0" by (rule colons_none)
  moreover have "colons s = colons (takeWhile c_isspace s) + colons (dropWhile c_isspace s)"
    by (simp only: colons_simps(3) [symmetric] takeWhile_dropWhile_id)
  ultimately show ?thesis by simp
qed

lemma sign_colons:
  "colons (if peek s = CHR ''-'' \<or> peek s = CHR ''+'' then tl s else s) = colons s"
  by (cases s) auto

lemma hex_prefix_colons: "has_hex_prefix s \<Longrightarrow> colons (drop 2 s) = colons s"
  by (cases s rule: list.exhaust [case_names Nil Cons])
     (auto simp add: has_hex_prefix_def numeral_2_eq_2 split: list.splits)

lemma strtoul_colons: "colons (endp (strtoul s base)) = colons s"
proof -
  define s1 where "s1 = dropWhile c_isspace s"
  define s2 where "s2 = (if peek s1 = CHR ''-'' \<or> peek s1 = CHR ''+'' then tl s1 else s1)"
  define hex where "hex \<longleftrightarrow> (base = 16 \<or> base = 0) \<and> has_hex_prefix s2"
  define s3 where "s3 = (if hex then drop 2 s2 else s2)"
  have c1: "colons s1 = colons s"
    unfolding s1_def by (rule dropWhile_colons)
  have c2: "colons s2 = colons s1"
    unfolding s2_def by (rule sign_colons)
  have "colons s3 = colons s2"
    unfolding s3_def using hex_prefix_colons [of s2] by (simp add: hex_def)
  with c1 c2 have c3: "colons s3 = colons s" by simp
  have "colons (snd (strtoul_digits b 0 s3)) = colons s3" for b
    using strtoul_digits_colons [of b 0 s3] by (cases "strtoul_digits b 0 s3") simp
  then show ?thesis
    unfolding strtoul_def Let_def s1_def [symmetric] s2_def [symmetric] hex_def [symmetric]
      s3_def [symmetric]
    using c3 by (simp add: split_beta)
qed

lemma strtoul_tcflag_t_colons:
  assumes "strtoul_tcflag_t s 16 CHR '':'' = Some (v, p)"
  shows "colons s = Suc (colons (tl p))"
proof -
  from assms have p: "p = endp (strtoul s 16)" and k: "peek p = CHR '':''"
    by (auto simp add: strtoul_tcflag_t_def Let_def split: if_splits)
  from k have "colons p = Suc (colons (tl p))" by (cases p) (auto simp add: NUL_def)
  then show ?thesis using strtoul_colons [of s 16] p by simp
qed

lemma strtoul_cc_t_colons:
  assumes "strtoul_cc_t s 16 CHR '':'' = Some (v, p)"
  shows "colons s = Suc (colons (tl p))"
proof -
  from assms have p: "p = endp (strtoul s 16)" and k: "peek p = CHR '':''"
    by (auto simp add: strtoul_cc_t_def Let_def split: if_splits)
  from k have "colons p = Suc (colons (tl p))" by (cases p) (auto simp add: NUL_def)
  then show ?thesis using strtoul_colons [of s 16] p by simp
qed

lemma recover_flags_colons:
  "recover_flags fps s m = (Some s', m') \<Longrightarrow> colons s = length fps + colons s'"
proof (induction fps arbitrary: s m)
  case Nil
  then show ?case by simp
next
  case (Cons fp fps)
  then obtain v p where a: "strtoul_tcflag_t s 16 CHR '':'' = Some (v, p)"
    and b: "recover_flags fps (tl p) (store_flag fp v m) = (Some s', m')"
    by (auto split: option.splits)
  from Cons.IH [OF b] strtoul_tcflag_t_colons [OF a] show ?case by simp
qed

lemma recover_cc_colons:
  "recover_cc i s m = (True, m') \<Longrightarrow> NCCS - 1 - i \<le> colons s"
proof (induction i s m rule: recover_cc.induct)
  case (1 i s m)
  show ?case
  proof (cases "i < NCCS - 1")
    case False
    then show ?thesis by simp
  next
    case True
    then have lt: "i < NCCS" by simp
    from "1.prems" True lt obtain v p where a: "strtoul_cc_t s 16 CHR '':'' = Some (v, p)"
      and b: "recover_cc (i + 1) (tl p) (set_cc i v m) = (True, m')"
      by (subst (asm) recover_cc.simps) (auto split: option.splits)
    have a': "strtoul_cc_t s 16 (if i < NCCS - 1 then CHR '':'' else NUL) = Some (v, p)"
      using a True by simp
    have "NCCS - 1 - (i + 1) \<le> colons (tl p)"
      using "1.IH" [OF lt refl a' refl b] .
    with strtoul_cc_t_colons [OF a] True show ?thesis by simp
  qed
qed

text \<open>\<^verbatim>\<open>recover_mode\<close> of \<^verbatim>\<open>stty-gemini-2.5-pro.c\<close> returns false for every text with fewer
  than \<^verbatim>\<open>NCCS + 3\<close> colons, that is, with fewer than \<^verbatim>\<open>NCCS + 4\<close> fields.\<close>

lemma recover_mode_too_few_fields:
  assumes "colons arg < NCCS + 3"
  shows "fst (recover_mode arg m) = False"
proof (rule ccontr)
  assume "fst (recover_mode arg m) \<noteq> False"
  then obtain m' where t: "recover_mode arg m = (True, m')"
    by (cases "recover_mode arg m") auto
  then obtain s m1 where a: "recover_flags [iflag_ptr, oflag_ptr, cflag_ptr, lflag_ptr] arg m = (Some s, m1)"
    and b: "recover_cc 0 s m1 = (True, m')"
    by (auto simp add: recover_mode_def split: prod.splits option.splits)
  from recover_flags_colons [OF a] recover_cc_colons [OF b] assms show False
    by simp
qed


text \<open>The example \<^verbatim>\<open>7:7:7\<close>: both files reject it in the checking pass, so \<^verbatim>\<open>main\<close> fails before
  the device is opened, read or written.\<close>

lemma short_string_777:
  assumes "output_type cfg = changed" and "\<not> noargs cfg"
  shows "stty_main vtb readback cfg (p # Some ''7:7:7'' # rest) dev =
           (EXIT_FAILURE (Invalid_argument ''7:7:7''), [])"
    and "stty_main_gpt4o vtb readback cfg (p # Some ''7:7:7'' # rest) dev =
           (EXIT_FAILURE (Invalid_argument ''7:7:7''), [])"
  using first_token_fails [OF apply_token_777 assms]
    first_token_fails_gpt4o [OF apply_token_gpt4o_777 assms]
  by (simp_all add: initial_state_def)

lemma find_mode_five_fields: "find_mode ''0:0:0:0:0'' = None"
  by (simp add: find_mode_def mode_info_def mk_mode_def)

lemma find_control_five_fields: "find_control ''0:0:0:0:0'' = None"
  by (simp add: find_control_def control_info_def mk_control_def)

lemma string_to_baud_five_fields: "string_to_baud vtb ''0:0:0:0:0'' = - 1"
  by (simp add: string_to_baud_def strtoul_eval)

lemma apply_token_five_fields:
  "apply_token vtb True ''0:0:0:0:0'' rest (initial_state zero_termios) =
     Inl (Invalid_argument ''0:0:0:0:0'',
          (initial_state zero_termios)\<lparr>mode := snd (recover_mode ''0:0:0:0:0'' zero_termios)\<rparr>)"
  using recover_mode_five_fields
  by (cases "recover_mode ''0:0:0:0:0'' zero_termios")
     (simp add: apply_token_def find_mode_five_fields find_control_five_fields
      apply_special_setting_def handle_speed_arg_setting_def handle_window_size_setting_def
      string_to_baud_five_fields initial_state_def)

lemma apply_token_gpt4o_five_fields:
  "apply_token_gpt4o vtb True ''0:0:0:0:0'' rest (initial_state zero_termios) =
     Inl (Out_of_bounds_read, initial_state zero_termios)"
  by (simp add: apply_token_gpt4o_def find_mode_five_fields find_control_five_fields
      special_settings_gpt4o_def string_to_baud_five_fields recover_mode_gpt4o_five_fields
      initial_state_def)

text \<open>Claim C9.  The text \<^verbatim>\<open>0:0:0:0:0\<close> has too few fields.  \<^verbatim>\<open>recover_mode\<close> of
  \<^verbatim>\<open>stty-gemini-2.5-pro.c\<close> returns false for it and \<^verbatim>\<open>main\<close> fails with \<^verbatim>\<open>invalid argument\<close>
  before anything is done to the device.  In \<^verbatim>\<open>stty-gpt-4o.c\<close> \<^verbatim>\<open>parse_cc\<close> takes the end of the
  text for the colon after the fifth field and steps over it, and \<^verbatim>\<open>recover_mode\<close> goes on
  to read the sixth field from behind the end of the text instead of returning false.\<close>

theorem short_recoverable_string_read_past_end:
  assumes "output_type cfg = changed" and "\<not> noargs cfg"
  shows "recover_mode_gpt4o ''0:0:0:0:0'' zero_termios = Inl Out_of_bounds_read \<and>
         stty_main_gpt4o vtb readback cfg (p # Some ''0:0:0:0:0'' # rest) dev =
           (EXIT_FAILURE Out_of_bounds_read, []) \<and>
         fst (recover_mode ''0:0:0:0:0'' zero_termios) = False \<and>
         stty_main vtb readback cfg (p # Some ''0:0:0:0:0'' # rest) dev =
           (EXIT_FAILURE (Invalid_argument ''0:0:0:0:0''), [])"
proof -
  have "stty_main vtb readback cfg (p # Some ''0:0:0:0:0'' # rest) dev =
          (EXIT_FAILURE (Invalid_argument ''0:0:0:0:0''), [])"
    using first_token_fails [OF apply_token_five_fields assms]
    by (simp add: initial_state_def)
  moreover have "stty_main_gpt4o vtb readback cfg (p # Some ''0:0:0:0:0'' # rest) dev =
          (EXIT_FAILURE Out_of_bounds_read, [])"
    using first_token_fails_gpt4o [OF apply_token_gpt4o_five_fields assms]
    by (simp add: initial_state_def)
  ultimately show ?thesis
    using recover_mode_five_fields recover_mode_gpt4o_five_fields by simp
qed

theorem short_recoverable_string_read_past_end_witness:
  "recover_mode_gpt4o ''0:0:0:0:0'' zero_termios = Inl Out_of_bounds_read \<and>
   stty_main_gpt4o ucast id \<lparr>output_type = changed, noargs = False, file_name = None\<rparr>
       [Some ''stty'', Some ''0:0:0:0:0''] zero_termios =
     (EXIT_FAILURE Out_of_bounds_read, []) \<and>
   fst (recover_mode ''0:0:0:0:0'' zero_termios) = False \<and>
   stty_main ucast id \<lparr>output_type = changed, noargs = False, file_name = None\<rparr>
       [Some ''stty'', Some ''0:0:0:0:0''] zero_termios =
     (EXIT_FAILURE (Invalid_argument ''0:0:0:0:0''), [])"
  using short_recoverable_string_read_past_end
    [of "\<lparr>output_type = changed, noargs = False, file_name = None\<rparr>" ucast id
      "Some ''stty''" "[]" zero_termios]
  by simp

end
